(* ===== verification/Prelude.thy ===== *)
theory Prelude
  imports Main "HOL-Library.Word" "HOL-Library.Signed_Division"
begin

text \<open>
  Shared vocabulary of the engine model (src/src/vk_engine.cpp and the headers it
  includes): the machine integer types of the C++ code, the \<open>VkResult\<close> codes, the
  \<open>VK_CHECK\<close> macro as an error value, the bind of the result type, and bounds-checked
  access to the fixed arrays and vectors the engine indexes.  Every component theory
  imports this one.
\<close>

named_theorems vk_simps
  "evaluation rules of the engine operations, used by the witnesses and functional lemmas"

section \<open>Machine integers\<close>

type_synonym u32 = "32 word"
type_synonym u64 = "64 word"

text \<open>\<open>size_t\<close> and \<open>VkDeviceSize\<close> on the 64-bit target the project builds for.\<close>
type_synonym size_t = "64 word"

text \<open>C++ \<open>int\<close>: 32 bits, read as two's complement with \<open>sint\<close>.\<close>
type_synonym i32 = "32 word"

text \<open>
  \<open>VkResult\<close> is a C enum: \<open>VK_SUCCESS = 0\<close>, positive status codes, negative errors.
\<close>
type_synonym vk_result = int

definition VK_SUCCESS :: vk_result where "VK_SUCCESS = 0"
definition VK_NOT_READY :: vk_result where "VK_NOT_READY = 1"
definition VK_TIMEOUT :: vk_result where "VK_TIMEOUT = 2"
definition VK_ERROR_OUT_OF_DEVICE_MEMORY :: vk_result where "VK_ERROR_OUT_OF_DEVICE_MEMORY = -2"
definition VK_ERROR_DEVICE_LOST :: vk_result where "VK_ERROR_DEVICE_LOST = -4"
definition VK_SUBOPTIMAL_KHR :: vk_result where "VK_SUBOPTIMAL_KHR = 1000001003"

section \<open>Engine constants\<close>

text \<open>\<open>constexpr unsigned int FRAME_OVERLAP = 2\<close> (src/src/vk_engine.h): the number of frames in flight.\<close>
definition FRAME_OVERLAP :: nat where "FRAME_OVERLAP = 2"

section \<open>Errors\<close>

text \<open>
  Every way the engine stops: \<open>Abort r\<close> is \<open>VK_CHECK\<close> printing the code \<open>r\<close> and
  calling \<open>abort()\<close>; \<open>NullDeref\<close> a dereference of a null \<open>Material*\<close> or
  \<open>Mesh*\<close>; \<open>IndexOutOfRange i n\<close> an access at index \<open>i\<close> of an array or vector of
  \<open>n\<close> elements (undefined behaviour in C++); \<open>RuntimeError\<close> a thrown
  \<open>std::runtime_error\<close> (src/src/vk_texture.cpp).
\<close>

datatype engine_error =
    Abort vk_result
  | NullDeref
  | IndexOutOfRange int nat
  | RuntimeError string

type_synonym 'a result = "engine_error + 'a"

definition rbind :: "'a result \<Rightarrow> ('a \<Rightarrow> 'b result) \<Rightarrow> 'b result" where
  "rbind r f = (case r of Inl e \<Rightarrow> Inl e | Inr a \<Rightarrow> f a)"

text \<open>
  A counted \<open>for\<close> loop whose body may fail: the body runs for each index of the list in
  turn and the first error ends the loop.
\<close>

fun rfor :: "nat list \<Rightarrow> (nat \<Rightarrow> 'a \<Rightarrow> 'a result) \<Rightarrow> 'a \<Rightarrow> 'a result" where
  "rfor [] f s = Inr s"
| "rfor (i # is) f s = rbind (f i s) (rfor is f)"

text \<open>
  \<open>VK_CHECK(x)\<close> (src/src/vk_engine.cpp, lines 20--29): any non-zero result, positive
  status codes included, aborts.
\<close>

definition vk_check :: "vk_result \<Rightarrow> unit result" where
  "vk_check err = (if err \<noteq> 0 then Inl (Abort err) else Inr ())"

section \<open>Bounds-checked indexing\<close>

text \<open>
  \<open>a[i]\<close> on a C array or \<open>std::vector\<close> is undefined outside the range; the model
  makes it an error value carrying the index.
\<close>

definition list_get :: "'a list \<Rightarrow> int \<Rightarrow> 'a result" where
  "list_get xs i =
     (if 0 \<le> i \<and> i < int (length xs) then Inr (xs ! nat i) else Inl (IndexOutOfRange i (length xs)))"

definition list_set :: "'a list \<Rightarrow> int \<Rightarrow> 'a \<Rightarrow> 'a list result" where
  "list_set xs i v =
     (if 0 \<le> i \<and> i < int (length xs) then Inr (xs[nat i := v]) else Inl (IndexOutOfRange i (length xs)))"

lemmas vk_result_codes [vk_simps] =
  VK_SUCCESS_def VK_NOT_READY_def VK_TIMEOUT_def VK_ERROR_OUT_OF_DEVICE_MEMORY_def
  VK_ERROR_DEVICE_LOST_def VK_SUBOPTIMAL_KHR_def

section \<open>Lemmas on results\<close>

lemma rbind_Inl [simp]: "rbind (Inl e) f = Inl e"
  by (simp add: rbind_def)

lemma rbind_Inr [simp]: "rbind (Inr a) f = f a"
  by (simp add: rbind_def)

lemma rbind_eq_Inr:
  "rbind r f = Inr b \<longleftrightarrow> (\<exists>a. r = Inr a \<and> f a = Inr b)"
  by (cases r) simp_all

lemma rbind_eq_Inl:
  "rbind r f = Inl e \<longleftrightarrow> r = Inl e \<or> (\<exists>a. r = Inr a \<and> f a = Inl e)"
  by (cases r) simp_all

lemma rfor_append: "rfor (xs @ ys) f s = rbind (rfor xs f s) (rfor ys f)"
  by (induction xs arbitrary: s) (simp_all add: rbind_def split: sum.splits)

lemma rfor_succeeds:
  "(\<And>i s. i \<in> set xs \<Longrightarrow> \<exists>s'. f i s = Inr s') \<Longrightarrow> \<exists>s'. rfor xs f s = Inr s'"
  by (induction xs arbitrary: s) (auto, metis rbind_Inr)

lemma rbind_vk_check [simp]:
  "rbind (vk_check r) f = (if r = 0 then f () else Inl (Abort r))"
  by (simp add: vk_check_def)

lemma vk_check_Inr_iff [simp]: "vk_check r = Inr u \<longleftrightarrow> r = 0"
  by (simp add: vk_check_def)

lemma list_get_nat [simp]: "i < length xs \<Longrightarrow> list_get xs (int i) = Inr (xs ! i)"
  by (simp add: list_get_def)

lemma list_set_nat [simp]: "i < length xs \<Longrightarrow> list_set xs (int i) v = Inr (xs[i := v])"
  by (simp add: list_set_def)

lemma list_get_Inr_iff:
  "list_get xs i = Inr x \<longleftrightarrow> 0 \<le> i \<and> i < int (length xs) \<and> x = xs ! nat i"
  by (auto simp: list_get_def)

lemma list_set_Inr_iff:
  "list_set xs i v = Inr ys \<longleftrightarrow> 0 \<le> i \<and> i < int (length xs) \<and> ys = xs[nat i := v]"
  by (auto simp: list_set_def)

lemma length_list_set:
  "list_set xs i v = Inr ys \<Longrightarrow> length ys = length xs"
  by (auto simp: list_set_Inr_iff)

section \<open>Words\<close>

unbundle bit_operations_syntax

lemma pow2_word_pos: "k < LENGTH('a) \<Longrightarrow> (0::'a::len word) < 2 ^ k"
  by (simp add: word_greater_zero_iff)

lemma unat_pow2: "k < LENGTH('a) \<Longrightarrow> unat (2 ^ k :: 'a::len word) = 2 ^ k"
  using uint_2p [OF pow2_word_pos [where 'a='a]] by (simp add: unat_eq_nat_uint nat_power_eq)

lemma pow2_lt_32: "k < 32 \<Longrightarrow> (2::nat) ^ k < 2 ^ 32"
  using power_strict_increasing [of k 32 "2::nat"] by simp

text \<open>Clearing the low \<open>k\<close> bits rounds the unsigned value down to a multiple of \<open>2 ^ k\<close>.\<close>

lemma and_not_mask_push_drop: "(x::'a::len word) AND NOT (mask k) = push_bit k (drop_bit k x)"
  by (rule bit_eqI) (auto simp: bit_simps)

lemma unat_and_not_mask: "unat ((x::'a::len word) AND NOT (mask k)) = unat x div 2 ^ k * 2 ^ k"
proof -
  have le: "unat x div 2 ^ k * 2 ^ k \<le> unat x"
    using div_times_less_eq_dividend [of "unat x" "2 ^ k"] by (simp add: mult.commute)
  have "unat x div 2 ^ k * 2 ^ k < 2 ^ LENGTH('a)"
    using le unsigned_less [of x, where ?'a = nat] by linarith
  then show ?thesis
    by (simp only: and_not_mask_push_drop unsigned_push_bit_eq unat_drop_bit_eq)
       (simp add: push_bit_eq_mult drop_bit_eq_div take_bit_nat_eq_self_iff)
qed

lemma nat_and_pred_pow2: "0 < n \<Longrightarrow> n AND (n - 1) = (0::nat) \<Longrightarrow> \<exists>k. n = 2 ^ k"
proof (induction n rule: less_induct)
  case (less n)
  show ?case
  proof (cases "n = 1")
    case True
    then show ?thesis by (intro exI [of _ 0]) simp
  next
    case n1: False
    show ?thesis
    proof (cases "even n")
      case True
      then obtain m where n: "n = 2 * m" by blast
      with less.prems(1) have m0: "0 < m" by simp
      have "n - 1 = 1 + 2 * (m - 1)" using n m0 by simp
      then have "n AND (n - 1) = (2 * m) AND (1 + 2 * (m - 1))" using n by simp
      also have "\<dots> = 2 * (m AND (m - 1))" by (subst and_nat_rec) simp
      finally have "n AND (n - 1) = 2 * (m AND (m - 1))" .
      with less.prems(2) have "m AND (m - 1) = 0" by simp
      with less.IH [of m] m0 n obtain j where "m = 2 ^ j" by auto
      with n show ?thesis by (intro exI [of _ "Suc j"]) simp
    next
      case False
      have h: "(n - Suc 0) div 2 = n div 2" using False by (auto elim!: oddE)
      have "n AND (n - 1) = 2 * (n div 2)"
        using False by (subst and_nat_rec) (simp add: h)
      moreover have "0 < n div 2" using False n1 less.prems(1) by (cases n) auto
      ultimately show ?thesis using less.prems(2) by simp
    qed
  qed
qed

lemma and_not_self_eq: "(x :: 'a::len word) AND NOT y = x \<longleftrightarrow> x AND y = 0"
  by (auto simp: bit_eq_iff bit_and_iff bit_not_iff)

lemma pow2_word_of_unat:
  assumes "unat (a :: size_t) = 2 ^ k"
  shows "k < 64 \<and> a = 2 ^ k"
proof -
  have "unat a < 2 ^ 64" using unsigned_less [of a] by simp
  then have "(2::nat) ^ k < 2 ^ 64" using assms by simp
  then have k: "k < 64" using power_less_imp_less_exp [of 2 k 64] by simp
  then have "unat a = unat (2 ^ k :: size_t)" using assms by (simp add: unat_pow2)
  with k show ?thesis by (simp add: word_unat_eq_iff)
qed

end
