(* ===== verification/Alignment.thy ===== *)
theory Alignment
  imports Prelude
begin

text \<open>
  Uniform-buffer alignment (src/src/vk_engine.cpp, \<open>VulkanEngine::pad_uniform_buffer_size\<close>)
  and the layout of the double-buffered scene-parameter buffer that
  \<open>init_descriptors\<close> allocates and \<open>draw_objects\<close> writes: one padded
  \<open>GPUSceneData\<close> region per frame slot.  The arithmetic is on 64-bit \<open>size_t\<close>
  words, so the wrap-around of \<open>alignedSize + minUboAlignment - 1\<close> is part of the model.
\<close>

unbundle bit_operations_syntax

section \<open>Definitions\<close>

text \<open>
  The device limit \<open>_gpuProperties.limits.minUniformBufferOffsetAlignment\<close> is the first
  argument; the rounding is the bit-mask formula of the source, not a division.
\<close>

definition pad_uniform_buffer_size :: "size_t \<Rightarrow> size_t \<Rightarrow> size_t" where
  "pad_uniform_buffer_size minUboAlignment originalSize =
     (let alignedSize = originalSize in
      if minUboAlignment > 0
      then (alignedSize + minUboAlignment - 1) AND NOT (minUboAlignment - 1)
      else alignedSize)"

text \<open>\<open>sizeof\<close> of the structures of src/src/vk_frameData.h (\<open>glm::vec4\<close> is 16 bytes,
  \<open>glm::mat4\<close> 64).\<close>

definition sizeof_GPUSceneData :: size_t where "sizeof_GPUSceneData = 5 * 16"
definition sizeof_GPUCameraData :: size_t where "sizeof_GPUCameraData = 3 * 64"
definition sizeof_GPUObjectData :: size_t where "sizeof_GPUObjectData = 64"

text \<open>\<open>sceneParamBufferSize\<close> of \<open>init_descriptors\<close>.\<close>

definition scene_param_buffer_size :: "size_t \<Rightarrow> size_t" where
  "scene_param_buffer_size minUboAlignment =
     of_nat FRAME_OVERLAP * pad_uniform_buffer_size minUboAlignment sizeof_GPUSceneData"

text \<open>
  The byte offset \<open>draw_objects\<close> adds to the mapped scene buffer
  (\<open>sceneData += pad_uniform_buffer_size(sizeof(GPUSceneData)) * frameIndex\<close>) and passes
  as the dynamic offset of set 0, binding 1.
\<close>

definition scene_offset :: "size_t \<Rightarrow> nat \<Rightarrow> size_t" where
  "scene_offset minUboAlignment frameIndex =
     pad_uniform_buffer_size minUboAlignment sizeof_GPUSceneData * of_nat frameIndex"

section \<open>Rounding up to a power of two\<close>

lemma pad_pow2_mask:
  "k < 64 \<Longrightarrow> pad_uniform_buffer_size (2 ^ k) s = (s + 2 ^ k - 1) AND NOT (mask k)"
  by (simp add: pad_uniform_buffer_size_def pow2_word_pos mask_eq_decr_exp)

lemma unat_pad_pow2_wrap:
  "k < 64 \<Longrightarrow> unat (pad_uniform_buffer_size (2 ^ k) s) = unat (s + 2 ^ k - 1) div 2 ^ k * 2 ^ k"
  by (simp add: pad_pow2_mask unat_and_not_mask)

lemma unat_sum_no_wrap:
  assumes "k < 64" and "unat s + 2 ^ k - 1 < 2 ^ 64"
  shows "unat (s + 2 ^ k - 1 :: size_t) = unat s + 2 ^ k - 1"
proof -
  have pk: "unat (2 ^ k :: size_t) = 2 ^ k"
    using assms(1) by (simp add: unat_pow2)
  have "unat (s + (2 ^ k - 1) :: size_t) = unat s + unat (2 ^ k - 1 :: size_t)"
    using assms pk by (subst unat_add_lem [symmetric]) (simp add: unat_sub_if' pow2_word_pos)
  then show ?thesis
    using pk by (simp add: unat_sub_if' add_diff_eq pow2_word_pos)
qed

text \<open>Without wrap-around the result is the least multiple of \<open>2 ^ k\<close> that is at least \<open>s\<close>.\<close>

lemma unat_pad_pow2:
  "k < 64 \<Longrightarrow> unat s + 2 ^ k - 1 < 2 ^ 64 \<Longrightarrow>
   unat (pad_uniform_buffer_size (2 ^ k) s) = (unat s + 2 ^ k - 1) div 2 ^ k * 2 ^ k"
  by (simp add: unat_pad_pow2_wrap unat_sum_no_wrap)

lemma round_up_bounds:
  "0 < (a::nat) \<Longrightarrow> s \<le> (s + a - 1) div a * a \<and> (s + a - 1) div a * a < s + a"
proof -
  assume a: "0 < a"
  have "(s + a - 1) div a * a + (s + a - 1) mod a = s + a - 1"
    by simp
  moreover have "(s + a - 1) mod a < a"
    using a by simp
  ultimately show ?thesis
    by linarith
qed

text \<open>The scene structure padded to an alignment of at most \<open>2 ^ 31\<close> bytes.\<close>

lemma pad_scene_bounds:
  assumes "k < 32"
  shows "80 \<le> unat (pad_uniform_buffer_size (2 ^ k) sizeof_GPUSceneData) \<and>
         unat (pad_uniform_buffer_size (2 ^ k) sizeof_GPUSceneData) < 80 + 2 ^ 32"
proof -
  have k: "k < 64" and nw: "unat (80::size_t) + 2 ^ k - 1 < 2 ^ 64"
    using assms pow2_lt_32 [OF assms] by simp_all
  have "unat (80::size_t) \<le> unat (pad_uniform_buffer_size (2 ^ k) 80) \<and>
        unat (pad_uniform_buffer_size (2 ^ k) (80::size_t)) < unat (80::size_t) + 2 ^ k"
    using unat_pad_pow2 [OF k nw] round_up_bounds [of "2 ^ k" "unat (80::size_t)"] by simp
  then show ?thesis
    using pow2_lt_32 [OF assms] by (simp add: sizeof_GPUSceneData_def)
qed

lemma unat_sum_mod:
  "k < 64 \<Longrightarrow> unat (s + 2 ^ k - 1 :: size_t) = (unat s + 2 ^ k - 1) mod 2 ^ 64"
proof -
  assume k: "k < 64"
  have pk: "unat (2 ^ k :: size_t) = 2 ^ k" using k by (simp add: unat_pow2)
  have m: "unat (2 ^ k - 1 :: size_t) = 2 ^ k - 1"
    using pk by (simp add: unat_sub_if' pow2_word_pos)
  have "unat (s + (2 ^ k - 1) :: size_t) = (unat s + (2 ^ k - 1)) mod 2 ^ 64"
    using m by (simp add: unat_word_ariths)
  moreover have "(1::nat) \<le> 2 ^ k" by simp
  ultimately show ?thesis by (simp add: add_diff_eq)
qed

section \<open>Properties\<close>

text \<open>
  C30: with a power-of-two alignment \<open>2 ^ k\<close> and no wrap-around of
  \<open>originalSize + minUboAlignment - 1\<close>, the bit-mask rounding of
  \<open>pad_uniform_buffer_size\<close> computes the spec's \<open>((S + A - 1) / A) * A\<close>.
\<close>

lemma pad_uniform_buffer_size_round_up:
  assumes "k < 64" and "unat s + 2 ^ k - 1 < 2 ^ 64"
  shows "unat (pad_uniform_buffer_size (2 ^ k) s) = (unat s + 2 ^ k - 1) div 2 ^ k * 2 ^ k"
  using assms by (rule unat_pad_pow2)

lemma pad_uniform_buffer_size_round_up_witness:
  "unat (pad_uniform_buffer_size (2 ^ 8) sizeof_GPUSceneData) = 256"
proof -
  have "unat (pad_uniform_buffer_size (2 ^ 8) (80::size_t)) =
        (unat (80::size_t) + 2 ^ 8 - 1) div 2 ^ 8 * 2 ^ 8"
    by (rule pad_uniform_buffer_size_round_up) simp_all
  then show ?thesis by (simp add: sizeof_GPUSceneData_def)
qed

text \<open>
  The padded size is a multiple of a power-of-two alignment for every input, even
  when the addition wraps around.
\<close>

lemma pad_uniform_buffer_size_aligned:
  "k < 64 \<Longrightarrow> unat (pad_uniform_buffer_size (2 ^ k) s) mod 2 ^ k = 0"
  by (simp add: unat_pad_pow2_wrap)

lemma pad_uniform_buffer_size_aligned_witness:
  "unat (pad_uniform_buffer_size (2 ^ 6) 100) mod 2 ^ 6 = 0"
  by (rule pad_uniform_buffer_size_aligned) simp

text \<open>
  Without wrap-around the padded size is at least the original size and less than
  the original size plus the alignment, so it is the least aligned size that holds it.
\<close>

lemma pad_uniform_buffer_size_bounds:
  assumes "k < 64" and "unat s + 2 ^ k - 1 < 2 ^ 64"
  shows "unat s \<le> unat (pad_uniform_buffer_size (2 ^ k) s) \<and>
         unat (pad_uniform_buffer_size (2 ^ k) s) < unat s + 2 ^ k"
  using unat_pad_pow2 [OF assms] round_up_bounds [of "2 ^ k" "unat s"] by simp

lemma pad_uniform_buffer_size_bounds_witness:
  "unat (100::size_t) \<le> unat (pad_uniform_buffer_size (2 ^ 4) 100) \<and>
   unat (pad_uniform_buffer_size (2 ^ 4) 100) < unat (100::size_t) + 2 ^ 4"
  by (rule pad_uniform_buffer_size_bounds) simp_all

text \<open>
  An alignment of 1 leaves every size unchanged, and so does a device that reports
  an alignment of 0 (the \<open>if (minUboAlignment > 0)\<close> guard).
\<close>

lemma pad_uniform_buffer_size_unit:
  "pad_uniform_buffer_size 1 s = s \<and> pad_uniform_buffer_size 0 s = s"
  by (simp add: pad_uniform_buffer_size_def)

text \<open>
  C37: the bit-mask formula computes the spec's \<open>((S + A - 1) / A) * A\<close> for every size
  whose sum does not wrap exactly when the alignment \<open>A\<close> is a power of two: for any other
  positive alignment it differs from the spec for some size (for \<open>A = 3\<close> and
  \<open>S = 1\<close> it yields 1, not 3).
\<close>

theorem pad_uniform_buffer_size_non_pow2:
  assumes "0 < a"
  shows "(\<forall>s. unat s + unat a - 1 < 2 ^ 64 \<longrightarrow>
            unat (pad_uniform_buffer_size a s) = (unat s + unat a - 1) div unat a * unat a) \<longleftrightarrow>
         (\<exists>k<64. a = 2 ^ k)"
proof
  assume all: "\<forall>s. unat s + unat a - 1 < 2 ^ 64 \<longrightarrow>
            unat (pad_uniform_buffer_size a s) = (unat s + unat a - 1) div unat a * unat a"
  have ua: "0 < unat a" using assms by (simp add: unat_gt_0)
  have "unat a < 2 ^ 64" using unsigned_less [of a] by simp
  then have "unat (1::size_t) + unat a - 1 < 2 ^ 64" by simp
  with all have "unat (pad_uniform_buffer_size a 1) = unat a" using ua by simp
  then have "a AND NOT (a - 1) = a"
    using assms by (simp add: pad_uniform_buffer_size_def word_unat_eq_iff)
  then have "a AND (a - 1) = 0" by (simp add: and_not_self_eq)
  then have "unat a AND (unat a - 1) = 0"
    using assms by (metis unat_0 unsigned_and_eq unat_minus_one word_neq_0_conv)
  then obtain k where "unat a = 2 ^ k" using nat_and_pred_pow2 ua by blast
  then show "\<exists>k<64. a = 2 ^ k" using pow2_word_of_unat by blast
next
  assume "\<exists>k<64. a = 2 ^ k"
  then obtain k where k: "k < 64" and a: "a = 2 ^ k" by blast
  then show "\<forall>s. unat s + unat a - 1 < 2 ^ 64 \<longrightarrow>
            unat (pad_uniform_buffer_size a s) = (unat s + unat a - 1) div unat a * unat a"
    by (simp add: unat_pad_pow2 unat_pow2)
qed

theorem pad_uniform_buffer_size_non_pow2_witness:
  "unat (pad_uniform_buffer_size 256 1000) = 1024 \<and>
   unat (pad_uniform_buffer_size 3 1) \<noteq> (unat (1::size_t) + unat (3::size_t) - 1) div unat (3::size_t) * unat (3::size_t)"
proof -
  have "\<exists>k<64. (256::size_t) = 2 ^ k" by (intro exI [of _ 8]) simp
  then have "unat (pad_uniform_buffer_size 256 1000) = (unat (1000::size_t) + unat (256::size_t) - 1) div unat (256::size_t) * unat (256::size_t)"
    using pad_uniform_buffer_size_non_pow2 [of 256] by simp
  then show ?thesis by (simp add: pad_uniform_buffer_size_def)
qed

text \<open>
  C38: \<open>alignedSize + minUboAlignment - 1\<close> is computed in 64-bit \<open>size_t\<close>: for a
  power-of-two alignment the padded size is smaller than the original size exactly when
  that sum wraps around, that is when \<open>S + A > 2 ^ 64\<close>; otherwise it is at least \<open>S\<close>.
\<close>

theorem pad_uniform_buffer_size_wraps:
  assumes k: "k < 64"
  shows "pad_uniform_buffer_size (2 ^ k) s < s \<longleftrightarrow> 2 ^ 64 < unat s + 2 ^ k"
proof -
  define u where "u = unat s"
  have p: "unat (pad_uniform_buffer_size (2 ^ k) s) = (u + 2 ^ k - 1) mod 2 ^ 64 div 2 ^ k * 2 ^ k"
    using k by (simp add: unat_pad_pow2_wrap unat_sum_mod u_def)
  have a64: "(2::nat) ^ k < 2 ^ 64" using k by (rule power_strict_increasing) simp
  have u64: "u < 2 ^ 64" using unsigned_less [of s] by (simp add: u_def)
  show ?thesis
  proof (cases "2 ^ 64 < u + 2 ^ k")
    case True
    have m: "(u + 2 ^ k - 1) mod 2 ^ 64 = u + 2 ^ k - 1 - 2 ^ 64"
      using True u64 a64 by (simp add: le_mod_geq)
    have "unat (pad_uniform_buffer_size (2 ^ k) s) = (u + 2 ^ k - 1 - 2 ^ 64) div 2 ^ k * 2 ^ k"
      using p m by simp
    also have "\<dots> \<le> u + 2 ^ k - 1 - 2 ^ 64" by (rule div_times_less_eq_dividend)
    also have "\<dots> < u" using True a64 by linarith
    finally have "unat (pad_uniform_buffer_size (2 ^ k) s) < u" .
    with True show ?thesis by (simp add: word_less_nat_alt u_def)
  next
    case False
    then have "(u + 2 ^ k - 1) mod 2 ^ 64 = u + 2 ^ k - 1" by simp
    with p have "u \<le> unat (pad_uniform_buffer_size (2 ^ k) s)"
      using round_up_bounds [of "2 ^ k" u] by simp
    with False show ?thesis by (simp add: word_less_nat_alt u_def)
  qed
qed

theorem pad_uniform_buffer_size_wraps_witness:
  "pad_uniform_buffer_size (2 ^ 8) (- 1) < - 1 \<and> \<not> pad_uniform_buffer_size (2 ^ 8) 1000 < 1000"
  using pad_uniform_buffer_size_wraps [of 8 "- 1"] pad_uniform_buffer_size_wraps [of 8 1000] by (simp add: unsigned_minus_1_eq_mask mask_eq_exp_minus_1)

end
