(* ===== verification/DeletionQueue.thy ===== *)
theory DeletionQueue
  imports Prelude
begin

text \<open>
  The teardown registry \<open>struct DeletionQueue\<close> of src/src/vk_engine.h: a
  \<open>std::deque<std::function<void()>>\<close> to which \<open>push_function\<close> appends and which
  \<open>flush\<close> runs back to front before clearing it.  A closure is modelled by the value of
  type \<open>'a\<close> that names what it destroys; \<open>flush\<close> returns the closures in the order
  it calls them together with the emptied queue.  The lemmas show that the loop over the
  reverse iterator calls exactly the reversed registration list, and that this order never
  destroys a resource before one that depends on it if and only if every resource was
  registered after the resources it depends on.
\<close>

section \<open>Definitions\<close>

record 'a DeletionQueue =
  deletors :: "'a list"

definition push_function :: "'a \<Rightarrow> 'a DeletionQueue \<Rightarrow> 'a DeletionQueue" where
  "push_function function q = q\<lparr>deletors := deletors q @ [function]\<rparr>"

text \<open>
  \<open>for (auto it = deletors.rbegin(); it != deletors.rend(); it++) (*it)();\<close>: the
  reverse iterator \<open>it\<close> is represented by the number of elements not yet visited; the
  element it points to is the last of them.  \<open>called\<close> is the sequence of calls so far.
\<close>

fun call_reverse :: "'a list \<Rightarrow> nat \<Rightarrow> 'a list \<Rightarrow> 'a list" where
  "call_reverse ds 0 called = called"
| "call_reverse ds (Suc it) called = call_reverse ds it (called @ [ds ! it])"

definition flush :: "'a DeletionQueue \<Rightarrow> 'a list \<times> 'a DeletionQueue" where
  "flush q =
     (let called = call_reverse (deletors q) (length (deletors q)) []
      in (called, q\<lparr>deletors := []\<rparr>))"

text \<open>
  Dependencies between resources: \<open>dep x y\<close> when \<open>x\<close> was created from \<open>y\<close>
  (an image view from its image, a framebuffer from its render pass and views, a buffer from
  the allocator), so that \<open>x\<close> must be destroyed before \<open>y\<close>.  A registration order is
  \<open>creation_ordered\<close> when nothing registered depends on something registered after
  it; a destruction order is \<open>dependents_first\<close> when nothing destroyed later depends on
  something destroyed earlier.
\<close>

fun creation_ordered :: "('a \<Rightarrow> 'a \<Rightarrow> bool) \<Rightarrow> 'a list \<Rightarrow> bool" where
  "creation_ordered dep [] = True"
| "creation_ordered dep (x # xs) = ((\<forall>y\<in>set xs. \<not> dep x y) \<and> creation_ordered dep xs)"

fun dependents_first :: "('a \<Rightarrow> 'a \<Rightarrow> bool) \<Rightarrow> 'a list \<Rightarrow> bool" where
  "dependents_first dep [] = True"
| "dependents_first dep (x # xs) = ((\<forall>y\<in>set xs. \<not> dep y x) \<and> dependents_first dep xs)"

section \<open>The reverse loop\<close>

lemma call_reverse_take:
  "n \<le> length ds \<Longrightarrow> call_reverse ds n called = called @ rev (take n ds)"
proof (induction n arbitrary: called)
  case 0
  then show ?case by simp
next
  case (Suc n)
  then have "call_reverse ds n (called @ [ds ! n]) = called @ [ds ! n] @ rev (take n ds)"
    by simp
  with Suc.prems show ?case
    by (simp add: take_Suc_conv_app_nth)
qed

lemma flush_called [vk_simps]: "fst (flush q) = rev (deletors q)"
  by (simp add: flush_def call_reverse_take)

lemma flush_queue [vk_simps]: "snd (flush q) = q\<lparr>deletors := []\<rparr>"
  by (simp add: flush_def Let_def)

lemma deletors_push_function [simp]: "deletors (push_function f q) = deletors q @ [f]"
  by (simp add: push_function_def)

section \<open>Orders of creation and destruction\<close>

lemma creation_ordered_append:
  "creation_ordered dep (xs @ ys) \<longleftrightarrow>
     creation_ordered dep xs \<and> creation_ordered dep ys \<and> (\<forall>x\<in>set xs. \<forall>y\<in>set ys. \<not> dep x y)"
  by (induction xs) auto

lemma dependents_first_append:
  "dependents_first dep (xs @ ys) \<longleftrightarrow>
     dependents_first dep xs \<and> dependents_first dep ys \<and> (\<forall>x\<in>set xs. \<forall>y\<in>set ys. \<not> dep y x)"
  by (induction xs) auto

lemma dependents_first_rev:
  "dependents_first dep (rev xs) \<longleftrightarrow> creation_ordered dep xs"
  by (induction xs) (auto simp: dependents_first_append)

text \<open>A destruction order is dependents-first when no element destroyed later depends on one destroyed earlier.\<close>

lemma dependents_first_nth:
  "dependents_first dep xs \<Longrightarrow> i < j \<Longrightarrow> j < length xs \<Longrightarrow> \<not> dep (xs ! j) (xs ! i)"
proof (induction xs arbitrary: i j)
  case Nil
  then show ?case by simp
next
  case (Cons x xs)
  show ?case
  proof (cases i)
    case 0
    with Cons.prems show ?thesis by (cases j) auto
  next
    case (Suc i')
    with Cons.prems Cons.IH [of i'] show ?thesis by (cases j) auto
  qed
qed

section \<open>Properties\<close>

text \<open>
  C10: \<open>flush\<close> calls the registered closures in exactly the reverse order of
  registration and leaves the queue empty.
\<close>

lemma flush_reverse_order:
  "flush q = (rev (deletors q), q\<lparr>deletors := []\<rparr>)"
  by (metis flush_called flush_queue prod.collapse)

text \<open>
  The spec's example: registering \<open>a\<close>, \<open>b\<close>, \<open>c\<close> and flushing calls
  \<open>c\<close>, \<open>b\<close>, \<open>a\<close>; flushing an empty queue calls nothing.
\<close>

lemma flush_register_three:
  "fst (flush (push_function c (push_function b (push_function a \<lparr>deletors = []\<rparr>)))) = [c, b, a]
   \<and> fst (flush \<lparr>deletors = []\<rparr>) = []"
  by (simp add: flush_called)

text \<open>
  A second \<open>flush\<close> re-runs no closure: the first one cleared the deque.
\<close>

lemma flush_twice_runs_nothing:
  "fst (flush (snd (flush q))) = [] \<and> deletors (snd (flush q)) = []"
  by (simp add: flush_called flush_queue)

text \<open>
  C11: the LIFO teardown destroys every resource before the resources it was created from
  if and only if every resource was registered after the resources it depends on.
\<close>

lemma flush_dependents_first_iff:
  "dependents_first dep (fst (flush q)) \<longleftrightarrow> creation_ordered dep (deletors q)"
  by (simp add: flush_called dependents_first_rev)

lemma flush_dependents_first_iff_witness:
  "dependents_first (\<lambda>x y. y < x) (fst (flush \<lparr>deletors = [1::nat, 2, 3]\<rparr>)) \<and>
   \<not> dependents_first (\<lambda>x y. y < x) (fst (flush \<lparr>deletors = [3::nat, 2, 1]\<rparr>))"
  using flush_dependents_first_iff [of "\<lambda>x y. y < x" "\<lparr>deletors = [1::nat, 2, 3]\<rparr>"]
        flush_dependents_first_iff [of "\<lambda>x y. y < x" "\<lparr>deletors = [3::nat, 2, 1]\<rparr>"]
  by simp

text \<open>
  \<open>push_function\<close> keeps the registration creation-ordered exactly when no closure
  already registered depends on the new one.
\<close>

lemma push_function_creation_ordered:
  "creation_ordered dep (deletors (push_function f q)) \<longleftrightarrow>
     creation_ordered dep (deletors q) \<and> (\<forall>y\<in>set (deletors q). \<not> dep y f)"
  by (simp add: creation_ordered_append)

lemma push_function_creation_ordered_witness:
  "creation_ordered (\<lambda>x y. y < x) (deletors (push_function (2::nat) \<lparr>deletors = [1]\<rparr>))"
  using push_function_creation_ordered [of "\<lambda>x y. y < x" 2 "\<lparr>deletors = [1::nat]\<rparr>"] by simp

end
