(* ===== verification/FrameRing.thy ===== *)
theory FrameRing
  imports Prelude Alignment
begin

text \<open>
  The frame ring and the frame orchestrator of src/src/vk_engine.cpp: \<open>draw()\<close>,
  \<open>get_current_frame()\<close>, the synchronisation objects \<open>init_sync_structures()\<close>
  creates, and the part of \<open>record_cmdbuffers\<close>/\<open>draw_objects\<close> that writes the
  slot's command buffer and CPU-visible buffers.  The GPU and the presentation engine
  run asynchronously: the work \<open>draw()\<close> hands them is a list of pending operations
  that environment steps complete in any order their semaphore waits allow.  Two ghost
  flags record what the code must never do: a CPU write to memory a pending GPU operation
  reads, and a signal of a binary semaphore whose previous signal was not yet waited on.
\<close>

section \<open>The frame counter\<close>

text \<open>
  \<open>_frames[_frameNumber % FRAME_OVERLAP]\<close>: \<open>_frameNumber\<close> is an \<open>int\<close> and
  \<open>FRAME_OVERLAP\<close> an \<open>unsigned int\<close>, so the usual arithmetic conversions compute the
  remainder on the unsigned 32-bit value.
\<close>

definition get_current_frame :: "i32 \<Rightarrow> nat" where
  "get_current_frame frameNumber = unat (frameNumber mod of_nat FRAME_OVERLAP)"

section \<open>Synchronisation state\<close>

text \<open>
  Work handed to the GPU: \<open>AcquireOp i\<close> is the presentation engine's pending signal of
  slot \<open>i\<close>'s \<open>_presentSemaphore\<close> (\<open>vkAcquireNextImageKHR\<close>); \<open>SubmitOp i\<close>
  the graphics queue's execution of slot \<open>i\<close>'s command buffer, which waits on
  \<open>_presentSemaphore\<close> and signals \<open>_renderSemaphore\<close> and \<open>_renderFence\<close>
  (\<open>vkQueueSubmit\<close>); \<open>PresentOp i\<close> the presentation, which waits on
  \<open>_renderSemaphore\<close> (\<open>vkQueuePresentKHR\<close>).
\<close>

datatype gpu_op = AcquireOp nat | SubmitOp nat | PresentOp nat

text \<open>
  Memory the CPU writes and the GPU reads: a slot's command buffer, camera uniform buffer
  and object storage buffer, and a byte range \<open>[lo, hi)\<close> of the shared scene buffer.
\<close>

datatype gpu_resource =
    CommandBuffer nat
  | CameraBuffer nat
  | ObjectBuffer nat
  | SceneBytes nat nat

fun overlaps :: "gpu_resource \<Rightarrow> gpu_resource \<Rightarrow> bool" where
  "overlaps (SceneBytes lo hi) (SceneBytes lo' hi') = (lo < hi' \<and> lo' < hi)"
| "overlaps r r' = (r = r')"

text \<open>
  The scene bytes a frame slot uses: \<open>sizeof(GPUSceneData)\<close> bytes at its padded offset.
\<close>

definition scene_bytes :: "size_t \<Rightarrow> nat \<Rightarrow> gpu_resource" where
  "scene_bytes minUboAlignment i =
     SceneBytes (unat (scene_offset minUboAlignment i))
                (unat (scene_offset minUboAlignment i) + unat sizeof_GPUSceneData)"

text \<open>What the command buffer of slot \<open>i\<close> reads while it executes.\<close>

fun op_reads :: "size_t \<Rightarrow> gpu_op \<Rightarrow> gpu_resource list" where
  "op_reads a (SubmitOp i) = [CommandBuffer i, CameraBuffer i, ObjectBuffer i, scene_bytes a i]"
| "op_reads a _ = []"

text \<open>
  The synchronisation members of \<open>FrameData\<close> (src/src/vk_frameData.h): whether
  \<open>_renderFence\<close> is signalled, and for each binary semaphore the number of signal
  operations issued and not yet consumed by a wait.
\<close>

record FrameSync =
  renderFence :: bool
  presentSemaphore :: nat
  renderSemaphore :: nat

record SyncState =
  frameNumber :: i32
  frames :: "FrameSync list"
  minUboAlignment :: size_t
  framebuffer_count :: nat
  pending :: "gpu_op list"
  cpu_gpu_race :: bool
  present_sem_misuse :: bool
  render_sem_misuse :: bool

text \<open>
  \<open>init_sync_structures()\<close>: the fences are created with
  \<open>VK_FENCE_CREATE_SIGNALED_BIT\<close>, the semaphores unsignalled; the frame counter starts at 0.
\<close>

definition sync_init :: "size_t \<Rightarrow> nat \<Rightarrow> SyncState" where
  "sync_init a n =
     \<lparr>frameNumber = 0,
      frames = replicate FRAME_OVERLAP \<lparr>renderFence = True, presentSemaphore = 0, renderSemaphore = 0\<rparr>,
      minUboAlignment = a, framebuffer_count = n, pending = [],
      cpu_gpu_race = False, present_sem_misuse = False, render_sem_misuse = False\<rparr>"

section \<open>The steps of \<open>draw()\<close>\<close>

definition map_frame :: "nat \<Rightarrow> (FrameSync \<Rightarrow> FrameSync) \<Rightarrow> SyncState \<Rightarrow> SyncState" where
  "map_frame i f s = s\<lparr>frames := (frames s)[i := f (frames s ! i)]\<rparr>"

text \<open>
  \<open>vkWaitForFences\<close> with a one-second timeout.  GPU steps that complete within the
  timeout are ordered before the call, so an unsignalled fence at the call is a timeout.
\<close>

definition wait_for_fence :: "nat \<Rightarrow> SyncState \<Rightarrow> vk_result" where
  "wait_for_fence i s = (if renderFence (frames s ! i) then VK_SUCCESS else VK_TIMEOUT)"

definition reset_fence :: "nat \<Rightarrow> SyncState \<Rightarrow> SyncState" where
  "reset_fence i s = map_frame i (\<lambda>f. f\<lparr>renderFence := False\<rparr>) s"

text \<open>A CPU write; the ghost flag records whether pending GPU work reads the memory.\<close>

definition cpu_write :: "gpu_resource \<Rightarrow> SyncState \<Rightarrow> SyncState" where
  "cpu_write r s =
     s\<lparr>cpu_gpu_race := cpu_gpu_race s \<or>
        (\<exists>op\<in>set (pending s). \<exists>r'\<in>set (op_reads (minUboAlignment s) op). overlaps r r')\<rparr>"

text \<open>\<open>vkAcquireNextImageKHR(..., _presentSemaphore, ...)\<close>.\<close>

definition acquire_next_image :: "nat \<Rightarrow> SyncState \<Rightarrow> SyncState" where
  "acquire_next_image i s =
     (let s1 = s\<lparr>present_sem_misuse := present_sem_misuse s \<or> presentSemaphore (frames s ! i) \<noteq> 0\<rparr>
      in map_frame i (\<lambda>f. f\<lparr>presentSemaphore := Suc (presentSemaphore f)\<rparr>)
           (s1\<lparr>pending := pending s1 @ [AcquireOp i]\<rparr>))"

text \<open>
  The writes of \<open>draw_objects\<close> to the current slot: the camera buffer, the slot's
  region of the scene buffer, the object storage buffer, in that order.
\<close>

definition draw_objects_writes :: "nat \<Rightarrow> SyncState \<Rightarrow> SyncState" where
  "draw_objects_writes i s =
     fold cpu_write [CameraBuffer i, scene_bytes (minUboAlignment s) i, ObjectBuffer i] s"

text \<open>External results of the Vulkan calls of one frame.\<close>

record draw_env =
  reset_result :: vk_result
  acquire_result :: vk_result
  image_index :: u32
  reset_cmd_result :: vk_result
  begin_cmd_result :: vk_result
  end_cmd_result :: vk_result
  submit_result :: vk_result
  present_result :: vk_result

text \<open>
  \<open>record_cmdbuffers(cmd, imageIndex)\<close>: reset and begin the slot's command buffer, begin
  the render pass on \<open>_framebuffers[imageIndex]\<close>, run \<open>draw_objects\<close>, end.
\<close>

definition record_cmdbuffers :: "draw_env \<Rightarrow> nat \<Rightarrow> SyncState \<Rightarrow> SyncState result" where
  "record_cmdbuffers env i s =
     rbind (vk_check (reset_cmd_result env)) (\<lambda>_.
     (let s1 = cpu_write (CommandBuffer i) s in
     rbind (vk_check (begin_cmd_result env)) (\<lambda>_.
     rbind (if unat (image_index env) < framebuffer_count s1 then Inr ()
            else Inl (IndexOutOfRange (int (unat (image_index env))) (framebuffer_count s1))) (\<lambda>_.
     (let s2 = draw_objects_writes i s1 in
     rbind (vk_check (end_cmd_result env)) (\<lambda>_. Inr s2))))))"

text \<open>\<open>vkQueueSubmit\<close>: signals \<open>_renderSemaphore\<close>, and the fence on completion.\<close>

definition queue_submit :: "nat \<Rightarrow> SyncState \<Rightarrow> SyncState" where
  "queue_submit i s =
     (let s1 = s\<lparr>render_sem_misuse := render_sem_misuse s \<or> renderSemaphore (frames s ! i) \<noteq> 0\<rparr>
      in map_frame i (\<lambda>f. f\<lparr>renderSemaphore := Suc (renderSemaphore f)\<rparr>)
           (s1\<lparr>pending := pending s1 @ [SubmitOp i]\<rparr>))"

definition queue_present :: "nat \<Rightarrow> SyncState \<Rightarrow> SyncState" where
  "queue_present i s = s\<lparr>pending := pending s @ [PresentOp i]\<rparr>"

text \<open>\<open>VulkanEngine::draw()\<close>, each \<open>VK_CHECK\<close> an early abort.\<close>

definition draw :: "draw_env \<Rightarrow> SyncState \<Rightarrow> SyncState result" where
  "draw env s =
     (let i = get_current_frame (frameNumber s) in
      rbind (vk_check (wait_for_fence i s)) (\<lambda>_.
      rbind (vk_check (reset_result env)) (\<lambda>_.
      (let s1 = reset_fence i s in
      rbind (vk_check (acquire_result env)) (\<lambda>_.
      (let s2 = acquire_next_image i s1 in
      rbind (record_cmdbuffers env i s2) (\<lambda>s3.
      rbind (vk_check (submit_result env)) (\<lambda>_.
      (let s4 = queue_submit i s3 in
      rbind (vk_check (present_result env)) (\<lambda>_.
      (let s5 = queue_present i s4 in
      Inr (s5\<lparr>frameNumber := frameNumber s5 + 1\<rparr>))))))))))))"

section \<open>The GPU and the presentation engine\<close>

text \<open>
  One pending operation completes.  A submission starts only after its acquire has
  signalled the present semaphore, a presentation only after the render semaphore is
  signalled; completing a submission consumes the present semaphore and signals the fence,
  completing a presentation consumes the render semaphore.
\<close>

inductive gpu_step :: "SyncState \<Rightarrow> SyncState \<Rightarrow> bool" where
  acquire_done:
    "AcquireOp i \<in> set (pending s) \<Longrightarrow>
     gpu_step s (s\<lparr>pending := remove1 (AcquireOp i) (pending s)\<rparr>)"
| submit_done:
    "SubmitOp i \<in> set (pending s) \<Longrightarrow> AcquireOp i \<notin> set (pending s) \<Longrightarrow>
     gpu_step s (map_frame i (\<lambda>f. f\<lparr>renderFence := True, presentSemaphore := presentSemaphore f - 1\<rparr>)
                   (s\<lparr>pending := remove1 (SubmitOp i) (pending s)\<rparr>))"
| present_done:
    "PresentOp i \<in> set (pending s) \<Longrightarrow> SubmitOp i \<notin> set (pending s) \<Longrightarrow>
     gpu_step s (map_frame i (\<lambda>f. f\<lparr>renderSemaphore := renderSemaphore f - 1\<rparr>)
                   (s\<lparr>pending := remove1 (PresentOp i) (pending s)\<rparr>))"

text \<open>
  The states the engine can reach after \<open>init()\<close>: from the initial synchronisation
  state for a power-of-two alignment, by frames that \<open>draw()\<close> completes and by GPU steps.
\<close>

inductive reachable :: "SyncState \<Rightarrow> bool" where
  init: "k < 32 \<Longrightarrow> reachable (sync_init (2 ^ k) n)"
| cpu: "reachable s \<Longrightarrow> draw env s = Inr s' \<Longrightarrow> reachable s'"
| gpu: "reachable s \<Longrightarrow> gpu_step s s' \<Longrightarrow> reachable s'"

section \<open>A completed frame\<close>

definition frame_done :: "nat \<Rightarrow> SyncState \<Rightarrow> SyncState" where
  "frame_done i s =
     (let s4 = queue_submit i (draw_objects_writes i (cpu_write (CommandBuffer i)
                 (acquire_next_image i (reset_fence i s))));
          s5 = queue_present i s4
      in s5\<lparr>frameNumber := frameNumber s5 + 1\<rparr>)"

fun op_slot :: "gpu_op \<Rightarrow> nat" where
  "op_slot (AcquireOp i) = i"
| "op_slot (SubmitOp i) = i"
| "op_slot (PresentOp i) = i"

definition slot_inv :: "SyncState \<Rightarrow> nat \<Rightarrow> bool" where
  "slot_inv s i \<longleftrightarrow>
     count_list (pending s) (SubmitOp i) \<le> 1 \<and>
     (renderFence (frames s ! i) \<longleftrightarrow> SubmitOp i \<notin> set (pending s)) \<and>
     presentSemaphore (frames s ! i) = count_list (pending s) (SubmitOp i) \<and>
     count_list (pending s) (AcquireOp i) \<le> count_list (pending s) (SubmitOp i) \<and>
     renderSemaphore (frames s ! i) = count_list (pending s) (PresentOp i)"

definition sync_inv :: "SyncState \<Rightarrow> bool" where
  "sync_inv s \<longleftrightarrow>
     length (frames s) = FRAME_OVERLAP \<and>
     (\<exists>k<32. minUboAlignment s = 2 ^ k) \<and>
     (\<forall>op\<in>set (pending s). op_slot op < FRAME_OVERLAP) \<and>
     (\<forall>i<FRAME_OVERLAP. slot_inv s i) \<and>
     \<not> cpu_gpu_race s \<and> \<not> present_sem_misuse s"

definition slot_writes :: "size_t \<Rightarrow> nat \<Rightarrow> gpu_resource list" where
  "slot_writes a i = [CommandBuffer i, CameraBuffer i, scene_bytes a i, ObjectBuffer i]"

definition ok_env :: draw_env where
  "ok_env = \<lparr>reset_result = 0, acquire_result = 0, image_index = 0, reset_cmd_result = 0,
             begin_cmd_result = 0, end_cmd_result = 0, submit_result = 0, present_result = 0\<rparr>"

fun is_submit :: "gpu_op \<Rightarrow> bool" where
  "is_submit (SubmitOp i) = True"
| "is_submit _ = False"

lemmas sync_op_defs =
  map_frame_def reset_fence_def acquire_next_image_def queue_submit_def queue_present_def
  cpu_write_def draw_objects_writes_def

lemma get_current_frame_lt: "get_current_frame n < FRAME_OVERLAP"
  by (simp add: get_current_frame_def FRAME_OVERLAP_def unat_mod)

lemma framebuffer_count_ops [simp]:
  "framebuffer_count (cpu_write r s) = framebuffer_count s"
  "framebuffer_count (acquire_next_image i s) = framebuffer_count s"
  "framebuffer_count (reset_fence i s) = framebuffer_count s"
  by (simp_all add: sync_op_defs Let_def)

lemma draw_Inr_iff:
  "draw env s = Inr s' \<longleftrightarrow>
     renderFence (frames s ! get_current_frame (frameNumber s)) \<and>
     reset_result env = 0 \<and> acquire_result env = 0 \<and> reset_cmd_result env = 0 \<and>
     begin_cmd_result env = 0 \<and> unat (image_index env) < framebuffer_count s \<and>
     end_cmd_result env = 0 \<and> submit_result env = 0 \<and> present_result env = 0 \<and>
     s' = frame_done (get_current_frame (frameNumber s)) s"
  by (auto simp: draw_def record_cmdbuffers_def wait_for_fence_def frame_done_def VK_SUCCESS_def VK_TIMEOUT_def Let_def)

lemma sync_inv_init: "k < 32 \<Longrightarrow> sync_inv (sync_init (2 ^ k) n)"
  by (auto simp: sync_inv_def slot_inv_def sync_init_def FRAME_OVERLAP_def)

lemma slot_inv_gpu_step:
  assumes "gpu_step s t" and "sync_inv s" and "j < FRAME_OVERLAP"
  shows "slot_inv t j"
  using assms
proof (induction rule: gpu_step.induct)
  case (acquire_done i s)
  then show ?case
    by (auto simp: slot_inv_def sync_inv_def simp flip: count_list_0_iff)
next
  case (submit_done i s)
  then show ?case
    by (auto simp: slot_inv_def sync_inv_def map_frame_def nth_list_update
             simp flip: count_list_0_iff)
next
  case (present_done i s)
  then show ?case
    by (auto simp: slot_inv_def sync_inv_def map_frame_def nth_list_update
             simp flip: count_list_0_iff)
qed

lemma scene_bytes_disjoint:
  assumes "k < 32" and "i < FRAME_OVERLAP" and "j < FRAME_OVERLAP" and "i \<noteq> j"
  shows "\<not> overlaps (scene_bytes (2 ^ k) i) (scene_bytes (2 ^ k) j)"
proof -
  have "i = 0 \<and> j = 1 \<or> i = 1 \<and> j = 0"
    using assms(2-4) by (auto simp: FRAME_OVERLAP_def)
  then show ?thesis
    using pad_scene_bounds [OF assms(1)]
    by (auto simp: scene_bytes_def scene_offset_def sizeof_GPUSceneData_def)
qed

lemma cpu_write_fields [simp]:
  "pending (cpu_write r s) = pending s"
  "frames (cpu_write r s) = frames s"
  "minUboAlignment (cpu_write r s) = minUboAlignment s"
  "present_sem_misuse (cpu_write r s) = present_sem_misuse s"
  "cpu_gpu_race (cpu_write r s) =
     (cpu_gpu_race s \<or> (\<exists>op\<in>set (pending s). \<exists>r'\<in>set (op_reads (minUboAlignment s) op). overlaps r r'))"
  by (simp_all add: cpu_write_def)

lemma fold_cpu_write:
  "pending (fold cpu_write rs s) = pending s \<and> frames (fold cpu_write rs s) = frames s \<and>
   minUboAlignment (fold cpu_write rs s) = minUboAlignment s \<and>
   present_sem_misuse (fold cpu_write rs s) = present_sem_misuse s \<and>
   cpu_gpu_race (fold cpu_write rs s) =
     (cpu_gpu_race s \<or>
      (\<exists>r\<in>set rs. \<exists>op\<in>set (pending s). \<exists>r'\<in>set (op_reads (minUboAlignment s) op). overlaps r r'))"
  by (induction rs arbitrary: s) auto

lemma frame_done_fields:
  assumes "i < length (frames s)"
  shows "pending (frame_done i s) = pending s @ [AcquireOp i, SubmitOp i, PresentOp i]"
    and "frames (frame_done i s) =
           (frames s)[i := (frames s ! i)\<lparr>renderFence := False,
              presentSemaphore := Suc (presentSemaphore (frames s ! i)),
              renderSemaphore := Suc (renderSemaphore (frames s ! i))\<rparr>]"
    and "minUboAlignment (frame_done i s) = minUboAlignment s"
    and "present_sem_misuse (frame_done i s) =
           (present_sem_misuse s \<or> presentSemaphore (frames s ! i) \<noteq> 0)"
    and "cpu_gpu_race (frame_done i s) =
           (cpu_gpu_race s \<or>
            (\<exists>r\<in>set (slot_writes (minUboAlignment s) i). \<exists>op\<in>set (pending s).
               \<exists>r'\<in>set (op_reads (minUboAlignment s) op). overlaps r r'))"
  using assms
  by (auto simp: frame_done_def reset_fence_def acquire_next_image_def queue_submit_def
        queue_present_def draw_objects_writes_def map_frame_def fold_cpu_write slot_writes_def Let_def)

lemma slot_writes_no_overlap:
  assumes "k < 32" and "i < FRAME_OVERLAP" and "j < FRAME_OVERLAP" and "i \<noteq> j"
  shows "\<forall>r\<in>set (slot_writes (2 ^ k) i). \<forall>r'\<in>set (op_reads (2 ^ k) (SubmitOp j)). \<not> overlaps r r'"
  using scene_bytes_disjoint [OF assms, unfolded scene_bytes_def] assms(4)
  by (auto simp: slot_writes_def scene_bytes_def)

lemma sync_inv_frame_done:
  assumes inv: "sync_inv s" and i: "i < FRAME_OVERLAP" and fence: "renderFence (frames s ! i)"
  shows "sync_inv (frame_done i s)"
proof -
  from inv i have len: "length (frames s) = FRAME_OVERLAP" and si: "slot_inv s i"
    by (auto simp: sync_inv_def)
  from inv obtain k where k: "k < 32" and a: "minUboAlignment s = 2 ^ k"
    by (auto simp: sync_inv_def)
  from si fence have nosub: "SubmitOp i \<notin> set (pending s)" and
      ps: "presentSemaphore (frames s ! i) = 0" and acq: "AcquireOp i \<notin> set (pending s)"
    by (auto simp: slot_inv_def simp flip: count_list_0_iff)
  have norace: "\<forall>r\<in>set (slot_writes (minUboAlignment s) i). \<forall>op\<in>set (pending s).
                  \<forall>r'\<in>set (op_reads (minUboAlignment s) op). \<not> overlaps r r'"
  proof (intro ballI)
    fix r op r'
    assume r: "r \<in> set (slot_writes (minUboAlignment s) i)" and op: "op \<in> set (pending s)"
      and r': "r' \<in> set (op_reads (minUboAlignment s) op)"
    then obtain j where j: "op = SubmitOp j" by (cases op) auto
    with op nosub inv have "j < FRAME_OVERLAP" and "i \<noteq> j"
      by (auto simp: sync_inv_def)
    with slot_writes_no_overlap [OF k i] r r' j a show "\<not> overlaps r r'" by auto
  qed
  have slots: "\<forall>j<FRAME_OVERLAP. slot_inv (frame_done i s) j"
    using inv i len nosub acq ps
    by (auto simp: sync_inv_def slot_inv_def frame_done_fields nth_list_update
             simp flip: count_list_0_iff)
  show ?thesis
    using inv i len ps norace slots
    by (auto simp: sync_inv_def frame_done_fields)
qed

lemma sync_inv_gpu_step:
  assumes st: "gpu_step s t" and inv: "sync_inv s"
  shows "sync_inv t"
proof -
  have slots: "\<forall>j<FRAME_OVERLAP. slot_inv t j"
    using slot_inv_gpu_step [OF st inv] by blast
  have "length (frames t) = FRAME_OVERLAP \<and> (\<exists>k<32. minUboAlignment t = 2 ^ k) \<and>
        (\<forall>op\<in>set (pending t). op_slot op < FRAME_OVERLAP) \<and>
        \<not> cpu_gpu_race t \<and> \<not> present_sem_misuse t"
    using st inv
    by (induction rule: gpu_step.induct)
       (auto simp: sync_inv_def map_frame_def dest: set_remove1_subset [THEN subsetD])
  with slots show ?thesis
    by (simp add: sync_inv_def)
qed

lemma reachable_sync_inv: "reachable s \<Longrightarrow> sync_inv s"
proof (induction rule: reachable.induct)
  case (init k n)
  then show ?case by (rule sync_inv_init)
next
  case (cpu s env s')
  then have "s' = frame_done (get_current_frame (frameNumber s)) s"
    and "renderFence (frames s ! get_current_frame (frameNumber s))"
    by (simp_all add: draw_Inr_iff)
  with cpu.IH show ?case
    using sync_inv_frame_done get_current_frame_lt by simp
next
  case (gpu s s')
  then show ?case by (blast intro: sync_inv_gpu_step)
qed
section \<open>Runs and properties\<close>

lemma length_filter_is_submit:
  "\<forall>op\<in>set xs. op_slot op < FRAME_OVERLAP \<Longrightarrow>
   length (filter is_submit xs) = count_list xs (SubmitOp 0) + count_list xs (SubmitOp 1)"
proof (induction xs)
  case Nil
  then show ?case by simp
next
  case (Cons op xs)
  then show ?case by (cases op) (auto simp: FRAME_OVERLAP_def)
qed

lemma draw_ok_env:
  "renderFence (frames s ! get_current_frame (frameNumber s)) \<Longrightarrow> 0 < framebuffer_count s \<Longrightarrow>
   draw ok_env s = Inr (frame_done (get_current_frame (frameNumber s)) s)"
  by (simp add: draw_Inr_iff ok_env_def)

lemma reachable_first_frame: "reachable (frame_done 0 (sync_init (2 ^ 8) 3))"
proof -
  have r0: "reachable (sync_init (2 ^ 8) 3)" by (rule reachable.init) simp
  have "draw ok_env (sync_init (2 ^ 8) 3) = Inr (frame_done 0 (sync_init (2 ^ 8) 3))"
    by (simp add: draw_ok_env sync_init_def get_current_frame_def FRAME_OVERLAP_def)
  with r0 show ?thesis by (rule reachable.cpu)
qed

lemma gpu_step_enabled:
  assumes "pending s \<noteq> []"
  shows "\<exists>t. gpu_step s t \<and> length (pending t) = length (pending s) - 1"
proof (cases "\<exists>i. AcquireOp i \<in> set (pending s)")
  case True
  then obtain i where "AcquireOp i \<in> set (pending s)" by blast
  then have "gpu_step s (s\<lparr>pending := remove1 (AcquireOp i) (pending s)\<rparr>)"
    by (rule gpu_step.acquire_done)
  with \<open>AcquireOp i \<in> set (pending s)\<close> show ?thesis by (auto simp: length_remove1)
next
  case noacq: False
  show ?thesis
  proof (cases "\<exists>i. SubmitOp i \<in> set (pending s)")
    case True
    then obtain i where "SubmitOp i \<in> set (pending s)" by blast
    with noacq have "gpu_step s (map_frame i (\<lambda>f. f\<lparr>renderFence := True, presentSemaphore := presentSemaphore f - 1\<rparr>)
                   (s\<lparr>pending := remove1 (SubmitOp i) (pending s)\<rparr>))"
      by (blast intro: gpu_step.submit_done)
    with \<open>SubmitOp i \<in> set (pending s)\<close> show ?thesis by (auto simp: map_frame_def length_remove1)
  next
    case nosub: False
    obtain op where opin: "op \<in> set (pending s)" using assms by (cases "pending s") auto
    obtain i where "op = PresentOp i" using opin noacq nosub by (cases op rule: gpu_op.exhaust) blast+
    with opin nosub have "gpu_step s (map_frame i (\<lambda>f. f\<lparr>renderSemaphore := renderSemaphore f - 1\<rparr>)
                   (s\<lparr>pending := remove1 (PresentOp i) (pending s)\<rparr>))"
      by (blast intro: gpu_step.present_done)
    with opin \<open>op = PresentOp i\<close> show ?thesis by (auto simp: map_frame_def length_remove1)
  qed
qed

lemma gpu_drain:
  "reachable s \<Longrightarrow> length (pending s) = n \<Longrightarrow> \<exists>t. gpu_step\<^sup>*\<^sup>* s t \<and> reachable t \<and> pending t = []"
proof (induction n arbitrary: s)
  case 0
  then show ?case by auto
next
  case (Suc n)
  then have "pending s \<noteq> []" by auto
  then obtain t where t: "gpu_step s t" "length (pending t) = n"
    using gpu_step_enabled [of s] Suc.prems(2) by auto
  with Suc.prems have "reachable t" by (blast intro: reachable.gpu)
  with Suc.IH [of t] t obtain u where "gpu_step\<^sup>*\<^sup>* t u" "reachable u" "pending u = []" by blast
  with t show ?case by (blast intro: converse_rtranclp_into_rtranclp)
qed

text \<open>
  C1: in every state the engine can reach, no CPU write of \<open>draw()\<close> (command-buffer reset and recording, camera buffer, scene region, object buffer) has touched memory that a pending GPU submission reads: the fence wait protects each slot's resources, and the slots' scene regions are disjoint.
\<close>

lemma frame_sync_no_race: "reachable s \<Longrightarrow> \<not> cpu_gpu_race s"
  using reachable_sync_inv by (simp add: sync_inv_def)

text \<open>
  C9: the fence wait does not protect \<open>_renderSemaphore\<close>: there is a reachable state in which \<open>vkQueueSubmit\<close> signals a slot's render semaphore while the presentation of two frames earlier has not yet waited on it.
\<close>

lemma render_semaphore_reuse: "\<exists>s. reachable s \<and> render_sem_misuse s"
proof -
  define s1 where "s1 = frame_done 0 (sync_init (2 ^ 8) 3)"
  have r1: "reachable s1" unfolding s1_def by (rule reachable_first_frame)
  have p1: "pending s1 = [AcquireOp 0, SubmitOp 0, PresentOp 0]"
    by (simp add: s1_def frame_done_fields sync_init_def FRAME_OVERLAP_def)
  define s2 where "s2 = s1\<lparr>pending := remove1 (AcquireOp 0) (pending s1)\<rparr>"
  have r2: "reachable s2"
    using r1 gpu_step.acquire_done [of 0 s1] p1 unfolding s2_def by (simp add: reachable.gpu)
  define s3 where "s3 = map_frame 0 (\<lambda>f. f\<lparr>renderFence := True, presentSemaphore := presentSemaphore f - 1\<rparr>)
                           (s2\<lparr>pending := remove1 (SubmitOp 0) (pending s2)\<rparr>)"
  have r3: "reachable s3"
    using r2 gpu_step.submit_done [of 0 s2] p1 unfolding s3_def by (simp add: s2_def reachable.gpu)
  have f3: "frameNumber s3 = 1" and fb3: "framebuffer_count s3 = 3"
    and fr3: "frames s3 = [\<lparr>renderFence = True, presentSemaphore = 0, renderSemaphore = 1\<rparr>,
                          \<lparr>renderFence = True, presentSemaphore = 0, renderSemaphore = 0\<rparr>]"
    by (simp_all add: s3_def s2_def s1_def map_frame_def frame_done_def sync_op_defs sync_init_def
                      FRAME_OVERLAP_def Let_def numeral_2_eq_2)
  define s4 where "s4 = frame_done 1 s3"
  have r4: "reachable s4"
    using reachable.cpu [OF r3, of ok_env] f3 fb3 fr3
    by (simp add: s4_def draw_ok_env get_current_frame_def FRAME_OVERLAP_def)
  have f4: "frameNumber s4 = 2" and fb4: "framebuffer_count s4 = 3"
    and fr4: "frames s4 ! 0 = \<lparr>renderFence = True, presentSemaphore = 0, renderSemaphore = 1\<rparr>"
    and len4: "length (frames s4) = 2"
    using f3 fb3 fr3
    by (simp_all add: s4_def frame_done_def sync_op_defs Let_def)
  define s5 where "s5 = frame_done 0 s4"
  have r5: "reachable s5"
    using reachable.cpu [OF r4, of ok_env] f4 fb4 fr4
    by (simp add: s5_def draw_ok_env get_current_frame_def FRAME_OVERLAP_def)
  have "render_sem_misuse s5"
    using fr4 len4 by (simp add: s5_def frame_done_def sync_op_defs Let_def)
  with r5 show ?thesis by blast
qed

text \<open>
  C4: at most \<open>FRAME_OVERLAP\<close> = 2 submissions are in flight on the GPU in every reachable state: the fence wait at the start of a frame is the back-pressure.
\<close>

lemma frames_in_flight_bound:
  "reachable s \<Longrightarrow> length (filter is_submit (pending s)) \<le> FRAME_OVERLAP"
proof -
  assume "reachable s"
  then have inv: "sync_inv s" by (rule reachable_sync_inv)
  then have "slot_inv s 0" and "slot_inv s 1" and "\<forall>op\<in>set (pending s). op_slot op < FRAME_OVERLAP"
    by (simp_all add: sync_inv_def FRAME_OVERLAP_def)
  then show ?thesis
    by (simp add: length_filter_is_submit slot_inv_def FRAME_OVERLAP_def)
qed

lemma frames_in_flight_bound_witness:
  "reachable (frame_done 0 (sync_init (2 ^ 8) 3)) \<and>
   length (filter is_submit (pending (frame_done 0 (sync_init (2 ^ 8) 3)))) \<le> FRAME_OVERLAP"
  using frames_in_flight_bound [OF reachable_first_frame] reachable_first_frame by simp

text \<open>
  C14: invariant of the frame slots: in every state the engine can reach, a slot's
  \<open>_renderFence\<close> is signalled exactly when no submission of that slot is pending on the
  GPU, and its \<open>_presentSemaphore\<close> holds one signal per pending submission (the one
  that will wait on it): the fence reset before each submit and the signal at its
  completion keep the fence in step with the GPU.
\<close>

theorem fence_tracks_submission:
  "reachable s \<Longrightarrow> i < FRAME_OVERLAP \<Longrightarrow>
   (renderFence (frames s ! i) \<longleftrightarrow> SubmitOp i \<notin> set (pending s)) \<and>
   presentSemaphore (frames s ! i) = count_list (pending s) (SubmitOp i)"
  using reachable_sync_inv by (simp add: sync_inv_def slot_inv_def)

theorem fence_tracks_submission_witness:
  "\<not> renderFence (frames (frame_done 0 (sync_init (2 ^ 8) 3)) ! 0) \<and>
   SubmitOp 0 \<in> set (pending (frame_done 0 (sync_init (2 ^ 8) 3))) \<and>
   presentSemaphore (frames (frame_done 0 (sync_init (2 ^ 8) 3)) ! 0) = 1"
proof -
  have p: "pending (frame_done 0 (sync_init (2 ^ 8) 3)) = [AcquireOp 0, SubmitOp 0, PresentOp 0]"
    by (simp add: frame_done_fields sync_init_def FRAME_OVERLAP_def)
  show ?thesis
    using fence_tracks_submission [OF reachable_first_frame, of 0] p by (simp add: FRAME_OVERLAP_def)
qed

text \<open>
  C8: \<open>vkAcquireNextImageKHR\<close> never signals a slot's \<open>_presentSemaphore\<close> while an earlier signal of it is still unconsumed: the fence wait covers the submission that waits on it.
\<close>

lemma present_semaphore_valid: "reachable s \<Longrightarrow> \<not> present_sem_misuse s"
  using reachable_sync_inv by (simp add: sync_inv_def)

text \<open>
  C6: liveness of the frame loop: from every state the engine can reach, the GPU and the presentation engine can complete all pending work (no semaphore wait blocks forever), and then every slot's fence is signalled, so the fence wait of the next \<open>draw()\<close> succeeds.
\<close>

theorem gpu_work_drains:
  "reachable s \<Longrightarrow> \<exists>t. gpu_step\<^sup>*\<^sup>* s t \<and> reachable t \<and> pending t = [] \<and>
     (\<forall>i<FRAME_OVERLAP. wait_for_fence i t = VK_SUCCESS)"
proof -
  assume "reachable s"
  then obtain t where t: "gpu_step\<^sup>*\<^sup>* s t" "reachable t" "pending t = []"
    using gpu_drain by blast
  have "sync_inv t" using t(2) by (rule reachable_sync_inv)
  then have "wait_for_fence i t = VK_SUCCESS" if "i < FRAME_OVERLAP" for i
    using that t(3) by (simp add: sync_inv_def slot_inv_def wait_for_fence_def)
  with t show ?thesis by blast
qed

theorem gpu_work_drains_witness:
  "\<exists>t. gpu_step\<^sup>*\<^sup>* (frame_done 0 (sync_init (2 ^ 8) 3)) t \<and> reachable t \<and> pending t = [] \<and>
     (\<forall>i<FRAME_OVERLAP. wait_for_fence i t = VK_SUCCESS)"
  using gpu_work_drains [OF reachable_first_frame] .

lemma frameNumber_frame_done: "frameNumber (frame_done i s) = frameNumber s + 1"
  by (simp add: frame_done_def sync_op_defs Let_def)

text \<open>
  A frame that \<open>draw()\<close> completes uses the slot \<open>get_current_frame\<close> selects, whose fence was signalled; it queues an acquire, a submission and a presentation for that slot, leaves its fence unsignalled and advances the frame counter by one.
\<close>

lemma draw_success_effect:
  assumes "draw env s = Inr s'" and "length (frames s) = FRAME_OVERLAP"
  shows "frameNumber s' = frameNumber s + 1 \<and>
         pending s' = pending s @ [AcquireOp (get_current_frame (frameNumber s)),
                                   SubmitOp (get_current_frame (frameNumber s)),
                                   PresentOp (get_current_frame (frameNumber s))] \<and>
         renderFence (frames s ! get_current_frame (frameNumber s)) \<and>
         \<not> renderFence (frames s' ! get_current_frame (frameNumber s))"
  using assms get_current_frame_lt [of "frameNumber s"]
  by (auto simp: draw_Inr_iff frame_done_fields frameNumber_frame_done)

text \<open>
  When the current slot's fence is not signalled within the one-second timeout, \<open>draw()\<close> aborts with \<open>VK_TIMEOUT\<close>.
\<close>

lemma draw_fence_timeout:
  "\<not> renderFence (frames s ! get_current_frame (frameNumber s)) \<Longrightarrow>
   draw env s = Inl (Abort VK_TIMEOUT)"
  by (simp add: draw_def wait_for_fence_def VK_TIMEOUT_def)

text \<open>
  C34: \<open>VK_CHECK\<close> treats the success code \<open>VK_SUBOPTIMAL_KHR\<close> of \<open>vkAcquireNextImageKHR\<close> as fatal: \<open>draw()\<close> aborts with it.
\<close>

lemma draw_aborts_on_suboptimal:
  "renderFence (frames s ! get_current_frame (frameNumber s)) \<Longrightarrow> reset_result env = 0 \<Longrightarrow>
   acquire_result env = VK_SUBOPTIMAL_KHR \<Longrightarrow> draw env s = Inl (Abort VK_SUBOPTIMAL_KHR)"
  by (simp add: draw_def wait_for_fence_def VK_SUCCESS_def VK_SUBOPTIMAL_KHR_def Let_def)

text \<open>
  C36: the current slot is the frame counter modulo 2 read as an unsigned value, consecutive frames use different slots for every counter value (also across the 32-bit wrap), and frames 0 to 5 use the slots 0, 1, 0, 1, 0, 1.
\<close>

lemma frame_slot_rotation:
  "get_current_frame n = unat n mod 2 \<and> get_current_frame (n + 1) \<noteq> get_current_frame n \<and>
   map get_current_frame [0, 1, 2, 3, 4, 5] = [0, 1, 0, 1, 0, 1]"
proof -
  have m: "get_current_frame m = unat m mod 2" for m
    by (simp add: get_current_frame_def FRAME_OVERLAP_def unat_mod)
  have "unat (n + 1) mod 2 = (unat n + 1) mod 2"
    by (simp add: unat_word_ariths mod_mod_cancel)
  then have "get_current_frame (n + 1) \<noteq> get_current_frame n"
    by (simp add: m) presburger
  then show ?thesis
    by (simp add: m)
qed

lemma frame_sync_no_race_witness:
  "reachable (frame_done 0 (sync_init (2 ^ 8) 3)) \<and> \<not> cpu_gpu_race (frame_done 0 (sync_init (2 ^ 8) 3))"
  using frame_sync_no_race [OF reachable_first_frame] reachable_first_frame by simp

lemma present_semaphore_valid_witness:
  "reachable (frame_done 0 (sync_init (2 ^ 8) 3)) \<and> \<not> present_sem_misuse (frame_done 0 (sync_init (2 ^ 8) 3))"
  using present_semaphore_valid [OF reachable_first_frame] reachable_first_frame by simp

lemma draw_success_effect_witness:
  "frameNumber (frame_done 0 (sync_init (2 ^ 8) 3)) = 1 \<and>
   pending (frame_done 0 (sync_init (2 ^ 8) 3)) = [AcquireOp 0, SubmitOp 0, PresentOp 0] \<and>
   \<not> renderFence (frames (frame_done 0 (sync_init (2 ^ 8) 3)) ! 0)"
proof -
  have d: "draw ok_env (sync_init (2 ^ 8) 3) = Inr (frame_done 0 (sync_init (2 ^ 8) 3))"
    by (simp add: draw_ok_env sync_init_def get_current_frame_def FRAME_OVERLAP_def)
  have "length (frames (sync_init (2 ^ 8) 3)) = FRAME_OVERLAP"
    by (simp add: sync_init_def)
  from draw_success_effect [OF d this] show ?thesis
    by (simp add: sync_init_def get_current_frame_def FRAME_OVERLAP_def)
qed

lemma draw_fence_timeout_witness:
  "draw ok_env (frame_done 1 (frame_done 0 (sync_init (2 ^ 8) 3))) = Inl (Abort VK_TIMEOUT)"
proof (rule draw_fence_timeout)
  show "\<not> renderFence (frames (frame_done 1 (frame_done 0 (sync_init (2 ^ 8) 3))) !
          get_current_frame (frameNumber (frame_done 1 (frame_done 0 (sync_init (2 ^ 8) 3)))))"
    by (simp add: frame_done_def sync_op_defs sync_init_def get_current_frame_def
                  FRAME_OVERLAP_def Let_def numeral_2_eq_2)
qed

lemma draw_aborts_on_suboptimal_witness:
  "draw (ok_env\<lparr>acquire_result := VK_SUBOPTIMAL_KHR\<rparr>) (sync_init (2 ^ 8) 3) = Inl (Abort VK_SUBOPTIMAL_KHR)"
  by (rule draw_aborts_on_suboptimal)
     (simp_all add: ok_env_def sync_init_def get_current_frame_def FRAME_OVERLAP_def)

end
