(* ===== verification/Registry.thy ===== *)
theory Registry
  imports Prelude
begin

text \<open>
  The scene/object registry of src/src/vk_renderObjects.h and .cpp: named materials and
  meshes in \<open>std::unordered_map\<close>s and the ordered list of renderable objects.  A
  \<open>Material*\<close> or \<open>Mesh*\<close> into a map is modelled by the key of its entry (the node's
  address is fixed for the key's lifetime and distinct keys have distinct nodes), and the
  null pointer by \<open>None\<close>.  Vulkan handles are opaque numbers with
  \<open>VK_NULL_HANDLE = 0\<close>; vertices and matrices are type parameters, since the registry
  and the draw loop only move them around.
\<close>

section \<open>Data\<close>

type_synonym handle = nat

definition VK_NULL_HANDLE :: handle where "VK_NULL_HANDLE = 0"

record Material =
  textureSet :: handle
  pipeline :: handle
  pipelineLayout :: handle

record 'v Mesh =
  vertices :: "'v list"
  vertexBuffer :: handle

type_synonym ptr = "string option"

record 'm RenderObject =
  mesh :: ptr
  material :: ptr
  transformMatrix :: 'm

record ('v, 'm) RenderObjectsSets =
  renderables :: "'m RenderObject list"
  materials :: "string \<rightharpoonup> Material"
  meshes :: "string \<rightharpoonup> 'v Mesh"

section \<open>Operations\<close>

text \<open>
  \<open>create_material\<close>: a fresh \<open>Material\<close> (texture set defaulted to null) stored with
  \<open>_materials[name] = mat\<close>, which replaces an existing entry of that name; the result
  is the pointer to the stored entry.
\<close>

definition create_material ::
  "handle \<Rightarrow> handle \<Rightarrow> string \<Rightarrow> ('v, 'm) RenderObjectsSets \<Rightarrow> ptr \<times> ('v, 'm) RenderObjectsSets" where
  "create_material pipe layout name r =
     (let mat = \<lparr>textureSet = VK_NULL_HANDLE, pipeline = pipe, pipelineLayout = layout\<rparr>
      in (Some name, r\<lparr>materials := (materials r)(name \<mapsto> mat)\<rparr>))"

text \<open>\<open>get_material\<close> and \<open>get_mesh\<close>: \<open>nullptr\<close> when the name is not found.\<close>

definition get_material :: "string \<Rightarrow> ('v, 'm) RenderObjectsSets \<Rightarrow> ptr" where
  "get_material name r = (case materials r name of None \<Rightarrow> None | Some _ \<Rightarrow> Some name)"

definition get_mesh :: "string \<Rightarrow> ('v, 'm) RenderObjectsSets \<Rightarrow> ptr" where
  "get_mesh name r = (case meshes r name of None \<Rightarrow> None | Some _ \<Rightarrow> Some name)"

text \<open>Dereferencing a pointer: \<open>p->field\<close> on \<open>nullptr\<close> is a crash.\<close>

definition deref :: "(string \<rightharpoonup> 'a) \<Rightarrow> ptr \<Rightarrow> 'a result" where
  "deref m p =
     (case p of None \<Rightarrow> Inl NullDeref
      | Some k \<Rightarrow> (case m k of None \<Rightarrow> Inl NullDeref | Some x \<Rightarrow> Inr x))"

section \<open>Lemmas\<close>

lemma get_material_Some_iff: "get_material name r = Some k \<longleftrightarrow> k = name \<and> name \<in> dom (materials r)"
  by (auto simp: get_material_def split: option.splits)

lemma get_mesh_Some_iff: "get_mesh name r = Some k \<longleftrightarrow> k = name \<and> name \<in> dom (meshes r)"
  by (auto simp: get_mesh_def split: option.splits)

lemma deref_Some [simp]: "m k = Some x \<Longrightarrow> deref m (Some k) = Inr x"
  by (simp add: deref_def)

lemma deref_None [simp]: "deref m None = Inl NullDeref"
  by (simp add: deref_def)

lemma deref_Inr_iff: "deref m p = Inr x \<longleftrightarrow> (\<exists>k. p = Some k \<and> m k = Some x)"
  by (auto simp: deref_def split: option.splits)

section \<open>Properties\<close>

text \<open>
  After \<open>create_material\<close> the returned pointer is the one \<open>get_material\<close> finds for the name; it points to a material with the given pipeline and layout and a null texture set, and every other name keeps its material.
\<close>

lemma create_material_get_material:
  "create_material p l name r = (ptr, r') \<Longrightarrow>
   ptr = Some name \<and> get_material name r' = Some name \<and>
   deref (materials r') ptr = Inr \<lparr>textureSet = VK_NULL_HANDLE, pipeline = p, pipelineLayout = l\<rparr> \<and>
   (\<forall>n. n \<noteq> name \<longrightarrow> materials r' n = materials r n)"
  by (auto simp: create_material_def get_material_def)

lemma create_material_get_material_witness:
  "get_material ''texturedmesh'' (snd (create_material 1 2 ''texturedmesh''
      (\<lparr>renderables = [], materials = Map.empty, meshes = Map.empty\<rparr> :: (nat, nat) RenderObjectsSets)))
   = Some ''texturedmesh''"
proof -
  obtain ptr r' where c: "create_material 1 2 ''texturedmesh''
      \<lparr>renderables = [], materials = Map.empty, meshes = Map.empty\<rparr> = (ptr, r' :: (nat, nat) RenderObjectsSets)"
    by fastforce
  from create_material_get_material [OF c] c show ?thesis by simp
qed

text \<open>
  \<open>get_material\<close> and \<open>get_mesh\<close> return a pointer exactly when the name is in the map and \<open>nullptr\<close> otherwise.
\<close>

lemma get_lookup_nullptr:
  "get_material name r = (if name \<in> dom (materials r) then Some name else None) \<and>
   get_mesh name r = (if name \<in> dom (meshes r) then Some name else None)"
  by (auto simp: get_material_def get_mesh_def split: option.splits)

text \<open>
  \<open>create_material\<close> on a name already registered replaces that material, resetting its texture set to \<open>VK_NULL_HANDLE\<close>.
\<close>

lemma create_material_replaces:
  "materials r name = Some old \<Longrightarrow>
   materials (snd (create_material p l name r)) name =
     Some \<lparr>textureSet = VK_NULL_HANDLE, pipeline = p, pipelineLayout = l\<rparr>"
  by (simp add: create_material_def)

lemma create_material_replaces_witness:
  "materials (snd (create_material 1 2 ''texturedmesh''
      (\<lparr>renderables = [], materials = [''texturedmesh'' \<mapsto> \<lparr>textureSet = 7, pipeline = 1, pipelineLayout = 2\<rparr>],
       meshes = Map.empty\<rparr> :: (nat, nat) RenderObjectsSets))) ''texturedmesh''
   = Some \<lparr>textureSet = VK_NULL_HANDLE, pipeline = 1, pipelineLayout = 2\<rparr>"
  by (rule create_material_replaces) simp
end
