(* ===== verification/DrawObjects.thy ===== *)
theory DrawObjects
  imports Registry Alignment
begin

text \<open>
  The descriptor-binding draw loop \<open>VulkanEngine::draw_objects\<close> of
  src/src/vk_engine.cpp: it fills the object storage buffer, then walks the renderables,
  rebinding the pipeline and descriptor sets only when the material pointer changes and the
  vertex buffer only when the mesh pointer changes, pushing the constants and recording one
  draw per object.  The recorded commands are a list of \<open>vk_cmd\<close>; \<open>exec_cmds\<close>
  interprets them the way the GPU's command processor does, tracking the bound state, and
  lists the state every draw sees.  The refinement theorem says that the batched command
  stream gives every object the state a naive "bind everything per object" stream would.
\<close>

section \<open>Commands\<close>

text \<open>
  The \<open>vkCmd*\<close> calls of the loop: \<open>CmdBindDescriptorSets layout firstSet set
  dynamicOffsets\<close>, \<open>CmdPushConstants layout value\<close>, \<open>CmdDraw vertexCount
  instanceCount firstVertex firstInstance\<close>.
\<close>

datatype 'm vk_cmd =
    CmdBindPipeline handle
  | CmdBindDescriptorSets handle nat handle "u32 list"
  | CmdPushConstants handle 'm
  | CmdBindVertexBuffers handle
  | CmdDraw u32 u32 u32 u32

text \<open>\<open>const size_t MAX_OBJECTS_NUM = 10000\<close> of \<open>init_descriptors\<close>: the capacity
  of each slot's object storage buffer in \<open>GPUObjectData\<close> entries.\<close>

definition MAX_OBJECTS_NUM :: nat where "MAX_OBJECTS_NUM = 10000"

text \<open>
  What \<open>draw_objects\<close> reads: the registry's maps, the current slot's two descriptor
  sets, the alignment and the frame index for the dynamic offset, the model matrix of this
  frame (\<open>glm::rotate\<close> of the elapsed time) and the push-constant matrix
  \<open>projection * view * model\<close>.
\<close>

record ('v, 'm) draw_input =
  in_materials :: "string \<rightharpoonup> Material"
  in_meshes :: "string \<rightharpoonup> 'v Mesh"
  globalDescriptor :: handle
  objectDescriptor :: handle
  in_minUboAlignment :: size_t
  frameIndex :: nat
  model :: 'm
  mesh_matrix :: 'm

section \<open>The loop\<close>

text \<open>
  \<open>for (int i = 0; i < count; i++) objectSSBO[i].modelMatrix = model;\<close> on the mapped
  object buffer; writing past its end is out of range.
\<close>

fun write_ssbo :: "'m \<Rightarrow> nat \<Rightarrow> nat \<Rightarrow> 'm list \<Rightarrow> 'm list result" where
  "write_ssbo m i 0 ssbo = Inr ssbo"
| "write_ssbo m i (Suc n) ssbo = rbind (list_set ssbo (int i) m) (\<lambda>ssbo'. write_ssbo m (Suc i) n ssbo')"

text \<open>
  \<open>uint32_t uniform_offset = pad_uniform_buffer_size(sizeof(GPUSceneData)) * frameIndex\<close>:
  the \<open>size_t\<close> product truncated to 32 bits.
\<close>

definition uniform_offset :: "('v, 'm) draw_input \<Rightarrow> u32" where
  "uniform_offset d = ucast (scene_offset (in_minUboAlignment d) (frameIndex d))"

text \<open>The commands of the \<open>if (object.material != lastMaterial)\<close> branch.\<close>

definition bind_material :: "('v, 'm) draw_input \<Rightarrow> Material \<Rightarrow> 'm vk_cmd list" where
  "bind_material d mat =
     [CmdBindPipeline (pipeline mat),
      CmdBindDescriptorSets (pipelineLayout mat) 0 (globalDescriptor d) [uniform_offset d],
      CmdBindDescriptorSets (pipelineLayout mat) 1 (objectDescriptor d) []] @
     (if textureSet mat \<noteq> VK_NULL_HANDLE
      then [CmdBindDescriptorSets (pipelineLayout mat) 2 (textureSet mat) []] else [])"

text \<open>
  One iteration of the second loop for \<open>first[i]\<close>, from the last bound mesh and material
  pointers: the material branch, the push constants when \<open>object.material\<close> is not
  null, the vertex-buffer branch, the draw when \<open>object.mesh\<close> is not null.  Each
  \<open>->\<close> dereferences its pointer.
\<close>

definition draw_object ::
  "('v, 'm) draw_input \<Rightarrow> nat \<Rightarrow> ptr \<times> ptr \<Rightarrow> 'm RenderObject \<Rightarrow> ('m vk_cmd list \<times> ptr \<times> ptr) result" where
  "draw_object d i prev object =
     (let (lastMesh, lastMaterial) = prev in
      rbind (if material object \<noteq> lastMaterial
             then rbind (deref (in_materials d) (material object)) (\<lambda>mat. Inr (bind_material d mat, material object))
             else Inr ([], lastMaterial)) (\<lambda>(c1, lastMaterial').
      rbind (if material object \<noteq> None
             then rbind (deref (in_materials d) (material object))
                    (\<lambda>mat. Inr [CmdPushConstants (pipelineLayout mat) (mesh_matrix d)])
             else Inr []) (\<lambda>c2.
      rbind (if mesh object \<noteq> lastMesh
             then rbind (deref (in_meshes d) (mesh object))
                    (\<lambda>me. Inr ([CmdBindVertexBuffers (vertexBuffer me)], mesh object))
             else Inr ([], lastMesh)) (\<lambda>(c3, lastMesh').
      rbind (if mesh object \<noteq> None
             then rbind (deref (in_meshes d) (mesh object))
                    (\<lambda>me. Inr [CmdDraw (of_nat (length (vertices me))) 1 0 (of_nat i)])
             else Inr []) (\<lambda>c4.
      Inr (c1 @ c2 @ c3 @ c4, lastMesh', lastMaterial'))))))"

fun draw_loop :: "('v, 'm) draw_input \<Rightarrow> nat \<Rightarrow> ptr \<Rightarrow> ptr \<Rightarrow> 'm RenderObject list \<Rightarrow> 'm vk_cmd list result" where
  "draw_loop d i lastMesh lastMaterial [] = Inr []"
| "draw_loop d i lastMesh lastMaterial (object # rest) =
     rbind (draw_object d i (lastMesh, lastMaterial) object) (\<lambda>(cs, lastMesh', lastMaterial').
     rbind (draw_loop d (Suc i) lastMesh' lastMaterial' rest) (\<lambda>cs'. Inr (cs @ cs')))"

text \<open>
  \<open>draw_objects(cmd, first, count)\<close>: the object buffer's new contents and the recorded
  commands; \<open>lastMesh\<close> and \<open>lastMaterial\<close> start as \<open>nullptr\<close>.
\<close>

definition draw_objects ::
  "('v, 'm) draw_input \<Rightarrow> 'm list \<Rightarrow> 'm RenderObject list \<Rightarrow> ('m list \<times> 'm vk_cmd list) result" where
  "draw_objects d ssbo rs =
     rbind (write_ssbo (model d) 0 (length rs) ssbo) (\<lambda>ssbo'.
     rbind (draw_loop d 0 None None rs) (\<lambda>cmds. Inr (ssbo', cmds)))"

section \<open>Executing a command buffer\<close>

text \<open>
  The state bound in a command buffer: pipeline, descriptor sets 0--2 with the layout they
  were bound with and their dynamic offsets, vertex buffer, push constants.  A draw sees
  the state bound when it is recorded.
\<close>

type_synonym set_binding = "handle \<times> handle \<times> u32 list"

record 'm cmd_state =
  bound_pipeline :: "handle option"
  bound_set0 :: "set_binding option"
  bound_set1 :: "set_binding option"
  bound_set2 :: "set_binding option"
  bound_vertex_buffer :: "handle option"
  bound_push :: "(handle \<times> 'm) option"

record 'm draw_call =
  dc_state :: "'m cmd_state"
  dc_vertexCount :: u32
  dc_instanceCount :: u32
  dc_firstVertex :: u32
  dc_firstInstance :: u32

definition empty_cmd_state :: "'m cmd_state" where
  "empty_cmd_state = \<lparr>bound_pipeline = None, bound_set0 = None, bound_set1 = None, bound_set2 = None,
                       bound_vertex_buffer = None, bound_push = None\<rparr>"

fun bind_set :: "nat \<Rightarrow> set_binding \<Rightarrow> 'm cmd_state \<Rightarrow> 'm cmd_state" where
  "bind_set 0 b st = st\<lparr>bound_set0 := Some b\<rparr>"
| "bind_set (Suc 0) b st = st\<lparr>bound_set1 := Some b\<rparr>"
| "bind_set (Suc (Suc 0)) b st = st\<lparr>bound_set2 := Some b\<rparr>"
| "bind_set _ b st = st"

fun exec_cmd :: "'m cmd_state \<times> 'm draw_call list \<Rightarrow> 'm vk_cmd \<Rightarrow> 'm cmd_state \<times> 'm draw_call list" where
  "exec_cmd (st, ds) (CmdBindPipeline p) = (st\<lparr>bound_pipeline := Some p\<rparr>, ds)"
| "exec_cmd (st, ds) (CmdBindDescriptorSets l n s offs) = (bind_set n (l, s, offs) st, ds)"
| "exec_cmd (st, ds) (CmdPushConstants l v) = (st\<lparr>bound_push := Some (l, v)\<rparr>, ds)"
| "exec_cmd (st, ds) (CmdBindVertexBuffers b) = (st\<lparr>bound_vertex_buffer := Some b\<rparr>, ds)"
| "exec_cmd (st, ds) (CmdDraw vc ic fv fi) =
     (st, ds @ [\<lparr>dc_state = st, dc_vertexCount = vc, dc_instanceCount = ic,
                 dc_firstVertex = fv, dc_firstInstance = fi\<rparr>])"

definition exec_cmds :: "'m cmd_state \<times> 'm draw_call list \<Rightarrow> 'm vk_cmd list \<Rightarrow> 'm cmd_state \<times> 'm draw_call list" where
  "exec_cmds acc cmds = fold (\<lambda>c a. exec_cmd a c) cmds acc"

section \<open>The abstract specification of a draw\<close>

text \<open>
  What the draw of object \<open>i\<close> must see, for its material \<open>mat\<close> and mesh \<open>me\<close>:
  the material's pipeline; set 0 the slot's global set with the scene region's dynamic
  offset, set 1 the slot's object set, set 2 the material's texture when it has one, all
  bound with the material's layout; the mesh's vertex buffer; the push constants in the
  material's layout; all the mesh's vertices, one instance, and instance index \<open>i\<close>
  into the object buffer.
\<close>

definition draw_spec :: "('v, 'm) draw_input \<Rightarrow> nat \<Rightarrow> Material \<Rightarrow> 'v Mesh \<Rightarrow> 'm draw_call \<Rightarrow> bool" where
  "draw_spec d i mat me dc \<longleftrightarrow>
     bound_pipeline (dc_state dc) = Some (pipeline mat) \<and>
     bound_set0 (dc_state dc) = Some (pipelineLayout mat, globalDescriptor d, [uniform_offset d]) \<and>
     bound_set1 (dc_state dc) = Some (pipelineLayout mat, objectDescriptor d, []) \<and>
     (textureSet mat \<noteq> VK_NULL_HANDLE \<longrightarrow>
        bound_set2 (dc_state dc) = Some (pipelineLayout mat, textureSet mat, [])) \<and>
     bound_vertex_buffer (dc_state dc) = Some (vertexBuffer me) \<and>
     bound_push (dc_state dc) = Some (pipelineLayout mat, mesh_matrix d) \<and>
     dc_vertexCount dc = of_nat (length (vertices me)) \<and> dc_instanceCount dc = 1 \<and>
     dc_firstVertex dc = 0 \<and> dc_firstInstance dc = of_nat i"

text \<open>A renderable whose pointers both point into the registry's maps.\<close>

definition object_ok :: "('v, 'm) draw_input \<Rightarrow> 'm RenderObject \<Rightarrow> bool" where
  "object_ok d object \<longleftrightarrow>
     (\<exists>k. material object = Some k \<and> k \<in> dom (in_materials d)) \<and>
     (\<exists>k. mesh object = Some k \<and> k \<in> dom (in_meshes d))"

text \<open>Number of material changes along the list, starting from \<open>nullptr\<close>.\<close>

fun material_changes :: "ptr \<Rightarrow> 'm RenderObject list \<Rightarrow> nat" where
  "material_changes prev [] = 0"
| "material_changes prev (object # rest) =
     (if material object \<noteq> prev then Suc (material_changes (material object) rest)
      else material_changes prev rest)"

fun is_bind_pipeline :: "'m vk_cmd \<Rightarrow> bool" where
  "is_bind_pipeline (CmdBindPipeline p) = True"
| "is_bind_pipeline _ = False"

section \<open>Refinement and properties\<close>

definition material_bound :: "('v, 'm) draw_input \<Rightarrow> Material \<Rightarrow> 'm cmd_state \<Rightarrow> bool" where
  "material_bound d mat st \<longleftrightarrow>
     bound_pipeline st = Some (pipeline mat) \<and>
     bound_set0 st = Some (pipelineLayout mat, globalDescriptor d, [uniform_offset d]) \<and>
     bound_set1 st = Some (pipelineLayout mat, objectDescriptor d, []) \<and>
     (textureSet mat \<noteq> VK_NULL_HANDLE \<longrightarrow> bound_set2 st = Some (pipelineLayout mat, textureSet mat, []))"

definition bound_agrees :: "('v, 'm) draw_input \<Rightarrow> ptr \<Rightarrow> ptr \<Rightarrow> 'm cmd_state \<Rightarrow> bool" where
  "bound_agrees d lastMesh lastMaterial st \<longleftrightarrow>
     (\<forall>k. lastMaterial = Some k \<longrightarrow> (\<exists>mat. in_materials d k = Some mat \<and> material_bound d mat st)) \<and>
     (\<forall>k. lastMesh = Some k \<longrightarrow>
        (\<exists>me. in_meshes d k = Some me \<and> bound_vertex_buffer st = Some (vertexBuffer me)))"

definition object_draw_spec :: "('v, 'm) draw_input \<Rightarrow> nat \<Rightarrow> 'm RenderObject \<Rightarrow> 'm draw_call \<Rightarrow> bool" where
  "object_draw_spec d i object dc \<longleftrightarrow>
     (\<exists>mat me. deref (in_materials d) (material object) = Inr mat \<and>
               deref (in_meshes d) (mesh object) = Inr me \<and> draw_spec d i mat me dc)"

definition recorded_draws :: "'m vk_cmd list \<Rightarrow> 'm draw_call list" where
  "recorded_draws cmds = snd (exec_cmds (empty_cmd_state, []) cmds)"

text \<open>Concrete inputs for the examples: the scene \<open>init_scene\<close> builds, and a variant with a second, untextured material.\<close>

definition demo_input :: "(nat, nat) draw_input" where
  "demo_input =
     \<lparr>in_materials = [''texturedmesh'' \<mapsto> \<lparr>textureSet = 7, pipeline = 1, pipelineLayout = 2\<rparr>],
      in_meshes = [''empire'' \<mapsto> \<lparr>vertices = [0, 1, 2], vertexBuffer = 5\<rparr>],
      globalDescriptor = 3, objectDescriptor = 4, in_minUboAlignment = 256, frameIndex = 1,
      model = 1, mesh_matrix = 6\<rparr>"

definition demo_object :: "nat RenderObject" where
  "demo_object = \<lparr>mesh = Some ''empire'', material = Some ''texturedmesh'', transformMatrix = 9\<rparr>"

definition demo_flat_object :: "nat RenderObject" where
  "demo_flat_object = demo_object\<lparr>material := Some ''defaultmesh''\<rparr>"

definition demo_input2 :: "(nat, nat) draw_input" where
  "demo_input2 = demo_input\<lparr>in_materials :=
     [''texturedmesh'' \<mapsto> \<lparr>textureSet = 7, pipeline = 1, pipelineLayout = 2\<rparr>,
      ''defaultmesh'' \<mapsto> \<lparr>textureSet = VK_NULL_HANDLE, pipeline = 8, pipelineLayout = 2\<rparr>]\<rparr>"

lemma bind_set_numerals [simp]:
  "bind_set 1 b st = st\<lparr>bound_set1 := Some b\<rparr>"
  "bind_set 2 b st = st\<lparr>bound_set2 := Some b\<rparr>"
  by (simp_all add: numeral_2_eq_2)

lemma exec_cmds_append: "exec_cmds acc (xs @ ys) = exec_cmds (exec_cmds acc xs) ys"
  by (simp add: exec_cmds_def)

lemma exec_cmds_Nil [simp]: "exec_cmds acc [] = acc"
  by (simp add: exec_cmds_def)

lemma exec_cmds_Cons [simp]: "exec_cmds acc (c # cs) = exec_cmds (exec_cmd acc c) cs"
  by (simp add: exec_cmds_def)

lemma exec_bind_material:
  "exec_cmds (st, ds) (bind_material d mat) = (st', ds') \<Longrightarrow>
   ds' = ds \<and> material_bound d mat st' \<and> bound_vertex_buffer st' = bound_vertex_buffer st"
  by (auto simp: bind_material_def material_bound_def split: if_splits)

lemma bound_agrees_init: "bound_agrees d None None st"
  by (simp add: bound_agrees_def)

lemma draw_object_ok:
  assumes "material object = Some k" and "in_materials d k = Some mat"
    and "mesh object = Some km" and "in_meshes d km = Some me"
  shows "draw_object d i (lastMesh, lastMaterial) object =
           Inr ((if material object \<noteq> lastMaterial then bind_material d mat else []) @
                [CmdPushConstants (pipelineLayout mat) (mesh_matrix d)] @
                (if mesh object \<noteq> lastMesh then [CmdBindVertexBuffers (vertexBuffer me)] else []) @
                [CmdDraw (of_nat (length (vertices me))) 1 0 (of_nat i)],
                mesh object, material object)"
  using assms by (simp add: draw_object_def)

lemma material_bound_update [simp]:
  "material_bound d mat (st\<lparr>bound_push := p\<rparr>) = material_bound d mat st"
  "material_bound d mat (st\<lparr>bound_vertex_buffer := b\<rparr>) = material_bound d mat st"
  by (simp_all add: material_bound_def)

lemma draw_object_spec:
  assumes ok: "object_ok d object" and ag: "bound_agrees d lastMesh lastMaterial st"
  shows "\<exists>cs st' dc. draw_object d i (lastMesh, lastMaterial) object = Inr (cs, mesh object, material object) \<and>
           exec_cmds (st, ds) cs = (st', ds @ [dc]) \<and> object_draw_spec d i object dc \<and>
           bound_agrees d (mesh object) (material object) st'"
proof -
  from ok obtain k mat km me where mk: "material object = Some k" and mat: "in_materials d k = Some mat"
    and ms: "mesh object = Some km" and me: "in_meshes d km = Some me"
    by (auto simp: object_ok_def)
  define c1 where "c1 = (if material object \<noteq> lastMaterial then bind_material d mat else [])"
  obtain st1 ds1 where e1: "exec_cmds (st, ds) c1 = (st1, ds1)" by fastforce
  have st1: "ds1 = ds \<and> material_bound d mat st1 \<and> bound_vertex_buffer st1 = bound_vertex_buffer st"
  proof (cases "material object = lastMaterial")
    case True
    with e1 ag mk mat show ?thesis by (auto simp: c1_def bound_agrees_def)
  next
    case False
    with e1 exec_bind_material [of st ds d mat st1 ds1] show ?thesis by (simp add: c1_def)
  qed
  define st3 where "st3 = (if mesh object \<noteq> lastMesh
                            then st1\<lparr>bound_push := Some (pipelineLayout mat, mesh_matrix d),
                                     bound_vertex_buffer := Some (vertexBuffer me)\<rparr>
                            else st1\<lparr>bound_push := Some (pipelineLayout mat, mesh_matrix d)\<rparr>)"
  have vb: "bound_vertex_buffer st3 = Some (vertexBuffer me)"
    using st1 ag ms me by (auto simp: st3_def bound_agrees_def)
  have mb: "material_bound d mat st3"
    using st1 by (simp add: st3_def)
  define dc where "dc = \<lparr>dc_state = st3, dc_vertexCount = of_nat (length (vertices me)), dc_instanceCount = 1,
                         dc_firstVertex = 0, dc_firstInstance = of_nat i\<rparr>"
  have run: "exec_cmds (st, ds) (c1 @ [CmdPushConstants (pipelineLayout mat) (mesh_matrix d)] @
               (if mesh object \<noteq> lastMesh then [CmdBindVertexBuffers (vertexBuffer me)] else []) @
               [CmdDraw (of_nat (length (vertices me))) 1 0 (of_nat i)]) = (st3, ds @ [dc])"
    using e1 st1 by (simp add: exec_cmds_append st3_def dc_def)
  have spec: "object_draw_spec d i object dc"
    using mb vb mk mat ms me
    by (auto simp: object_draw_spec_def draw_spec_def material_bound_def dc_def st3_def)
  have "bound_agrees d (mesh object) (material object) st3"
    using mb vb mk mat ms me by (simp add: bound_agrees_def)
  with run spec show ?thesis
    using draw_object_ok [OF mk mat ms me, of i lastMesh lastMaterial] by (fastforce simp: c1_def)
qed
lemma draw_loop_spec:
  "\<forall>object\<in>set rs. object_ok d object \<Longrightarrow> bound_agrees d lastMesh lastMaterial st \<Longrightarrow>
   \<exists>cs dcs st'. draw_loop d i lastMesh lastMaterial rs = Inr cs \<and> exec_cmds (st, ds) cs = (st', ds @ dcs) \<and>
       length dcs = length rs \<and> (\<forall>j<length rs. object_draw_spec d (i + j) (rs ! j) (dcs ! j))"
proof (induction rs arbitrary: i lastMesh lastMaterial st ds)
  case Nil
  then show ?case by simp
next
  case (Cons object rs)
  from Cons.prems obtain cs1 st1 dc where
    step: "draw_object d i (lastMesh, lastMaterial) object = Inr (cs1, mesh object, material object)"
    and e1: "exec_cmds (st, ds) cs1 = (st1, ds @ [dc])" and sp: "object_draw_spec d i object dc"
    and ag: "bound_agrees d (mesh object) (material object) st1"
    using draw_object_spec [of d object lastMesh lastMaterial st i ds] by auto
  have okr: "\<forall>object\<in>set rs. object_ok d object" using Cons.prems by simp
  obtain cs2 dcs2 st2 where
    rest: "draw_loop d (Suc i) (mesh object) (material object) rs = Inr cs2"
    and e2: "exec_cmds (st1, ds @ [dc]) cs2 = (st2, (ds @ [dc]) @ dcs2)"
    and l2: "length dcs2 = length rs"
    and sp2: "\<forall>j<length rs. object_draw_spec d (Suc i + j) (rs ! j) (dcs2 ! j)"
    using Cons.IH [OF okr ag, where i = "Suc i" and ds = "ds @ [dc]"] by auto
  have "\<forall>j<length (object # rs). object_draw_spec d (i + j) ((object # rs) ! j) ((dc # dcs2) ! j)"
  proof (intro allI impI)
    fix j assume "j < length (object # rs)"
    then show "object_draw_spec d (i + j) ((object # rs) ! j) ((dc # dcs2) ! j)"
      using sp sp2 by (cases j) simp_all
  qed
  with step rest e1 e2 l2 show ?case
    by (auto simp: exec_cmds_append intro!: exI [of _ "dc # dcs2"])
qed

lemma write_ssbo_ok:
  "i + n \<le> length ssbo \<Longrightarrow>
   \<exists>ssbo'. write_ssbo m i n ssbo = Inr ssbo' \<and> length ssbo' = length ssbo \<and>
     (\<forall>j<length ssbo. ssbo' ! j = (if i \<le> j \<and> j < i + n then m else ssbo ! j))"
proof (induction n arbitrary: i ssbo)
  case 0
  then show ?case by auto
next
  case (Suc n)
  then have i: "i < length ssbo" by simp
  from Suc.prems obtain ssbo' where w: "write_ssbo m (Suc i) n (ssbo[i := m]) = Inr ssbo'"
    and l: "length ssbo' = length ssbo"
    and v: "\<forall>j<length ssbo. ssbo' ! j = (if Suc i \<le> j \<and> j < Suc i + n then m else ssbo[i := m] ! j)"
    using Suc.IH [of "Suc i" "ssbo[i := m]"] by auto
  have "\<forall>j<length ssbo. ssbo' ! j = (if i \<le> j \<and> j < i + Suc n then m else ssbo ! j)"
    using v by (auto simp: nth_list_update)
  with i w l show ?case by simp
qed

lemma write_ssbo_overflow:
  "i \<le> length ssbo \<Longrightarrow> length ssbo < i + n \<Longrightarrow>
   write_ssbo m i n ssbo = Inl (IndexOutOfRange (int (length ssbo)) (length ssbo))"
proof (induction n arbitrary: i ssbo)
  case 0
  then show ?case by simp
next
  case (Suc n)
  show ?case
  proof (cases "i < length ssbo")
    case True
    with Suc.prems Suc.IH [of "Suc i" "ssbo[i := m]"] show ?thesis by simp
  next
    case False
    with Suc.prems have "i = length ssbo" by simp
    then show ?thesis by (simp add: list_set_def)
  qed
qed

lemma draw_objects_Inr:
  "\<forall>object\<in>set rs. object_ok d object \<Longrightarrow> length rs \<le> length ssbo \<Longrightarrow>
   \<exists>ssbo' cmds. draw_objects d ssbo rs = Inr (ssbo', cmds)"
proof -
  assume ok: "\<forall>object\<in>set rs. object_ok d object" and len: "length rs \<le> length ssbo"
  obtain ssbo' where "write_ssbo (model d) 0 (length rs) ssbo = Inr ssbo'"
    using write_ssbo_ok [of 0 "length rs" ssbo "model d"] len by auto
  moreover obtain cs where "draw_loop d 0 None None rs = Inr cs"
    using draw_loop_spec [OF ok bound_agrees_init, of 0 empty_cmd_state "[]"] by blast
  ultimately show ?thesis by (simp add: draw_objects_def)
qed

text \<open>
  C2: refinement of the batched draw loop: for renderables whose mesh and material pointers point into the registry and an object buffer large enough, \<open>draw_objects\<close> succeeds and, executing its command stream, the \<open>i\<close>-th draw sees exactly the state a per-object "bind everything" stream would give it: its material's pipeline, the slot's global set with the scene's dynamic offset and object set, the material's texture set, its mesh's vertex buffer, the push constants in the material's layout, all vertices and instance index \<open>i\<close>.
\<close>

theorem draw_objects_refines:
  assumes ok: "\<forall>object\<in>set rs. object_ok d object" and len: "length rs \<le> length ssbo"
  shows "\<exists>ssbo' cmds. draw_objects d ssbo rs = Inr (ssbo', cmds) \<and>
           length (recorded_draws cmds) = length rs \<and>
           (\<forall>i<length rs. object_draw_spec d i (rs ! i) (recorded_draws cmds ! i))"
proof -
  obtain ssbo' where w: "write_ssbo (model d) 0 (length rs) ssbo = Inr ssbo'"
    using write_ssbo_ok [of 0 "length rs" ssbo "model d"] len by auto
  obtain cs dcs st' where l: "draw_loop d 0 None None rs = Inr cs"
    and e: "exec_cmds (empty_cmd_state, []) cs = (st', [] @ dcs)" and n: "length dcs = length rs"
    and sp: "\<forall>j<length rs. object_draw_spec d (0 + j) (rs ! j) (dcs ! j)"
    using draw_loop_spec [OF ok bound_agrees_init, of 0 empty_cmd_state "[]"] by blast
  show ?thesis
    using w l e n sp by (simp add: draw_objects_def recorded_draws_def)
qed
text \<open>
  The spec's end-to-end scenario on the scene \<open>init_scene\<close> builds: one renderable with a three-vertex mesh and a textured material records the material binds, the push constants, one vertex-buffer bind and exactly one draw of 3 vertices and 1 instance; its object-buffer entry receives the frame's model matrix.
\<close>

lemma draw_objects_one_triangle:
  "draw_objects demo_input [0] [demo_object] =
     Inr ([1], [CmdBindPipeline 1, CmdBindDescriptorSets 2 0 3 [256], CmdBindDescriptorSets 2 1 4 [],
                CmdBindDescriptorSets 2 2 7 [], CmdPushConstants 2 6, CmdBindVertexBuffers 5,
                CmdDraw 3 1 0 0])"
  by (simp add: draw_objects_def draw_object_def demo_input_def demo_object_def bind_material_def
                uniform_offset_def scene_offset_def pad_uniform_buffer_size_def sizeof_GPUSceneData_def
                VK_NULL_HANDLE_def list_set_def)

lemma pipeline_binds_bind_material [simp]: "filter is_bind_pipeline (bind_material d mat) = [CmdBindPipeline (pipeline mat)]"
  by (simp add: bind_material_def)

lemma draw_loop_pipeline_binds:
  "draw_loop d i lastMesh lastMaterial rs = Inr cs \<Longrightarrow> \<forall>object\<in>set rs. object_ok d object \<Longrightarrow>
   length (filter is_bind_pipeline cs) = material_changes lastMaterial rs"
proof (induction rs arbitrary: i lastMesh lastMaterial cs)
  case Nil
  then show ?case by simp
next
  case (Cons object rs)
  from Cons.prems(2) obtain k mat km me where mk: "material object = Some k" and mat: "in_materials d k = Some mat"
    and ms: "mesh object = Some km" and me: "in_meshes d km = Some me"
    by (auto simp: object_ok_def)
  from Cons.prems obtain cs2 where rest: "draw_loop d (Suc i) (mesh object) (material object) rs = Inr cs2"
    and cs: "cs = ((if material object \<noteq> lastMaterial then bind_material d mat else []) @
                [CmdPushConstants (pipelineLayout mat) (mesh_matrix d)] @
                (if mesh object \<noteq> lastMesh then [CmdBindVertexBuffers (vertexBuffer me)] else []) @
                [CmdDraw (of_nat (length (vertices me))) 1 0 (of_nat i)]) @ cs2"
    by (auto simp: draw_object_ok [OF mk mat ms me] rbind_eq_Inr)
  from Cons.IH [OF rest] Cons.prems(2) have "length (filter is_bind_pipeline cs2) = material_changes (material object) rs"
    by simp
  with cs show ?case by simp
qed

text \<open>
  The pipeline (and with it the descriptor sets) is bound once per material change along the renderable list, not once per renderable.
\<close>

lemma draw_objects_pipeline_binds:
  "draw_objects d ssbo rs = Inr (ssbo', cmds) \<Longrightarrow> \<forall>object\<in>set rs. object_ok d object \<Longrightarrow>
   length (filter is_bind_pipeline cmds) = material_changes None rs"
  by (auto simp: draw_objects_def rbind_eq_Inr dest: draw_loop_pipeline_binds)

text \<open>
  C31: a renderable with a null material that follows one with a material makes \<open>object.material->pipeline\<close> dereference \<open>nullptr\<close>: the null check guarding the push constants does not guard the rebind branch.
\<close>

lemma draw_object_null_material:
  "material object = None \<Longrightarrow> lastMaterial \<noteq> None \<Longrightarrow>
   draw_object d i (lastMesh, lastMaterial) object = Inl NullDeref"
  by (cases lastMaterial) (simp_all add: draw_object_def)

lemma draw_object_null_material_witness:
  "draw_object demo_input 1 (Some ''empire'', Some ''texturedmesh'') (demo_object\<lparr>material := None\<rparr>) = Inl NullDeref \<and>
   draw_objects demo_input [0, 0] [demo_object, demo_object\<lparr>material := None\<rparr>] = Inl NullDeref"
proof -
  have "draw_object demo_input 1 (Some ''empire'', Some ''texturedmesh'') (demo_object\<lparr>material := None\<rparr>) = Inl NullDeref"
    by (rule draw_object_null_material) simp_all
  then show ?thesis
    by (simp add: draw_objects_def draw_object_ok demo_input_def demo_object_def list_set_def)
qed

text \<open>
  C32: with more renderables than the \<open>MAX_OBJECTS_NUM\<close> = 10000 entries of the object buffer, the first loop of \<open>draw_objects\<close> writes past the end of the buffer.
\<close>

lemma draw_objects_ssbo_overflow:
  "length ssbo = MAX_OBJECTS_NUM \<Longrightarrow> MAX_OBJECTS_NUM < length rs \<Longrightarrow>
   draw_objects d ssbo rs = Inl (IndexOutOfRange 10000 10000)"
  by (simp add: draw_objects_def write_ssbo_overflow MAX_OBJECTS_NUM_def)

text \<open>
  Every object-buffer entry \<open>draw_objects\<close> writes is the frame's single model matrix; the renderable's \<open>transformMatrix\<close> is not used.
\<close>

lemma draw_objects_ssbo_model:
  "draw_objects d ssbo rs = Inr (ssbo', cmds) \<Longrightarrow> i < length rs \<Longrightarrow> ssbo' ! i = model d"
proof -
  assume run: "draw_objects d ssbo rs = Inr (ssbo', cmds)" and i: "i < length rs"
  then obtain w where w: "write_ssbo (model d) 0 (length rs) ssbo = Inr w" and "w = ssbo'"
    by (auto simp: draw_objects_def rbind_eq_Inr)
  have len: "length rs \<le> length ssbo"
    using w write_ssbo_overflow [of 0 ssbo "length rs" "model d"] by (cases "length rs \<le> length ssbo") auto
  from write_ssbo_ok [of 0 "length rs" ssbo "model d"] len w \<open>w = ssbo'\<close> i show ?thesis
    by auto
qed
lemma draw_objects_refines_witness:
  "\<exists>ssbo' cmds. draw_objects demo_input [0] [demo_object] = Inr (ssbo', cmds) \<and>
     length (recorded_draws cmds) = 1 \<and> object_draw_spec demo_input 0 demo_object (recorded_draws cmds ! 0)"
  using draw_objects_refines [of "[demo_object]" demo_input "[0]"]
  by (simp add: object_ok_def demo_input_def demo_object_def)

lemma draw_objects_pipeline_binds_witness:
  "\<exists>ssbo' cmds. draw_objects demo_input2 (replicate 100 0)
       (replicate 50 demo_object @ replicate 50 demo_flat_object) = Inr (ssbo', cmds) \<and>
     length (filter is_bind_pipeline cmds) = 2"
proof -
  have ok: "\<forall>object\<in>set (replicate 50 demo_object @ replicate 50 demo_flat_object). object_ok demo_input2 object"
    by (simp add: object_ok_def demo_input2_def demo_input_def demo_object_def demo_flat_object_def)
  then obtain ssbo' cmds where run: "draw_objects demo_input2 (replicate 100 0)
       (replicate 50 demo_object @ replicate 50 demo_flat_object) = Inr (ssbo', cmds)"
    using draw_objects_Inr [of _ demo_input2 "replicate 100 0"] by fastforce
  have "material_changes None (replicate 50 demo_object @ replicate 50 demo_flat_object) = 2"
    by code_simp
  with draw_objects_pipeline_binds [OF run ok] run show ?thesis by auto
qed

lemma draw_objects_ssbo_overflow_witness:
  "draw_objects demo_input (replicate 10000 0) (replicate 10001 demo_object) = Inl (IndexOutOfRange 10000 10000)"
  by (rule draw_objects_ssbo_overflow) (simp_all add: MAX_OBJECTS_NUM_def)

lemma draw_objects_ssbo_model_witness:
  "[1::nat] ! 0 = model demo_input \<and> transformMatrix demo_object \<noteq> model demo_input"
proof -
  have run: "draw_objects demo_input [0] [demo_object] =
     Inr ([1], [CmdBindPipeline 1, CmdBindDescriptorSets 2 0 3 [256], CmdBindDescriptorSets 2 1 4 [],
                CmdBindDescriptorSets 2 2 7 [], CmdPushConstants 2 6, CmdBindVertexBuffers 5,
                CmdDraw 3 1 0 0])"
    by (simp add: draw_objects_def draw_object_def demo_input_def demo_object_def bind_material_def
                  uniform_offset_def scene_offset_def pad_uniform_buffer_size_def sizeof_GPUSceneData_def
                  VK_NULL_HANDLE_def list_set_def)
  from draw_objects_ssbo_model [OF run, of 0] show ?thesis
    by (simp add: demo_input_def demo_object_def)
qed
end
