(* ===== verification/Lifetime.thy ===== *)
theory Lifetime
  imports DeletionQueue "HOL-Library.Multiset"
begin

text \<open>
  Object lifetimes over the engine's life: \<open>VulkanEngine::init\<close> and the \<open>init_*\<close>
  functions it calls create every Vulkan object and push a destructor for it on
  \<open>_mainDeletionQueue\<close>, and \<open>VulkanEngine::cleanup\<close> flushes the queue and then
  destroys the device, surface, debug messenger, instance and window
  (src/src/vk_engine.cpp, src/src/vk_texture.cpp).  Each object is named by a
  \<open>resource\<close>; a deletor closure is the list of resources it destroys, in the order
  it destroys them.  The state carries, besides the queue, three ghost records: the objects
  created so far, the objects destroyed outside the queue, and the objects destroyed while a
  GPU upload that reads them may still run.  The result of every checked Vulkan call is read
  from an environment, so every \<open>VK_CHECK\<close> and every thrown \<open>runtime_error\<close> is a
  branch of the model.
\<close>

section \<open>Objects\<close>

text \<open>The buffers \<open>create_buffer\<close> allocates, named by the variable or member that holds them.\<close>

datatype buffer_id =
    SceneParameterBuffer
  | ObjectBuffer nat
  | CameraBuffer nat
  | MeshStagingBuffer
  | MeshVertexBuffer
  | TextureStagingBuffer

datatype resource =
    Window | Instance | DebugMessenger | Surface | Device | Allocator
  | Swapchain | SwapchainImageView nat | DepthImage | DepthImageView
  | UploadCommandPool | UploadCommandBuffer | FrameCommandPool nat | FrameCommandBuffer nat
  | RenderPass | Framebuffer nat
  | UploadFence | RenderFence nat | PresentSemaphore nat | RenderSemaphore nat
  | GlobalSetLayout | ObjectSetLayout | SingleTextureSetLayout | DescriptorPool
  | GlobalDescriptor nat | ObjectDescriptor nat | TextureSet
  | Buffer buffer_id
  | ShaderModule string | MeshPipelineLayout | TexturePipelineLayout | TexPipeline
  | TextureImage | TextureImageView | Sampler
  | ImguiPool | ImguiBackend | ImguiFontUploadBuffer

text \<open>
  \<open>needs x\<close>: the objects that must still exist while \<open>x\<close> exists, following the
  object-lifetime rules of the Vulkan specification, of VMA and of SDL.  Every device-level
  object needs the device; the device, surface and debug messenger need the instance; a
  swapchain needs its surface and the surface its window; VMA allocations need the allocator;
  an image view needs its image; a framebuffer needs its attachments; the ImGui Vulkan
  backend needs the device (whether it also frees objects of \<open>imguiPool\<close> at shutdown
  depends on the ImGui sources, which are not in the repository).  Objects that
  are only read by the call that creates another object (shader modules, descriptor-set and
  pipeline layouts, the render pass) impose nothing afterwards.
\<close>

fun needs :: "resource \<Rightarrow> resource list" where
  "needs Window = []"
| "needs Instance = []"
| "needs DebugMessenger = [Instance]"
| "needs Surface = [Window, Instance]"
| "needs Device = [Instance]"
| "needs Allocator = [Device]"
| "needs Swapchain = [Device, Surface]"
| "needs (SwapchainImageView i) = [Device, Swapchain]"
| "needs DepthImage = [Allocator]"
| "needs DepthImageView = [Device, DepthImage]"
| "needs (Framebuffer i) = [Device, SwapchainImageView i, DepthImageView]"
| "needs (Buffer b) = [Allocator]"
| "needs TextureImage = [Allocator]"
| "needs TextureImageView = [Device, TextureImage]"
| "needs ImguiBackend = [Device]"
| "needs UploadCommandBuffer = [UploadCommandPool]"
| "needs (FrameCommandBuffer i) = [FrameCommandPool i]"
| "needs (GlobalDescriptor i) = [DescriptorPool]"
| "needs (ObjectDescriptor i) = [DescriptorPool]"
| "needs TextureSet = [DescriptorPool]"
| "needs _ = [Device]"

definition depends :: "resource \<Rightarrow> resource \<Rightarrow> bool" where
  "depends x y \<longleftrightarrow> y \<in> set (needs x)"

text \<open>Command buffers and descriptor sets are released with the pool they come from.\<close>

fun owner :: "resource \<Rightarrow> resource option" where
  "owner UploadCommandBuffer = Some UploadCommandPool"
| "owner (FrameCommandBuffer i) = Some (FrameCommandPool i)"
| "owner (GlobalDescriptor i) = Some DescriptorPool"
| "owner (ObjectDescriptor i) = Some DescriptorPool"
| "owner TextureSet = Some DescriptorPool"
| "owner _ = None"

section \<open>Environment and state\<close>

text \<open>The Vulkan calls whose result the code checks.\<close>

datatype vk_call =
    Create resource
  | AllocateCommandBuffers
  | BeginCommandBuffer
  | EndCommandBuffer
  | QueueSubmit
  | WaitForFences

text \<open>
  What the outside world answers: the result of each checked call (the same for every
  invocation of the call), the number of swapchain images \<open>vkb\<close> creates, which shader
  files \<open>load_shader_module\<close> loads, whether \<open>stbi_load\<close> reads the texture, and
  whether the texture format supports linear blitting.
\<close>

record init_env =
  vk :: "vk_call \<Rightarrow> vk_result"
  swapchain_images :: nat
  shader_loads :: "string \<Rightarrow> bool"
  texture_loads :: bool
  linear_blit :: bool

record Engine =
  mainDeletionQueue :: "resource list DeletionQueue"
  created :: "resource list"
  destroyed :: "resource list"
  upload_in_flight :: "resource list"
  destroyed_in_use :: "resource list"
  isInitialized :: bool

definition empty_engine :: Engine where
  "empty_engine =
     \<lparr>mainDeletionQueue = \<lparr>deletors = []\<rparr>, created = [], destroyed = [], upload_in_flight = [],
      destroyed_in_use = [], isInitialized = False\<rparr>"

section \<open>Primitive effects\<close>

definition create :: "resource \<Rightarrow> Engine \<Rightarrow> Engine" where
  "create r e = e\<lparr>created := created e @ [r]\<rparr>"

text \<open>\<open>VK_CHECK(vkCreate...(..., &x))\<close>: the object exists only if the call succeeded.\<close>

definition vk_create :: "init_env \<Rightarrow> resource \<Rightarrow> Engine \<Rightarrow> Engine result" where
  "vk_create env r e = rbind (vk_check (vk env (Create r))) (\<lambda>_. Inr (create r e))"

definition vk_call :: "init_env \<Rightarrow> vk_call \<Rightarrow> Engine \<Rightarrow> Engine result" where
  "vk_call env c e = rbind (vk_check (vk env c)) (\<lambda>_. Inr e)"

text \<open>\<open>if (call != VK_SUCCESS) throw std::runtime_error(msg)\<close>.\<close>

definition throw_unless :: "init_env \<Rightarrow> vk_call \<Rightarrow> string \<Rightarrow> Engine \<Rightarrow> Engine result" where
  "throw_unless env c msg e = (if vk env c \<noteq> VK_SUCCESS then Inl (RuntimeError msg) else Inr e)"

definition register :: "resource list \<Rightarrow> Engine \<Rightarrow> Engine" where
  "register rs e = e\<lparr>mainDeletionQueue := push_function rs (mainDeletionQueue e)\<rparr>"

text \<open>A \<open>vkDestroy...\<close> or \<open>vmaDestroy...\<close> call outside the deletion queue.\<close>

definition destroy :: "resource \<Rightarrow> Engine \<Rightarrow> Engine" where
  "destroy r e =
     e\<lparr>destroyed := destroyed e @ [r],
       destroyed_in_use := destroyed_in_use e @ (if r \<in> set (upload_in_flight e) then [r] else [])\<rparr>"

section \<open>Initialisation\<close>

text \<open>
  \<open>init_vulkan\<close>: \<open>vkb::InstanceBuilder::build().value()\<close> creates the instance and
  the debug messenger (\<open>value()\<close> on a failed build stops the program, like
  \<open>VK_CHECK\<close>), \<open>SDL_Vulkan_CreateSurface\<close> the surface (its result is not
  checked), \<open>vkb::DeviceBuilder\<close> the device, and \<open>vmaCreateAllocator\<close> the
  allocator, whose destructor is the first one pushed.
\<close>

definition init_vulkan :: "init_env \<Rightarrow> Engine \<Rightarrow> Engine result" where
  "init_vulkan env e =
     rbind (vk_create env Instance e) (\<lambda>e.
     let e = create Surface (create DebugMessenger e) in
     rbind (vk_create env Device e) (\<lambda>e.
     rbind (vk_create env Allocator e) (\<lambda>e.
     Inr (register [Allocator] e))))"

text \<open>
  \<open>init_swapchain\<close>: \<open>vkb::SwapchainBuilder\<close> creates the swapchain and one view per
  swapchain image; only the swapchain's destructor is pushed here (the views are destroyed by
  the framebuffer deletors).  Then the depth image and its view, each with its destructor.
\<close>

definition init_swapchain :: "init_env \<Rightarrow> Engine \<Rightarrow> Engine result" where
  "init_swapchain env e =
     rbind (vk_create env Swapchain e) (\<lambda>e.
     let e = fold (\<lambda>i. create (SwapchainImageView i)) [0..<swapchain_images env] e;
         e = register [Swapchain] e in
     rbind (vk_create env DepthImage e) (\<lambda>e.
     let e = register [DepthImage] e in
     rbind (vk_create env DepthImageView e) (\<lambda>e.
     Inr (register [DepthImageView] e))))"

definition init_commands :: "init_env \<Rightarrow> Engine \<Rightarrow> Engine result" where
  "init_commands env e =
     rbind (vk_create env UploadCommandPool e) (\<lambda>e.
     let e = register [UploadCommandPool] e in
     rbind (vk_create env UploadCommandBuffer e) (\<lambda>e.
     rfor [0..<FRAME_OVERLAP] (\<lambda>i e.
       rbind (vk_create env (FrameCommandPool i) e) (\<lambda>e.
       rbind (vk_create env (FrameCommandBuffer i) e) (\<lambda>e.
       Inr (register [FrameCommandPool i] e)))) e))"

definition init_default_renderpass :: "init_env \<Rightarrow> Engine \<Rightarrow> Engine result" where
  "init_default_renderpass env e =
     rbind (vk_create env RenderPass e) (\<lambda>e. Inr (register [RenderPass] e))"

text \<open>One framebuffer per swapchain image; its deletor also destroys the image's view.\<close>

definition init_framebuffers :: "init_env \<Rightarrow> Engine \<Rightarrow> Engine result" where
  "init_framebuffers env e =
     rfor [0..<swapchain_images env] (\<lambda>i e.
       rbind (vk_create env (Framebuffer i) e) (\<lambda>e.
       Inr (register [Framebuffer i, SwapchainImageView i] e))) e"

definition init_sync_structures :: "init_env \<Rightarrow> Engine \<Rightarrow> Engine result" where
  "init_sync_structures env e =
     rbind (vk_create env UploadFence e) (\<lambda>e.
     let e = register [UploadFence] e in
     rfor [0..<FRAME_OVERLAP] (\<lambda>i e.
       rbind (vk_create env (RenderFence i) e) (\<lambda>e.
       let e = register [RenderFence i] e in
       rbind (vk_create env (PresentSemaphore i) e) (\<lambda>e.
       let e = register [PresentSemaphore i] e in
       rbind (vk_create env (RenderSemaphore i) e) (\<lambda>e.
       Inr (register [RenderSemaphore i] e))))) e)"

text \<open>
  \<open>create_buffer\<close>: \<open>VK_CHECK(vmaCreateBuffer(...))\<close>, and the destructor is pushed
  unless the caller destroys the buffer itself (\<open>immediate_destroy\<close>).
\<close>

definition create_buffer :: "init_env \<Rightarrow> bool \<Rightarrow> buffer_id \<Rightarrow> Engine \<Rightarrow> Engine result" where
  "create_buffer env immediate_destroy b e =
     rbind (vk_create env (Buffer b) e) (\<lambda>e.
     Inr (if \<not> immediate_destroy then register [Buffer b] e else e))"

text \<open>
  \<open>init_descriptors\<close>: three set layouts, the descriptor pool (\<open>vkCreateDescriptorPool\<close>
  unchecked), the scene buffer, and per frame the object and camera buffers and the two
  descriptor sets (\<open>vkAllocateDescriptorSets\<close> unchecked).
\<close>

definition init_descriptors :: "init_env \<Rightarrow> Engine \<Rightarrow> Engine result" where
  "init_descriptors env e =
     rbind (vk_create env GlobalSetLayout e) (\<lambda>e.
     let e = register [GlobalSetLayout] e in
     rbind (vk_create env ObjectSetLayout e) (\<lambda>e.
     let e = register [ObjectSetLayout] e in
     rbind (vk_create env SingleTextureSetLayout e) (\<lambda>e.
     let e = register [SingleTextureSetLayout] e;
         e = register [DescriptorPool] (create DescriptorPool e) in
     rbind (create_buffer env False SceneParameterBuffer e) (\<lambda>e.
     rfor [0..<FRAME_OVERLAP] (\<lambda>i e.
       rbind (create_buffer env False (ObjectBuffer i) e) (\<lambda>e.
       rbind (create_buffer env False (CameraBuffer i) e) (\<lambda>e.
       Inr (create (ObjectDescriptor i) (create (GlobalDescriptor i) e))))) e))))"

text \<open>
  \<open>load_shader_module\<close>: \<open>false\<close> when the file does not open or
  \<open>vkCreateShaderModule\<close> fails, and then \<open>*outShaderModule\<close> is not written.
\<close>

definition load_shader_module :: "init_env \<Rightarrow> string \<Rightarrow> Engine \<Rightarrow> bool \<times> Engine" where
  "load_shader_module env filePath e =
     (if shader_loads env filePath then (True, create (ShaderModule filePath) e) else (False, e))"

text \<open>
  \<open>init_pipelines\<close>: a failed shader load only prints a message; the two pipeline
  layouts, the textured pipeline (\<open>PipelineBuilder::build_pipeline\<close>, whose result is not
  checked), and the shader modules destroyed at the end whether or not they were created.
  The \<open>create_material\<close> call is modelled in the registry theory.
\<close>

definition init_pipelines :: "init_env \<Rightarrow> Engine \<Rightarrow> Engine result" where
  "init_pipelines env e =
     (let e = snd (load_shader_module env ''tri_mesh_ssbo.vert.spv'' e);
          e = snd (load_shader_module env ''textured_lit.frag.spv'' e) in
      rbind (vk_create env MeshPipelineLayout e) (\<lambda>e.
      let e = register [MeshPipelineLayout] e in
      rbind (vk_create env TexturePipelineLayout e) (\<lambda>e.
      let e = register [TexturePipelineLayout] e;
          e = register [TexPipeline] (create TexPipeline e) in
      Inr (destroy (ShaderModule ''textured_lit.frag.spv'')
             (destroy (ShaderModule ''tri_mesh_ssbo.vert.spv'') e)))))"

text \<open>
  \<open>immediate_submit\<close>: record, submit with the upload fence, wait for it and reset it.
  The result of \<open>vkWaitForFences\<close> is ignored: when the wait does not succeed the
  submission may still be running, reading the resources \<open>reads\<close>.
\<close>

definition immediate_submit :: "init_env \<Rightarrow> resource list \<Rightarrow> Engine \<Rightarrow> Engine result" where
  "immediate_submit env reads e =
     rbind (vk_call env BeginCommandBuffer e) (\<lambda>e.
     rbind (vk_call env EndCommandBuffer e) (\<lambda>e.
     rbind (vk_call env QueueSubmit e) (\<lambda>e.
     Inr (e\<lparr>upload_in_flight := (if vk env WaitForFences = VK_SUCCESS then [] else reads)\<rparr>))))"

definition upload_mesh :: "init_env \<Rightarrow> Engine \<Rightarrow> Engine result" where
  "upload_mesh env e =
     rbind (create_buffer env True MeshStagingBuffer e) (\<lambda>e.
     rbind (create_buffer env False MeshVertexBuffer e) (\<lambda>e.
     rbind (immediate_submit env [Buffer MeshStagingBuffer, Buffer MeshVertexBuffer] e) (\<lambda>e.
     Inr (destroy (Buffer MeshStagingBuffer) e))))"

text \<open>\<open>load_meshes\<close>: the OBJ file is parsed on the CPU (not modelled) and uploaded.\<close>

definition load_meshes :: "init_env \<Rightarrow> Engine \<Rightarrow> Engine result" where
  "load_meshes env e = upload_mesh env e"

text \<open>
  The one-shot command buffers of src/src/vk_texture.cpp: allocation, begin and submit throw
  \<open>std::runtime_error\<close> on failure; \<open>vkQueueWaitIdle\<close> waits for the copy.
\<close>

definition beginSigleTimeCommands :: "init_env \<Rightarrow> Engine \<Rightarrow> Engine result" where
  "beginSigleTimeCommands env e =
     rbind (throw_unless env AllocateCommandBuffers ''failed to allocate command buffers!'' e)
       (throw_unless env BeginCommandBuffer ''failed to begin record copy buffer command !'')"

definition endSigleTimeCommands :: "init_env \<Rightarrow> Engine \<Rightarrow> Engine result" where
  "endSigleTimeCommands env e =
     throw_unless env QueueSubmit ''failed to submite copybuffer command queue !'' e"

definition copyBufferToImage :: "init_env \<Rightarrow> Engine \<Rightarrow> Engine result" where
  "copyBufferToImage env e = endSigleTimeCommands env e"

definition generateMipmaps :: "init_env \<Rightarrow> Engine \<Rightarrow> Engine result" where
  "generateMipmaps env e =
     (if \<not> linear_blit env
      then Inl (RuntimeError ''texture image format does not support linear blitting!'')
      else rbind (beginSigleTimeCommands env e) (endSigleTimeCommands env))"

text \<open>
  \<open>load_image_from_file\<close> (the overload with \<open>mipLevels\<close>): \<open>false\<close> when
  \<open>stbi_load\<close> fails; otherwise a staging buffer, the image (\<open>vmaCreateImage\<close>
  unchecked) with its destructor, the copy and mipmap submissions, and the staging buffer
  destroyed after \<open>vkQueueWaitIdle\<close>.
\<close>

definition load_image_from_file :: "init_env \<Rightarrow> Engine \<Rightarrow> (bool \<times> Engine) result" where
  "load_image_from_file env e =
     (if \<not> texture_loads env then Inr (False, e) else
      rbind (create_buffer env True TextureStagingBuffer e) (\<lambda>e.
      let e = register [TextureImage] (create TextureImage e) in
      rbind (beginSigleTimeCommands env e) (\<lambda>e.
      rbind (copyBufferToImage env e) (\<lambda>e.
      rbind (generateMipmaps env e) (\<lambda>e.
      Inr (True, destroy (Buffer TextureStagingBuffer) e))))))"

definition load_mipmap_texture :: "init_env \<Rightarrow> Engine \<Rightarrow> Engine result" where
  "load_mipmap_texture env e =
     rbind (load_image_from_file env e) (\<lambda>(ok, e).
     if \<not> ok then Inr e else Inr (register [TextureImageView] (create TextureImageView e)))"

text \<open>\<open>init_scene\<close>: the sampler, and the texture descriptor set (allocation unchecked).\<close>

definition init_scene :: "init_env \<Rightarrow> Engine \<Rightarrow> Engine result" where
  "init_scene env e =
     rbind (vk_create env Sampler e) (\<lambda>e.
     Inr (create TextureSet (register [Sampler] e)))"

text \<open>
  \<open>init_imgui\<close>: the ImGui descriptor pool, the ImGui context and Vulkan backend, the font
  upload through \<open>immediate_submit\<close> (\<open>ImGui_ImplVulkan_CreateFontsTexture\<close> creates
  the font image, kept by the backend, and a host-visible upload buffer the recorded copy
  reads), \<open>ImGui_ImplVulkan_DestroyFontUploadObjects\<close> destroying that upload buffer right
  after the submission, and one deletor that destroys the pool and then shuts the backend down.
\<close>

definition init_imgui :: "init_env \<Rightarrow> Engine \<Rightarrow> Engine result" where
  "init_imgui env e =
     rbind (vk_create env ImguiPool e) (\<lambda>e.
     let e = create ImguiFontUploadBuffer (create ImguiBackend e) in
     rbind (immediate_submit env [ImguiFontUploadBuffer] e) (\<lambda>e.
     let e = destroy ImguiFontUploadBuffer e in
     Inr (register [ImguiPool, ImguiBackend] e)))"

definition init :: "init_env \<Rightarrow> Engine \<Rightarrow> Engine result" where
  "init env e =
     (let e = create Window e in
      rbind (init_vulkan env e) (\<lambda>e.
      rbind (init_swapchain env e) (\<lambda>e.
      rbind (init_commands env e) (\<lambda>e.
      rbind (init_default_renderpass env e) (\<lambda>e.
      rbind (init_framebuffers env e) (\<lambda>e.
      rbind (init_sync_structures env e) (\<lambda>e.
      rbind (init_descriptors env e) (\<lambda>e.
      rbind (init_pipelines env e) (\<lambda>e.
      rbind (load_mipmap_texture env e) (\<lambda>e.
      rbind (load_meshes env e) (\<lambda>e.
      rbind (init_scene env e) (\<lambda>e.
      rbind (init_imgui env e) (\<lambda>e.
      Inr (e\<lparr>isInitialized := True\<rparr>))))))))))))))"

section \<open>Teardown\<close>

text \<open>
  \<open>cleanup\<close>: only after a complete \<open>init\<close>; \<open>vkDeviceWaitIdle\<close>, the flush of the
  deletion queue, then the device, surface, debug messenger, instance and window.  The
  result is the sequence of objects destroyed, in order.
\<close>

definition cleanup :: "Engine \<Rightarrow> resource list \<times> Engine" where
  "cleanup e =
     (if isInitialized e then
        let (called, q) = flush (mainDeletionQueue e);
            seq = concat called @ [Device, Surface, DebugMessenger, Instance, Window]
        in (seq, e\<lparr>mainDeletionQueue := q, destroyed := destroyed e @ seq, upload_in_flight := []\<rparr>)
      else ([], e))"

section \<open>Specification of the effects\<close>

text \<open>
  \<open>grows e e' R C D U\<close>: going from \<open>e\<close> to \<open>e'\<close> pushed the deletors \<open>R\<close>,
  created \<open>C\<close>, destroyed \<open>D\<close> outside the queue, and destroyed \<open>U\<close> while an upload
  reading it may still run.
\<close>

definition grows ::
  "Engine \<Rightarrow> Engine \<Rightarrow> resource list list \<Rightarrow> resource list \<Rightarrow> resource list \<Rightarrow> resource list \<Rightarrow> bool" where
  "grows e e' R C D U \<longleftrightarrow>
     deletors (mainDeletionQueue e') = deletors (mainDeletionQueue e) @ R \<and>
     created e' = created e @ C \<and> destroyed e' = destroyed e @ D \<and>
     destroyed_in_use e' = destroyed_in_use e @ U"


text \<open>The deletors a completed \<open>init\<close> leaves on the queue, in registration order.\<close>

definition init_registrations :: "init_env \<Rightarrow> resource list list" where
  "init_registrations env =
     [[Allocator], [Swapchain], [DepthImage], [DepthImageView],
      [UploadCommandPool], [FrameCommandPool 0], [FrameCommandPool 1], [RenderPass]] @
     map (\<lambda>i. [Framebuffer i, SwapchainImageView i]) [0..<swapchain_images env] @
     [[UploadFence], [RenderFence 0], [PresentSemaphore 0], [RenderSemaphore 0],
      [RenderFence 1], [PresentSemaphore 1], [RenderSemaphore 1],
      [GlobalSetLayout], [ObjectSetLayout], [SingleTextureSetLayout], [DescriptorPool],
      [Buffer SceneParameterBuffer], [Buffer (ObjectBuffer 0)], [Buffer (CameraBuffer 0)],
      [Buffer (ObjectBuffer 1)], [Buffer (CameraBuffer 1)],
      [MeshPipelineLayout], [TexturePipelineLayout], [TexPipeline]] @
     (if texture_loads env then [[TextureImage], [TextureImageView]] else []) @
     [[Buffer MeshVertexBuffer], [Sampler], [ImguiPool, ImguiBackend]]"


definition teardown_order :: "init_env \<Rightarrow> resource list" where
  "teardown_order env = concat (rev (init_registrations env)) @ [Device, Surface, DebugMessenger, Instance, Window]"


text \<open>Environments for the witnesses: every call succeeds, with three swapchain images; and
  the same with a fence wait that times out.\<close>

definition ok_init_env :: init_env where
  "ok_init_env =
     \<lparr>vk = (\<lambda>_. VK_SUCCESS), swapchain_images = 3, shader_loads = (\<lambda>_. True),
      texture_loads = True, linear_blit = True\<rparr>"


definition timeout_env :: init_env where
  "timeout_env = ok_init_env\<lparr>vk := (\<lambda>c. if c = WaitForFences then VK_TIMEOUT else VK_SUCCESS)\<rparr>"

section \<open>Effects of the initialisation steps\<close>

lemma grows_trans:
  "grows a b R C D U \<Longrightarrow> grows b c R' C' D' U' \<Longrightarrow> grows a c (R @ R') (C @ C') (D @ D') (U @ U')"
  by (simp add: grows_def)

lemma rfor_grows:
  "rfor is f s = Inr s' \<Longrightarrow>
   (\<And>i s s'. i \<in> set is \<Longrightarrow> f i s = Inr s' \<Longrightarrow>
      grows s s' (R i) (C i) (D i) [] \<and> upload_in_flight s' = upload_in_flight s) \<Longrightarrow>
   grows s s' (concat (map R is)) (concat (map C is)) (concat (map D is)) [] \<and>
   upload_in_flight s' = upload_in_flight s"
proof (induction "is" arbitrary: s)
  case Nil
  then show ?case by (simp add: grows_def)
next
  case (Cons i "is")
  from Cons.prems(1) obtain s1 where s1: "f i s = Inr s1" and r: "rfor is f s1 = Inr s'"
    by (auto simp: rbind_eq_Inr)
  have "grows s s1 (R i) (C i) (D i) [] \<and> upload_in_flight s1 = upload_in_flight s"
    using Cons.prems(2) [of i s s1] s1 by simp
  moreover have "grows s1 s' (concat (map R is)) (concat (map C is)) (concat (map D is)) [] \<and>
      upload_in_flight s' = upload_in_flight s1"
    by (rule Cons.IH [OF r]) (metis Cons.prems(2) list.set_intros(2))
  ultimately show ?case by (simp add: grows_def)
qed

lemmas engine_ops [vk_simps] = create_def register_def destroy_def vk_create_def vk_call_def throw_unless_def

lemma fold_create:
  "fold (\<lambda>i. create (f i)) xs e = e\<lparr>created := created e @ map f xs\<rparr>"
  by (induction xs arbitrary: e) (simp_all add: create_def)

lemma FRAME_OVERLAP_upt: "[0..<FRAME_OVERLAP] = [0, 1]"
  by (simp add: FRAME_OVERLAP_def upt_rec)

lemmas grows_simps = engine_ops rbind_eq_Inr grows_def Let_def FRAME_OVERLAP_upt

lemma init_vulkan_grows:
  "init_vulkan env e = Inr e' \<Longrightarrow>
   grows e e' [[Allocator]] [Instance, DebugMessenger, Surface, Device, Allocator] [] [] \<and>
   upload_in_flight e' = upload_in_flight e"
  by (auto simp: init_vulkan_def grows_simps split: if_split_asm)

lemma init_swapchain_grows:
  "init_swapchain env e = Inr e' \<Longrightarrow>
   grows e e' [[Swapchain], [DepthImage], [DepthImageView]]
     (Swapchain # map SwapchainImageView [0..<swapchain_images env] @ [DepthImage, DepthImageView]) [] [] \<and>
   upload_in_flight e' = upload_in_flight e"
  by (auto simp: init_swapchain_def grows_simps fold_create split: if_split_asm)

lemma init_commands_grows:
  "init_commands env e = Inr e' \<Longrightarrow>
   grows e e' [[UploadCommandPool], [FrameCommandPool 0], [FrameCommandPool 1]]
     [UploadCommandPool, UploadCommandBuffer, FrameCommandPool 0, FrameCommandBuffer 0,
      FrameCommandPool 1, FrameCommandBuffer 1] [] [] \<and>
   upload_in_flight e' = upload_in_flight e"
  by (auto simp: init_commands_def grows_simps split: if_split_asm)

lemma init_default_renderpass_grows:
  "init_default_renderpass env e = Inr e' \<Longrightarrow>
   grows e e' [[RenderPass]] [RenderPass] [] [] \<and> upload_in_flight e' = upload_in_flight e"
  by (auto simp: init_default_renderpass_def grows_simps split: if_split_asm)

lemma init_framebuffers_grows:
  "init_framebuffers env e = Inr e' \<Longrightarrow>
   grows e e' (map (\<lambda>i. [Framebuffer i, SwapchainImageView i]) [0..<swapchain_images env])
     (map Framebuffer [0..<swapchain_images env]) [] [] \<and>
   upload_in_flight e' = upload_in_flight e"
  unfolding init_framebuffers_def
  by (drule rfor_grows [where R = "\<lambda>i. [[Framebuffer i, SwapchainImageView i]]"
        and C = "\<lambda>i. [Framebuffer i]" and D = "\<lambda>i. []"])
     (auto simp: grows_simps split: if_split_asm)

lemma init_sync_structures_grows:
  "init_sync_structures env e = Inr e' \<Longrightarrow>
   grows e e' [[UploadFence], [RenderFence 0], [PresentSemaphore 0], [RenderSemaphore 0],
       [RenderFence 1], [PresentSemaphore 1], [RenderSemaphore 1]]
     [UploadFence, RenderFence 0, PresentSemaphore 0, RenderSemaphore 0,
      RenderFence 1, PresentSemaphore 1, RenderSemaphore 1] [] [] \<and>
   upload_in_flight e' = upload_in_flight e"
  by (auto simp: init_sync_structures_def grows_simps split: if_split_asm)

lemma init_descriptors_grows:
  "init_descriptors env e = Inr e' \<Longrightarrow>
   grows e e' [[GlobalSetLayout], [ObjectSetLayout], [SingleTextureSetLayout], [DescriptorPool],
       [Buffer SceneParameterBuffer], [Buffer (ObjectBuffer 0)], [Buffer (CameraBuffer 0)],
       [Buffer (ObjectBuffer 1)], [Buffer (CameraBuffer 1)]]
     [GlobalSetLayout, ObjectSetLayout, SingleTextureSetLayout, DescriptorPool,
      Buffer SceneParameterBuffer, Buffer (ObjectBuffer 0), Buffer (CameraBuffer 0),
      GlobalDescriptor 0, ObjectDescriptor 0, Buffer (ObjectBuffer 1), Buffer (CameraBuffer 1),
      GlobalDescriptor 1, ObjectDescriptor 1] [] [] \<and>
   upload_in_flight e' = upload_in_flight e"
  by (auto simp: init_descriptors_def create_buffer_def grows_simps split: if_split_asm)

lemma init_pipelines_grows:
  "init_pipelines env e = Inr e' \<Longrightarrow> upload_in_flight e = [] \<Longrightarrow>
   grows e e' [[MeshPipelineLayout], [TexturePipelineLayout], [TexPipeline]]
     ((if shader_loads env ''tri_mesh_ssbo.vert.spv'' then [ShaderModule ''tri_mesh_ssbo.vert.spv''] else []) @
      (if shader_loads env ''textured_lit.frag.spv'' then [ShaderModule ''textured_lit.frag.spv''] else []) @
      [MeshPipelineLayout, TexturePipelineLayout, TexPipeline])
     [ShaderModule ''tri_mesh_ssbo.vert.spv'', ShaderModule ''textured_lit.frag.spv''] [] \<and>
   upload_in_flight e' = []"
  by (auto simp: init_pipelines_def load_shader_module_def grows_simps split: if_split_asm)

lemma load_image_from_file_grows:
  "load_image_from_file env e = Inr (ok, e') \<Longrightarrow> upload_in_flight e = [] \<Longrightarrow>
   ok = texture_loads env \<and>
   grows e e' (if ok then [[TextureImage]] else [])
     (if ok then [Buffer TextureStagingBuffer, TextureImage] else [])
     (if ok then [Buffer TextureStagingBuffer] else []) [] \<and>
   upload_in_flight e' = []"
  by (auto simp: load_image_from_file_def create_buffer_def beginSigleTimeCommands_def
      endSigleTimeCommands_def copyBufferToImage_def generateMipmaps_def grows_simps
      split: if_split_asm)

lemma load_mipmap_texture_grows:
  assumes a: "load_mipmap_texture env e = Inr e'" "upload_in_flight e = []"
  shows "grows e e' (if texture_loads env then [[TextureImage], [TextureImageView]] else [])
     (if texture_loads env then [Buffer TextureStagingBuffer, TextureImage, TextureImageView] else [])
     (if texture_loads env then [Buffer TextureStagingBuffer] else []) [] \<and>
   upload_in_flight e' = []"
proof (cases "load_image_from_file env e")
  case (Inl err)
  with a show ?thesis by (simp add: load_mipmap_texture_def)
next
  case (Inr p)
  obtain ok e1 where p: "p = (ok, e1)" by (cases p)
  have l: "load_image_from_file env e = Inr (ok, e1)" using Inr p by simp
  have r: "e' = (if ok then register [TextureImageView] (create TextureImageView e1) else e1)"
    using a(1) l by (simp add: load_mipmap_texture_def split: if_split_asm)
  from load_image_from_file_grows [OF l a(2)] r show ?thesis
    by (auto simp: grows_simps split: if_split_asm)
qed

lemma load_meshes_grows:
  "load_meshes env e = Inr e' \<Longrightarrow> upload_in_flight e = [] \<Longrightarrow>
   grows e e' [[Buffer MeshVertexBuffer]] [Buffer MeshStagingBuffer, Buffer MeshVertexBuffer]
     [Buffer MeshStagingBuffer]
     (if vk env WaitForFences = VK_SUCCESS then [] else [Buffer MeshStagingBuffer]) \<and>
   upload_in_flight e' =
     (if vk env WaitForFences = VK_SUCCESS then [] else [Buffer MeshStagingBuffer, Buffer MeshVertexBuffer])"
  by (auto simp: load_meshes_def upload_mesh_def immediate_submit_def create_buffer_def
      grows_simps split: if_split_asm)

lemma init_scene_grows:
  "init_scene env e = Inr e' \<Longrightarrow>
   grows e e' [[Sampler]] [Sampler, TextureSet] [] [] \<and> upload_in_flight e' = upload_in_flight e"
  by (auto simp: init_scene_def grows_simps split: if_split_asm)

lemma init_imgui_grows:
  "init_imgui env e = Inr e' \<Longrightarrow>
   grows e e' [[ImguiPool, ImguiBackend]] [ImguiPool, ImguiBackend, ImguiFontUploadBuffer] [ImguiFontUploadBuffer]
     (if vk env WaitForFences = VK_SUCCESS then [] else [ImguiFontUploadBuffer])"
  by (auto simp: init_imgui_def immediate_submit_def grows_simps split: if_split_asm)



text \<open>The effect of the whole of \<open>init\<close> on the queue and the ghost records.\<close>

lemma init_grows:
  assumes run: "init env e = Inr e'" and idle: "upload_in_flight e = []"
  shows "grows e e' (init_registrations env)
     ([Window, Instance, DebugMessenger, Surface, Device, Allocator, Swapchain] @
      map SwapchainImageView [0..<swapchain_images env] @
      [DepthImage, DepthImageView, UploadCommandPool, UploadCommandBuffer, FrameCommandPool 0,
       FrameCommandBuffer 0, FrameCommandPool 1, FrameCommandBuffer 1, RenderPass] @
      map Framebuffer [0..<swapchain_images env] @
      [UploadFence, RenderFence 0, PresentSemaphore 0, RenderSemaphore 0,
       RenderFence 1, PresentSemaphore 1, RenderSemaphore 1,
       GlobalSetLayout, ObjectSetLayout, SingleTextureSetLayout, DescriptorPool,
       Buffer SceneParameterBuffer, Buffer (ObjectBuffer 0), Buffer (CameraBuffer 0),
       GlobalDescriptor 0, ObjectDescriptor 0, Buffer (ObjectBuffer 1), Buffer (CameraBuffer 1),
       GlobalDescriptor 1, ObjectDescriptor 1] @
      (if shader_loads env ''tri_mesh_ssbo.vert.spv'' then [ShaderModule ''tri_mesh_ssbo.vert.spv''] else []) @
      (if shader_loads env ''textured_lit.frag.spv'' then [ShaderModule ''textured_lit.frag.spv''] else []) @
      [MeshPipelineLayout, TexturePipelineLayout, TexPipeline] @
      (if texture_loads env then [Buffer TextureStagingBuffer, TextureImage, TextureImageView] else []) @
      [Buffer MeshStagingBuffer, Buffer MeshVertexBuffer, Sampler, TextureSet, ImguiPool, ImguiBackend,
       ImguiFontUploadBuffer])
     ([ShaderModule ''tri_mesh_ssbo.vert.spv'', ShaderModule ''textured_lit.frag.spv''] @
      (if texture_loads env then [Buffer TextureStagingBuffer] else []) @ [Buffer MeshStagingBuffer,
       ImguiFontUploadBuffer])
     (if vk env WaitForFences = VK_SUCCESS then [] else [Buffer MeshStagingBuffer, ImguiFontUploadBuffer]) \<and>
   isInitialized e'"
proof -
  obtain e1 e2 e3 e4 e5 e6 e7 e8 e9 e10 e11 e12 where
    s1: "init_vulkan env (create Window e) = Inr e1" and s2: "init_swapchain env e1 = Inr e2" and
    s3: "init_commands env e2 = Inr e3" and s4: "init_default_renderpass env e3 = Inr e4" and
    s5: "init_framebuffers env e4 = Inr e5" and s6: "init_sync_structures env e5 = Inr e6" and
    s7: "init_descriptors env e6 = Inr e7" and s8: "init_pipelines env e7 = Inr e8" and
    s9: "load_mipmap_texture env e8 = Inr e9" and s10: "load_meshes env e9 = Inr e10" and
    s11: "init_scene env e10 = Inr e11" and s12: "init_imgui env e11 = Inr e12" and
    fin: "e' = e12\<lparr>isInitialized := True\<rparr>"
    using run by (auto simp: init_def rbind_eq_Inr Let_def)
  note g1 = init_vulkan_grows [OF s1] and g2 = init_swapchain_grows [OF s2]
    and g3 = init_commands_grows [OF s3] and g4 = init_default_renderpass_grows [OF s4]
    and g5 = init_framebuffers_grows [OF s5] and g6 = init_sync_structures_grows [OF s6]
    and g7 = init_descriptors_grows [OF s7]
  have i7: "upload_in_flight e7 = []"
    using idle g1 g2 g3 g4 g5 g6 g7 by (simp add: create_def)
  note g8 = init_pipelines_grows [OF s8 i7]
  note g9 = load_mipmap_texture_grows [OF s9 conjunct2 [OF g8]]
  note g10 = load_meshes_grows [OF s10 conjunct2 [OF g9]]
  note g11 = init_scene_grows [OF s11] and g12 = init_imgui_grows [OF s12]
  show ?thesis
    using g1 g2 g3 g4 g5 g6 g7 g8 g9 g10 g11 g12 fin
    by (simp add: grows_def create_def init_registrations_def)
qed



section \<open>Teardown order\<close>

lemma cleanup_initialized:
  "isInitialized e \<Longrightarrow>
   fst (cleanup e) = concat (rev (deletors (mainDeletionQueue e))) @ [Device, Surface, DebugMessenger, Instance, Window] \<and>
   destroyed (snd (cleanup e)) = destroyed e @ fst (cleanup e)"
  by (simp add: cleanup_def flush_def call_reverse_take Let_def split: prod.splits)

lemma init_cleanup:
  "init env empty_engine = Inr e \<Longrightarrow> fst (cleanup e) = teardown_order env"
  using init_grows [of env empty_engine e] cleanup_initialized [of e]
  by (simp add: grows_def empty_engine_def teardown_order_def)



lemma framebuffer_block_first:
  assumes "\<And>x y. dep x y \<Longrightarrow> y \<in> set (needs x)"
  shows "distinct xs \<Longrightarrow> dependents_first dep (concat (map (\<lambda>i. [Framebuffer i, SwapchainImageView i]) xs))"
  by (induction xs) (auto simp: dependents_first_append dest!: assms)

lemma teardown_order_dependents_first:
  "dependents_first depends (teardown_order env)"
proof -
  have fb: "dependents_first depends
      (concat (map (\<lambda>i. [Framebuffer i, SwapchainImageView i]) (rev [0..<swapchain_images env])))"
    by (rule framebuffer_block_first) (simp_all add: depends_def)
  show ?thesis
    by (auto simp: teardown_order_def init_registrations_def rev_map dependents_first_append
        depends_def fb)
qed



section \<open>Success and failure of init\<close>

lemmas succeed_simps = engine_ops VK_SUCCESS_def Let_def FRAME_OVERLAP_upt create_buffer_def

lemma init_steps_succeed:
  assumes ok: "\<forall>c. c \<noteq> WaitForFences \<longrightarrow> vk env c = VK_SUCCESS"
  shows "\<exists>e'. init_vulkan env e = Inr e'" "\<exists>e'. init_swapchain env e = Inr e'"
    "\<exists>e'. init_commands env e = Inr e'" "\<exists>e'. init_default_renderpass env e = Inr e'"
    "\<exists>e'. init_framebuffers env e = Inr e'" "\<exists>e'. init_sync_structures env e = Inr e'"
    "\<exists>e'. init_descriptors env e = Inr e'" "\<exists>e'. init_pipelines env e = Inr e'"
    "\<exists>e'. load_meshes env e = Inr e'" "\<exists>e'. init_scene env e = Inr e'"
    "\<exists>e'. init_imgui env e = Inr e'"
  using ok
  by (simp_all add: init_vulkan_def init_swapchain_def init_commands_def init_default_renderpass_def
      init_framebuffers_def init_sync_structures_def init_descriptors_def init_pipelines_def
      load_meshes_def upload_mesh_def immediate_submit_def init_scene_def init_imgui_def
      rfor_succeeds succeed_simps)

lemma load_mipmap_texture_result:
  assumes ok: "\<forall>c. c \<noteq> WaitForFences \<longrightarrow> vk env c = VK_SUCCESS"
  shows "load_mipmap_texture env e =
    (if texture_loads env \<and> \<not> linear_blit env
     then Inl (RuntimeError ''texture image format does not support linear blitting!'')
     else Inr (if texture_loads env
       then register [TextureImageView] (create TextureImageView
              (destroy (Buffer TextureStagingBuffer) (register [TextureImage] (create TextureImage
                 (create (Buffer TextureStagingBuffer) e)))))
       else e))"
  using ok
  by (simp add: load_mipmap_texture_def load_image_from_file_def beginSigleTimeCommands_def
      endSigleTimeCommands_def copyBufferToImage_def generateMipmaps_def succeed_simps)

lemma init_prefix_succeeds:
  assumes ok: "\<forall>c. c \<noteq> WaitForFences \<longrightarrow> vk env c = VK_SUCCESS"
  shows "\<exists>e8. init env e =
    rbind (load_mipmap_texture env e8) (\<lambda>e. rbind (load_meshes env e) (\<lambda>e.
    rbind (init_scene env e) (\<lambda>e. rbind (init_imgui env e) (\<lambda>e. Inr (e\<lparr>isInitialized := True\<rparr>)))))"
proof -
  note s = init_steps_succeed [OF ok]
  obtain e1 where 1: "init_vulkan env (create Window e) = Inr e1" using s(1) by blast
  obtain e2 where 2: "init_swapchain env e1 = Inr e2" using s(2) by blast
  obtain e3 where 3: "init_commands env e2 = Inr e3" using s(3) by blast
  obtain e4 where 4: "init_default_renderpass env e3 = Inr e4" using s(4) by blast
  obtain e5 where 5: "init_framebuffers env e4 = Inr e5" using s(5) by blast
  obtain e6 where 6: "init_sync_structures env e5 = Inr e6" using s(6) by blast
  obtain e7 where 7: "init_descriptors env e6 = Inr e7" using s(7) by blast
  obtain e8 where 8: "init_pipelines env e7 = Inr e8" using s(8) by blast
  show ?thesis by (rule exI [of _ e8]) (simp add: init_def 1 2 3 4 5 6 7 8)
qed

lemma mset_concat_pairs [simp]:
  "mset (concat (map (\<lambda>i. [f i, g i]) xs)) = mset (map f xs) + mset (map g xs)"
  by (induction xs) auto

lemma init_runs:
  assumes ok: "\<forall>c. c \<noteq> WaitForFences \<longrightarrow> vk env c = VK_SUCCESS"
    and tex: "linear_blit env \<or> \<not> texture_loads env"
  shows "\<exists>e'. init env e = Inr e'"
proof -
  note s = init_steps_succeed [OF ok]
  obtain e8 where pre: "init env e =
    rbind (load_mipmap_texture env e8) (\<lambda>e. rbind (load_meshes env e) (\<lambda>e.
    rbind (init_scene env e) (\<lambda>e. rbind (init_imgui env e) (\<lambda>e. Inr (e\<lparr>isInitialized := True\<rparr>)))))"
    using init_prefix_succeeds [OF ok] by blast
  obtain e9 where 9: "load_mipmap_texture env e8 = Inr e9"
    using load_mipmap_texture_result [OF ok, of e8] tex by auto
  obtain e10 where 10: "load_meshes env e9 = Inr e10" using s(9) by blast
  obtain e11 where 11: "init_scene env e10 = Inr e11" using s(10) by blast
  obtain e12 where 12: "init_imgui env e11 = Inr e12" using s(11) by blast
  show ?thesis by (simp add: pre 9 10 11 12)
qed

lemma init_blit_error:
  assumes ok: "\<forall>c. c \<noteq> WaitForFences \<longrightarrow> vk env c = VK_SUCCESS"
    and tl: "texture_loads env" and nlb: "\<not> linear_blit env"
  shows "init env e = Inl (RuntimeError ''texture image format does not support linear blitting!'')"
proof -
  obtain e8 where pre: "init env e =
    rbind (load_mipmap_texture env e8) (\<lambda>e. rbind (load_meshes env e) (\<lambda>e.
    rbind (init_scene env e) (\<lambda>e. rbind (init_imgui env e) (\<lambda>e. Inr (e\<lparr>isInitialized := True\<rparr>)))))"
    using init_prefix_succeeds [OF ok] by blast
  show ?thesis by (simp add: pre load_mipmap_texture_result [OF ok] tl nlb)
qed

lemma ok_init_env_runs: "\<exists>e. init ok_init_env empty_engine = Inr e"
  by (rule init_runs) (simp_all add: ok_init_env_def)

section \<open>Properties\<close>

text \<open>
  When every checked Vulkan call succeeds, \<open>init\<close> completes exactly when the
  texture format supports linear blitting or the texture file is not found; the result of
  the upload fence wait does not matter, since it is never checked.
\<close>

theorem init_succeeds_iff:
  "\<forall>c. c \<noteq> WaitForFences \<longrightarrow> vk env c = VK_SUCCESS \<Longrightarrow>
   (\<exists>e'. init env e = Inr e') \<longleftrightarrow> linear_blit env \<or> \<not> texture_loads env"
  using init_runs [of env e] init_blit_error [of env e] by auto

theorem init_succeeds_iff_witness:
  "(\<exists>e'. init ok_init_env empty_engine = Inr e') \<and>
   \<not> (\<exists>e'. init (ok_init_env\<lparr>linear_blit := False\<rparr>) empty_engine = Inr e')"
  using init_succeeds_iff [of ok_init_env empty_engine]
        init_succeeds_iff [of "ok_init_env\<lparr>linear_blit := False\<rparr>" empty_engine]
  by (simp add: ok_init_env_def)

text \<open>
  C35: a texture format without linear-blit support makes \<open>generateMipmaps\<close> throw, and
  the exception ends \<open>init\<close> with that error.
\<close>

theorem init_throws_without_linear_blit:
  "\<forall>c. c \<noteq> WaitForFences \<longrightarrow> vk env c = VK_SUCCESS \<Longrightarrow> texture_loads env \<Longrightarrow> \<not> linear_blit env \<Longrightarrow>
   init env e = Inl (RuntimeError ''texture image format does not support linear blitting!'')"
  by (rule init_blit_error)

theorem init_throws_without_linear_blit_witness:
  "init (ok_init_env\<lparr>linear_blit := False\<rparr>) empty_engine =
     Inl (RuntimeError ''texture image format does not support linear blitting!'')"
  by (rule init_throws_without_linear_blit) (simp_all add: ok_init_env_def)

text \<open>
  A completed \<open>init\<close> leaves on the main deletion queue exactly the deletors of
  \<open>init_registrations\<close>, in that order: the allocator first, then the swapchain and depth
  image, command pools, render pass, one framebuffer-and-view deletor per swapchain image,
  the synchronisation objects, descriptor layouts, pool and buffers, pipeline objects, the
  texture (when it loaded), the vertex buffer, the sampler and the ImGui deletor.
\<close>

theorem init_registers:
  "init env empty_engine = Inr e \<Longrightarrow>
   deletors (mainDeletionQueue e) = init_registrations env \<and> isInitialized e"
  using init_grows [of env empty_engine e] by (simp add: grows_def empty_engine_def)

theorem init_registers_witness:
  "\<exists>e. init ok_init_env empty_engine = Inr e \<and>
     length (deletors (mainDeletionQueue e)) = 35"
proof -
  obtain e where run: "init ok_init_env empty_engine = Inr e" using ok_init_env_runs by blast
  with init_registers [OF run] show ?thesis
    by (simp add: init_registrations_def ok_init_env_def)
qed

text \<open>
  C3: the teardown of \<open>cleanup\<close> after a completed \<open>init\<close> destroys every object
  before each object it needs: no object is destroyed after one it depends on.
\<close>

theorem cleanup_destroys_dependents_first:
  "init env empty_engine = Inr e \<Longrightarrow> i < j \<Longrightarrow> j < length (fst (cleanup e)) \<Longrightarrow>
   \<not> depends (fst (cleanup e) ! j) (fst (cleanup e) ! i)"
  using dependents_first_nth [OF teardown_order_dependents_first, of i j env]
  by (simp add: init_cleanup)

theorem cleanup_destroys_dependents_first_witness:
  "\<exists>e. init ok_init_env empty_engine = Inr e \<and>
     fst (cleanup e) ! 4 = TextureImageView \<and> fst (cleanup e) ! 5 = TextureImage \<and>
     \<not> depends (fst (cleanup e) ! 5) (fst (cleanup e) ! 4)"
proof -
  obtain e where run: "init ok_init_env empty_engine = Inr e" using ok_init_env_runs by blast
  have seq: "fst (cleanup e) = teardown_order ok_init_env" using run by (rule init_cleanup)
  have pos: "fst (cleanup e) ! 4 = TextureImageView \<and> fst (cleanup e) ! 5 = TextureImage"
    by (simp add: seq teardown_order_def init_registrations_def ok_init_env_def)
  have "\<not> depends (fst (cleanup e) ! 5) (fst (cleanup e) ! 4)"
    by (rule cleanup_destroys_dependents_first [OF run, of 4 5])
       (simp_all add: seq teardown_order_def init_registrations_def ok_init_env_def)
  with run pos show ?thesis by blast
qed

text \<open>
  C7: when both shader modules load, \<open>init\<close> followed by \<open>cleanup\<close> destroys every
  object it created exactly once (as multisets, objects destroyed during \<open>init\<close>
  included), except command buffers and descriptor sets, whose pools are destroyed.
\<close>

theorem cleanup_releases_all:
  "init env empty_engine = Inr e \<Longrightarrow> shader_loads env ''tri_mesh_ssbo.vert.spv'' \<Longrightarrow>
   shader_loads env ''textured_lit.frag.spv'' \<Longrightarrow>
   mset (destroyed (snd (cleanup e))) = mset (filter (\<lambda>r. owner r = None) (created e)) \<and>
   (\<forall>r\<in>set (created e). \<forall>p. owner r = Some p \<longrightarrow> p \<in> set (fst (cleanup e)))"
  using init_grows [of env empty_engine e] cleanup_initialized [of e] init_cleanup [of env e]
  by (simp add: grows_def empty_engine_def teardown_order_def init_registrations_def rev_map
      filter_map comp_def)
     auto



theorem cleanup_releases_all_witness:
  "\<exists>e. init ok_init_env empty_engine = Inr e \<and>
     mset (destroyed (snd (cleanup e))) = mset (filter (\<lambda>r. owner r = None) (created e))"
proof -
  obtain e where run: "init ok_init_env empty_engine = Inr e" using ok_init_env_runs by blast
  with cleanup_releases_all [OF run] show ?thesis by (simp add: ok_init_env_def)
qed

text \<open>
  C33: a shader file that fails to load does not stop \<open>init\<close>, and \<open>init_pipelines\<close>
  then calls \<open>vkDestroyShaderModule\<close> on the never-initialised handle.
\<close>

theorem shader_failure_destroys_unloaded_module:
  "init env empty_engine = Inr e \<Longrightarrow> \<not> shader_loads env f \<Longrightarrow>
   f \<in> {''tri_mesh_ssbo.vert.spv'', ''textured_lit.frag.spv''} \<Longrightarrow>
   ShaderModule f \<in> set (destroyed e) \<and> ShaderModule f \<notin> set (created e)"
  using init_grows [of env empty_engine e] by (auto simp: grows_def empty_engine_def)

theorem shader_failure_destroys_unloaded_module_witness:
  "\<exists>e. init (ok_init_env\<lparr>shader_loads := (\<lambda>f. f \<noteq> ''textured_lit.frag.spv'')\<rparr>) empty_engine = Inr e \<and>
     ShaderModule ''textured_lit.frag.spv'' \<in> set (destroyed e) \<and>
     ShaderModule ''textured_lit.frag.spv'' \<notin> set (created e)"
proof -
  obtain e where run: "init (ok_init_env\<lparr>shader_loads := (\<lambda>f. f \<noteq> ''textured_lit.frag.spv'')\<rparr>) empty_engine = Inr e"
    using init_runs by (fastforce simp: ok_init_env_def)
  then show ?thesis
    using shader_failure_destroys_unloaded_module [OF run, of "''textured_lit.frag.spv''"] by simp
qed

text \<open>
  C21: \<open>immediate_submit\<close> ignores the result of \<open>vkWaitForFences\<close>: when the wait does
  not succeed, \<open>upload_mesh\<close> destroys the staging buffer while the copy that reads it may
  still be running, and \<open>init_imgui\<close> destroys the font upload buffer while the font
  copy may still read it; when it succeeds nothing is destroyed in use.
\<close>

theorem upload_wait_ignored:
  "init env empty_engine = Inr e \<Longrightarrow>
   destroyed_in_use e =
     (if vk env WaitForFences = VK_SUCCESS then [] else [Buffer MeshStagingBuffer, ImguiFontUploadBuffer])"
  using init_grows [of env empty_engine e] by (simp add: grows_def empty_engine_def)

theorem upload_wait_ignored_witness:
  "\<exists>e. init timeout_env empty_engine = Inr e \<and>
     destroyed_in_use e = [Buffer MeshStagingBuffer, ImguiFontUploadBuffer]"
proof -
  obtain e where run: "init timeout_env empty_engine = Inr e"
    using init_runs [of timeout_env] by (fastforce simp: timeout_env_def ok_init_env_def)
  then show ?thesis
    using upload_wait_ignored [OF run] by (simp add: timeout_env_def vk_result_codes)
qed

end
