(* ===== verification/Texture.thy ===== *)
theory Texture
  imports Prelude "HOL-Library.Log_Nat" "HOL-Library.While_Combinator"
begin

text \<open>
  The GPU work of the texture upload in src/src/vk_texture.cpp: \<open>adjustImageLayout\<close>,
  the copy of the staging buffer into mip level 0, and the blit chain of
  \<open>generateMipmaps\<close>, recorded as a list of commands and executed on a model of the
  image that keeps, per mip level, its layout, whether it holds defined contents, and whether a
  transfer write to it has not yet been made available by a barrier.  A ghost flag records
  every use the Vulkan valid-usage rules forbid: a barrier whose old layout is not the level's
  layout, a copy or blit on a level in the wrong layout or outside the image, a read of a level
  with undefined contents or an unavailable write, a transfer on an image without the usage
  flag.  The loop of \<open>generateMipmaps\<close> is kept as a loop (\<open>while_option\<close>); the level
  count is the source's real-number formula \<open>floor(log2(max(h, w))) + 1\<close>, and the image
  size the source's 32-bit \<open>int\<close> product.  Command-buffer allocation, submission and the
  resources involved are modelled in the \<open>Lifetime\<close> theory.
\<close>

section \<open>Vulkan vocabulary\<close>

datatype image_layout =
    VK_IMAGE_LAYOUT_UNDEFINED
  | VK_IMAGE_LAYOUT_TRANSFER_DST_OPTIMAL
  | VK_IMAGE_LAYOUT_TRANSFER_SRC_OPTIMAL
  | VK_IMAGE_LAYOUT_SHADER_READ_ONLY_OPTIMAL
  | VK_IMAGE_LAYOUT_DEPTH_STENCIL_ATTACHMENT_OPTIMAL
  | VK_IMAGE_LAYOUT_COLOR_ATTACHMENT_OPTIMAL
  | VK_IMAGE_LAYOUT_PRESENT_SRC_KHR

datatype access_flag =
    VK_ACCESS_TRANSFER_WRITE_BIT
  | VK_ACCESS_TRANSFER_READ_BIT
  | VK_ACCESS_SHADER_READ_BIT
  | VK_ACCESS_DEPTH_STENCIL_ATTACHMENT_READ_BIT
  | VK_ACCESS_DEPTH_STENCIL_ATTACHMENT_WRITE_BIT
  | VK_ACCESS_COLOR_ATTACHMENT_WRITE_BIT

datatype pipeline_stage =
    VK_PIPELINE_STAGE_TOP_OF_PIPE_BIT
  | VK_PIPELINE_STAGE_TRANSFER_BIT
  | VK_PIPELINE_STAGE_FRAGMENT_SHADER_BIT
  | VK_PIPELINE_STAGE_EARLY_FRAGMENT_TESTS_BIT
  | VK_PIPELINE_STAGE_LATE_FRAGMENT_TESTS_BIT
  | VK_PIPELINE_STAGE_COLOR_ATTACHMENT_OUTPUT_BIT

datatype image_usage =
    VK_IMAGE_USAGE_TRANSFER_SRC_BIT
  | VK_IMAGE_USAGE_TRANSFER_DST_BIT
  | VK_IMAGE_USAGE_SAMPLED_BIT

text \<open>The fields of \<open>VkImageMemoryBarrier\<close> the code sets (one array layer, colour aspect).\<close>

record image_barrier =
  oldLayout :: image_layout
  newLayout :: image_layout
  srcAccessMask :: "access_flag list"
  dstAccessMask :: "access_flag list"
  baseMipLevel :: nat
  levelCount :: nat

text \<open>
  The recorded commands: \<open>vkCmdPipelineBarrier\<close> with its two stage masks and one image
  barrier; \<open>vkCmdCopyBufferToImage\<close> into level 0 with the layout argument and the extent;
  \<open>vkCmdBlitImage\<close> from a source level and region (the far corner of
  \<open>srcOffsets\<close>) in a layout to a destination level and region in a layout.
\<close>

datatype image_cmd =
    CmdPipelineBarrier pipeline_stage pipeline_stage image_barrier
  | CmdCopyBufferToImage image_layout nat nat
  | CmdBlitImage nat "int \<times> int" image_layout nat "int \<times> int" image_layout

section \<open>The image\<close>

record image =
  extent_width :: nat
  extent_height :: nat
  usage :: "image_usage list"
  layouts :: "image_layout list"
  written :: "bool list"
  unavailable :: "bool list"
  invalid_use :: bool

text \<open>\<open>vmaCreateImage\<close>: every level starts \<open>UNDEFINED\<close> with undefined contents.\<close>

definition create_image :: "nat \<Rightarrow> nat \<Rightarrow> nat \<Rightarrow> image_usage list \<Rightarrow> image" where
  "create_image w h mipLevels u =
     \<lparr>extent_width = w, extent_height = h, usage = u,
      layouts = replicate mipLevels VK_IMAGE_LAYOUT_UNDEFINED, written = replicate mipLevels False,
      unavailable = replicate mipLevels False, invalid_use = False\<rparr>"

text \<open>The extent of mip level \<open>k\<close> of a dimension \<open>n\<close> (Vulkan: \<open>max(1, n >> k)\<close>).\<close>

definition mip_extent :: "nat \<Rightarrow> nat \<Rightarrow> nat" where
  "mip_extent n k = max 1 (n div 2 ^ k)"

definition flag :: "bool \<Rightarrow> image \<Rightarrow> image" where
  "flag b im = im\<lparr>invalid_use := invalid_use im \<or> b\<rparr>"

text \<open>
  One level of a barrier: the old layout must be the level's layout unless it is
  \<open>UNDEFINED\<close>, which discards the contents; a transfer write to the level is made
  available only when \<open>TRANSFER_WRITE\<close> is in the source access mask.
\<close>

definition barrier_level :: "image_barrier \<Rightarrow> nat \<Rightarrow> image \<Rightarrow> image" where
  "barrier_level b l im =
     (if l < length (layouts im) then
        (flag ((oldLayout b \<noteq> VK_IMAGE_LAYOUT_UNDEFINED \<and> layouts im ! l \<noteq> oldLayout b) \<or>
               (unavailable im ! l \<and> VK_ACCESS_TRANSFER_WRITE_BIT \<notin> set (srcAccessMask b))) im)
        \<lparr>layouts := (layouts im)[l := newLayout b],
         written := (if oldLayout b = VK_IMAGE_LAYOUT_UNDEFINED then (written im)[l := False] else written im),
         unavailable := (if VK_ACCESS_TRANSFER_WRITE_BIT \<in> set (srcAccessMask b)
                         then (unavailable im)[l := False] else unavailable im)\<rparr>
      else flag True im)"

definition write_level :: "nat \<Rightarrow> bool \<Rightarrow> image \<Rightarrow> image" where
  "write_level l whole im =
     im\<lparr>written := (written im)[l := whole], unavailable := (unavailable im)[l := True]\<rparr>"

fun exec_image_cmd :: "image \<Rightarrow> image_cmd \<Rightarrow> image" where
  "exec_image_cmd im (CmdPipelineBarrier srcStage dstStage b) =
     fold (barrier_level b) [baseMipLevel b..<baseMipLevel b + levelCount b] im"
| "exec_image_cmd im (CmdCopyBufferToImage lay w h) =
     (if 0 < length (layouts im) then
        write_level 0 (w = extent_width im \<and> h = extent_height im)
          (flag (lay \<noteq> VK_IMAGE_LAYOUT_TRANSFER_DST_OPTIMAL \<or> layouts im ! 0 \<noteq> lay \<or>
                 VK_IMAGE_USAGE_TRANSFER_DST_BIT \<notin> set (usage im) \<or>
                 extent_width im < w \<or> extent_height im < h) im)
      else flag True im)"
| "exec_image_cmd im (CmdBlitImage s (sw, sh) slay d (dw, dh) dlay) =
     (if s < length (layouts im) \<and> d < length (layouts im) then
        write_level d (dw = int (mip_extent (extent_width im) d) \<and> dh = int (mip_extent (extent_height im) d))
          (flag (slay \<noteq> VK_IMAGE_LAYOUT_TRANSFER_SRC_OPTIMAL \<or> layouts im ! s \<noteq> slay \<or>
                 dlay \<noteq> VK_IMAGE_LAYOUT_TRANSFER_DST_OPTIMAL \<or> layouts im ! d \<noteq> dlay \<or>
                 VK_IMAGE_USAGE_TRANSFER_SRC_BIT \<notin> set (usage im) \<or>
                 VK_IMAGE_USAGE_TRANSFER_DST_BIT \<notin> set (usage im) \<or>
                 \<not> written im ! s \<or> unavailable im ! s \<or>
                 sw < 1 \<or> sh < 1 \<or> dw < 1 \<or> dh < 1 \<or>
                 int (mip_extent (extent_width im) s) < sw \<or> int (mip_extent (extent_height im) s) < sh \<or>
                 int (mip_extent (extent_width im) d) < dw \<or> int (mip_extent (extent_height im) d) < dh) im)
      else flag True im)"

definition exec_image_cmds :: "image \<Rightarrow> image_cmd list \<Rightarrow> image" where
  "exec_image_cmds im cmds = fold (\<lambda>c im. exec_image_cmd im c) cmds im"

text \<open>
  The state an upload must end in: every level sampled-ready, with defined contents and
  every write available, and no invalid use on the way.
\<close>

definition shader_ready :: "image \<Rightarrow> bool" where
  "shader_ready im \<longleftrightarrow>
     \<not> invalid_use im \<and> (\<forall>l \<in> set (layouts im). l = VK_IMAGE_LAYOUT_SHADER_READ_ONLY_OPTIMAL) \<and>
     (\<forall>b \<in> set (written im). b) \<and> (\<forall>b \<in> set (unavailable im). \<not> b)"

section \<open>The recorded commands\<close>

text \<open>
  \<open>vkutil::adjustImageLayout\<close>: a barrier over levels \<open>[0, levelCount)\<close> whose access
  and stage masks depend on the transition; every transition not listed gets the masks of
  \<open>TRANSFER_DST \<rightarrow> SHADER_READ_ONLY\<close>.
\<close>

definition adjustImageLayout :: "image_layout \<Rightarrow> image_layout \<Rightarrow> nat \<Rightarrow> image_cmd" where
  "adjustImageLayout old new lc =
     (let (srcAcc, dstAcc, sourceStage, destinationStage) =
        (if old = VK_IMAGE_LAYOUT_UNDEFINED \<and> new = VK_IMAGE_LAYOUT_TRANSFER_DST_OPTIMAL then
           ([], [VK_ACCESS_TRANSFER_WRITE_BIT], VK_PIPELINE_STAGE_TOP_OF_PIPE_BIT, VK_PIPELINE_STAGE_TRANSFER_BIT)
         else if old = VK_IMAGE_LAYOUT_TRANSFER_DST_OPTIMAL \<and> new = VK_IMAGE_LAYOUT_SHADER_READ_ONLY_OPTIMAL then
           ([VK_ACCESS_TRANSFER_WRITE_BIT], [VK_ACCESS_SHADER_READ_BIT],
            VK_PIPELINE_STAGE_TRANSFER_BIT, VK_PIPELINE_STAGE_FRAGMENT_SHADER_BIT)
         else if old = VK_IMAGE_LAYOUT_UNDEFINED \<and> new = VK_IMAGE_LAYOUT_DEPTH_STENCIL_ATTACHMENT_OPTIMAL then
           ([], [VK_ACCESS_DEPTH_STENCIL_ATTACHMENT_READ_BIT, VK_ACCESS_DEPTH_STENCIL_ATTACHMENT_WRITE_BIT],
            VK_PIPELINE_STAGE_TOP_OF_PIPE_BIT, VK_PIPELINE_STAGE_EARLY_FRAGMENT_TESTS_BIT)
         else
           ([VK_ACCESS_TRANSFER_WRITE_BIT], [VK_ACCESS_SHADER_READ_BIT],
            VK_PIPELINE_STAGE_TRANSFER_BIT, VK_PIPELINE_STAGE_FRAGMENT_SHADER_BIT))
      in CmdPipelineBarrier sourceStage destinationStage
           \<lparr>oldLayout = old, newLayout = new, srcAccessMask = srcAcc, dstAccessMask = dstAcc,
            baseMipLevel = 0, levelCount = lc\<rparr>)"

text \<open>
  One iteration of the \<open>for (uint32_t i = 1; i < miplevels; i++)\<close> loop of
  \<open>generateMipmaps\<close> on \<open>(i, mipWidth, mipHeight, recorded commands)\<close>: level
  \<open>i - 1\<close> to \<open>TRANSFER_SRC\<close>, the blit from level \<open>i - 1\<close> to level \<open>i\<close>, level
  \<open>i - 1\<close> to \<open>SHADER_READ_ONLY\<close>, and the halving of the \<open>int32_t\<close> extents
  (C++ division truncates, which is \<open>div\<close> on the positive values it is applied to).
\<close>

definition mip_loop_body :: "nat \<times> int \<times> int \<times> image_cmd list \<Rightarrow> nat \<times> int \<times> int \<times> image_cmd list" where
  "mip_loop_body = (\<lambda>(i, mipWidth, mipHeight, cmds).
     (Suc i,
      if mipWidth > 1 then mipWidth div 2 else mipWidth,
      if mipHeight > 1 then mipHeight div 2 else mipHeight,
      cmds @
      [CmdPipelineBarrier VK_PIPELINE_STAGE_TRANSFER_BIT VK_PIPELINE_STAGE_TRANSFER_BIT
         \<lparr>oldLayout = VK_IMAGE_LAYOUT_TRANSFER_DST_OPTIMAL, newLayout = VK_IMAGE_LAYOUT_TRANSFER_SRC_OPTIMAL,
          srcAccessMask = [VK_ACCESS_TRANSFER_WRITE_BIT], dstAccessMask = [VK_ACCESS_TRANSFER_READ_BIT],
          baseMipLevel = i - 1, levelCount = 1\<rparr>,
       CmdBlitImage (i - 1) (mipWidth, mipHeight) VK_IMAGE_LAYOUT_TRANSFER_SRC_OPTIMAL
         i (if mipWidth > 1 then mipWidth div 2 else 1, if mipHeight > 1 then mipHeight div 2 else 1)
         VK_IMAGE_LAYOUT_TRANSFER_DST_OPTIMAL,
       CmdPipelineBarrier VK_PIPELINE_STAGE_TRANSFER_BIT VK_PIPELINE_STAGE_FRAGMENT_SHADER_BIT
         \<lparr>oldLayout = VK_IMAGE_LAYOUT_TRANSFER_SRC_OPTIMAL, newLayout = VK_IMAGE_LAYOUT_SHADER_READ_ONLY_OPTIMAL,
          srcAccessMask = [VK_ACCESS_TRANSFER_READ_BIT], dstAccessMask = [VK_ACCESS_SHADER_READ_BIT],
          baseMipLevel = i - 1, levelCount = 1\<rparr>]))"

definition mip_loop :: "nat \<Rightarrow> int \<Rightarrow> int \<Rightarrow> (nat \<times> int \<times> int \<times> image_cmd list) option" where
  "mip_loop miplevels mipWidth mipHeight =
     while_option (\<lambda>(i, _, _, _). i < miplevels) mip_loop_body (1, mipWidth, mipHeight, [])"

text \<open>
  \<open>int32_t mipWidth = extent.width\<close>: the \<open>uint32_t\<close> extent read as a 32-bit signed value.
\<close>

definition int32_of_u32 :: "nat \<Rightarrow> int" where
  "int32_of_u32 n = sint (word_of_nat n :: i32)"

text \<open>
  The commands \<open>generateMipmaps\<close> records between \<open>beginSigleTimeCommands\<close> and
  \<open>endSigleTimeCommands\<close>: the loop, then the last level (\<open>miplevels - 1\<close> in
  \<open>uint32_t\<close> arithmetic) from \<open>TRANSFER_DST\<close> to \<open>SHADER_READ_ONLY\<close>.
\<close>

definition generateMipmaps_cmds :: "nat \<Rightarrow> nat \<Rightarrow> nat \<Rightarrow> image_cmd list option" where
  "generateMipmaps_cmds miplevels w h =
     map_option (\<lambda>(_, _, _, cmds). cmds @
       [CmdPipelineBarrier VK_PIPELINE_STAGE_TRANSFER_BIT VK_PIPELINE_STAGE_FRAGMENT_SHADER_BIT
          \<lparr>oldLayout = VK_IMAGE_LAYOUT_TRANSFER_DST_OPTIMAL, newLayout = VK_IMAGE_LAYOUT_SHADER_READ_ONLY_OPTIMAL,
           srcAccessMask = [VK_ACCESS_TRANSFER_WRITE_BIT], dstAccessMask = [VK_ACCESS_SHADER_READ_BIT],
           baseMipLevel = unat (word_of_nat miplevels - 1 :: u32), levelCount = 1\<rparr>])
       (mip_loop miplevels (int32_of_u32 w) (int32_of_u32 h))"

section \<open>The two loaders\<close>

text \<open>
  \<open>mipLevels = floor(log2(max(texHeight, texWidth))) + 1\<close>, on the real numbers (the
  double-precision \<open>log2\<close> of a 31-bit integer is close enough to the real one that the
  floor is the same).
\<close>

definition mip_level_count :: "nat \<Rightarrow> nat \<Rightarrow> nat" where
  "mip_level_count texWidth texHeight = nat \<lfloor>log 2 (real (max texHeight texWidth))\<rfloor> + 1"

text \<open>\<open>VkDeviceSize imageSize = texWidth * texHeight * 4\<close>: an \<open>int\<close> product, then widened.\<close>

definition image_size :: "int \<Rightarrow> int \<Rightarrow> u64" where
  "image_size texWidth texHeight =
     scast (word_of_int texWidth * word_of_int texHeight * 4 :: i32)"

definition mip_image_usage :: "image_usage list" where
  "mip_image_usage =
     [VK_IMAGE_USAGE_TRANSFER_SRC_BIT, VK_IMAGE_USAGE_SAMPLED_BIT, VK_IMAGE_USAGE_TRANSFER_DST_BIT]"

text \<open>
  The overload with \<open>mipLevels\<close>: the whole image to \<open>TRANSFER_DST\<close>, the copy into
  level 0 (ended by \<open>copyBufferToImage\<close>), and \<open>generateMipmaps\<close>.  The first two
  commands and the commands of \<open>generateMipmaps\<close> are two submissions to the same queue;
  the first synchronisation scope of a barrier covers every command earlier in submission
  order, so they execute as one sequence.
\<close>

definition load_image_cmds :: "nat \<Rightarrow> nat \<Rightarrow> nat \<Rightarrow> image_cmd list option" where
  "load_image_cmds texWidth texHeight mipLevels =
     map_option (\<lambda>g. [adjustImageLayout VK_IMAGE_LAYOUT_UNDEFINED VK_IMAGE_LAYOUT_TRANSFER_DST_OPTIMAL mipLevels,
                      CmdCopyBufferToImage VK_IMAGE_LAYOUT_TRANSFER_DST_OPTIMAL texWidth texHeight] @ g)
       (generateMipmaps_cmds mipLevels texWidth texHeight)"

text \<open>The overload without mip levels: one level, recorded inside \<open>immediate_submit\<close>.\<close>

definition single_level_usage :: "image_usage list" where
  "single_level_usage = [VK_IMAGE_USAGE_SAMPLED_BIT, VK_IMAGE_USAGE_TRANSFER_DST_BIT]"

definition load_image_single_cmds :: "nat \<Rightarrow> nat \<Rightarrow> image_cmd list" where
  "load_image_single_cmds texWidth texHeight =
     [adjustImageLayout VK_IMAGE_LAYOUT_UNDEFINED VK_IMAGE_LAYOUT_TRANSFER_DST_OPTIMAL 1,
      CmdCopyBufferToImage VK_IMAGE_LAYOUT_TRANSFER_DST_OPTIMAL texWidth texHeight,
      adjustImageLayout VK_IMAGE_LAYOUT_TRANSFER_DST_OPTIMAL VK_IMAGE_LAYOUT_SHADER_READ_ONLY_OPTIMAL 1]"

section \<open>Proof states\<close>

text \<open>The image after the loop has run for levels below \<open>i\<close>, and the loop invariant.\<close>

definition mip_state :: "nat \<Rightarrow> nat \<Rightarrow> nat \<Rightarrow> nat \<Rightarrow> image" where
  "mip_state w h L i =
     \<lparr>extent_width = w, extent_height = h, usage = mip_image_usage,
      layouts = map (\<lambda>l. if l < i - 1 then VK_IMAGE_LAYOUT_SHADER_READ_ONLY_OPTIMAL
                         else VK_IMAGE_LAYOUT_TRANSFER_DST_OPTIMAL) [0..<L],
      written = map (\<lambda>l. l < i) [0..<L],
      unavailable = map (\<lambda>l. l = i - 1) [0..<L],
      invalid_use = False\<rparr>"

definition mip_inv :: "nat \<Rightarrow> nat \<Rightarrow> nat \<Rightarrow> nat \<times> int \<times> int \<times> image_cmd list \<Rightarrow> bool" where
  "mip_inv w h L = (\<lambda>(i, mw, mh, cmds). 1 \<le> i \<and> i \<le> L \<and>
     mw = int (mip_extent w (i - 1)) \<and> mh = int (mip_extent h (i - 1)) \<and>
     exec_image_cmds (mip_state w h L 1) cmds = mip_state w h L i)"

text \<open>Well-formedness of the image model: one entry per mip level in every per-level list.\<close>

definition image_wf :: "image \<Rightarrow> bool" where
  "image_wf im \<longleftrightarrow> length (written im) = length (layouts im) \<and> length (unavailable im) = length (layouts im)"

definition same_image :: "image \<Rightarrow> image \<Rightarrow> bool" where
  "same_image im im' \<longleftrightarrow>
     length (layouts im') = length (layouts im) \<and> extent_width im' = extent_width im \<and>
     extent_height im' = extent_height im \<and> usage im' = usage im"

section \<open>Execution lemmas\<close>

lemma map_upt_update:
  "k < L \<Longrightarrow> (map f [0..<L])[k := v] = map (\<lambda>l. if l = k then v else f l) [0..<L]"
  by (simp add: list_eq_iff_nth_eq nth_list_update)

lemma nth_upt_0 [simp]: "k < L \<Longrightarrow> [0..<L] ! k = k"
  by simp

lemma mip_extent_pos: "1 \<le> mip_extent n k"
  by (simp add: mip_extent_def)

lemma mip_extent_Suc:
  "mip_extent n (Suc k) = (if 1 < mip_extent n k then mip_extent n k div 2 else 1)"
proof -
  have "n div 2 ^ Suc k = n div 2 ^ k div 2" by (metis div_mult2_eq power_Suc2)
  then show ?thesis by (auto simp: mip_extent_def max_def)
qed

lemma int_mip_extent_Suc:
  "int (mip_extent n (Suc k)) =
   (if 1 < int (mip_extent n k) then int (mip_extent n k) div 2 else int (mip_extent n k))"
  using mip_extent_pos [of n k] by (auto simp: mip_extent_Suc zdiv_int)

lemmas image_ops = barrier_level_def write_level_def flag_def

lemma barrier_level_ok:
  "l < length (layouts im) \<Longrightarrow> layouts im ! l = oldLayout b \<Longrightarrow>
   oldLayout b \<noteq> VK_IMAGE_LAYOUT_UNDEFINED \<Longrightarrow>
   (unavailable im ! l \<longrightarrow> VK_ACCESS_TRANSFER_WRITE_BIT \<in> set (srcAccessMask b)) \<Longrightarrow>
   barrier_level b l im =
     im\<lparr>layouts := (layouts im)[l := newLayout b],
        unavailable := (if VK_ACCESS_TRANSFER_WRITE_BIT \<in> set (srcAccessMask b)
                        then (unavailable im)[l := False] else unavailable im)\<rparr>"
  by (cases "VK_ACCESS_TRANSFER_WRITE_BIT \<in> set (srcAccessMask b)") (simp_all add: image_ops)

lemma blit_ok:
  "s < length (layouts im) \<Longrightarrow> d < length (layouts im) \<Longrightarrow>
   layouts im ! s = VK_IMAGE_LAYOUT_TRANSFER_SRC_OPTIMAL \<Longrightarrow> layouts im ! d = VK_IMAGE_LAYOUT_TRANSFER_DST_OPTIMAL \<Longrightarrow>
   VK_IMAGE_USAGE_TRANSFER_SRC_BIT \<in> set (usage im) \<Longrightarrow> VK_IMAGE_USAGE_TRANSFER_DST_BIT \<in> set (usage im) \<Longrightarrow>
   written im ! s \<Longrightarrow> \<not> unavailable im ! s \<Longrightarrow>
   sw = int (mip_extent (extent_width im) s) \<Longrightarrow> sh = int (mip_extent (extent_height im) s) \<Longrightarrow>
   dw = int (mip_extent (extent_width im) d) \<Longrightarrow> dh = int (mip_extent (extent_height im) d) \<Longrightarrow>
   exec_image_cmd im (CmdBlitImage s (sw, sh) VK_IMAGE_LAYOUT_TRANSFER_SRC_OPTIMAL d (dw, dh)
     VK_IMAGE_LAYOUT_TRANSFER_DST_OPTIMAL) =
   im\<lparr>written := (written im)[d := True], unavailable := (unavailable im)[d := True]\<rparr>"
  using mip_extent_pos [of "extent_width im" s] mip_extent_pos [of "extent_height im" s]
    mip_extent_pos [of "extent_width im" d] mip_extent_pos [of "extent_height im" d]
  by (simp add: image_ops)

lemma exec_barrier_single:
  "levelCount b = 1 \<Longrightarrow> exec_image_cmd im (CmdPipelineBarrier a c b) = barrier_level b (baseMipLevel b) im"
  by simp

lemma exec_image_cmds_Cons:
  "exec_image_cmds im (c # cs) = exec_image_cmds (exec_image_cmd im c) cs"
  by (simp add: exec_image_cmds_def)

lemma exec_image_cmds_Nil [simp]: "exec_image_cmds im [] = im"
  by (simp add: exec_image_cmds_def)

lemma mip_body_step:
  assumes i: "1 \<le> i" "i < L"
  shows "exec_image_cmds (mip_state w h L i)
           (snd (snd (snd (mip_loop_body (i, int (mip_extent w (i - 1)), int (mip_extent h (i - 1)), [])))))
         = mip_state w h L (Suc i)"
proof -
  have sw: "(if 1 < int (mip_extent n (i - 1)) then int (mip_extent n (i - 1)) div 2 else 1) =
      int (mip_extent n i)" for n
    using int_mip_extent_Suc [of n "i - 1"] mip_extent_pos [of n "i - 1"] i(1) by auto
  have il: "i - 1 < L" using i by simp
  let ?s0 = "mip_state w h L i"
  let ?b1 = "\<lparr>oldLayout = VK_IMAGE_LAYOUT_TRANSFER_DST_OPTIMAL, newLayout = VK_IMAGE_LAYOUT_TRANSFER_SRC_OPTIMAL,
          srcAccessMask = [VK_ACCESS_TRANSFER_WRITE_BIT], dstAccessMask = [VK_ACCESS_TRANSFER_READ_BIT],
          baseMipLevel = i - 1, levelCount = 1\<rparr>"
  let ?b2 = "\<lparr>oldLayout = VK_IMAGE_LAYOUT_TRANSFER_SRC_OPTIMAL, newLayout = VK_IMAGE_LAYOUT_SHADER_READ_ONLY_OPTIMAL,
          srcAccessMask = [VK_ACCESS_TRANSFER_READ_BIT], dstAccessMask = [VK_ACCESS_SHADER_READ_BIT],
          baseMipLevel = i - 1, levelCount = 1\<rparr>"
  have s1: "barrier_level ?b1 (i - 1) ?s0 =
      ?s0\<lparr>layouts := (layouts ?s0)[i - 1 := VK_IMAGE_LAYOUT_TRANSFER_SRC_OPTIMAL],
          unavailable := (unavailable ?s0)[i - 1 := False]\<rparr>"
    using i by (subst barrier_level_ok) (simp_all add: mip_state_def)
  let ?s1 = "?s0\<lparr>layouts := (layouts ?s0)[i - 1 := VK_IMAGE_LAYOUT_TRANSFER_SRC_OPTIMAL],
          unavailable := (unavailable ?s0)[i - 1 := False]\<rparr>"
  have s2: "exec_image_cmd ?s1 (CmdBlitImage (i - 1) (int (mip_extent w (i - 1)), int (mip_extent h (i - 1)))
       VK_IMAGE_LAYOUT_TRANSFER_SRC_OPTIMAL i (int (mip_extent w i), int (mip_extent h i))
       VK_IMAGE_LAYOUT_TRANSFER_DST_OPTIMAL) =
      ?s1\<lparr>written := (written ?s1)[i := True], unavailable := (unavailable ?s1)[i := True]\<rparr>"
    using i il by (subst blit_ok) (simp_all add: mip_state_def mip_image_usage_def nth_list_update)
  let ?s2 = "?s1\<lparr>written := (written ?s1)[i := True], unavailable := (unavailable ?s1)[i := True]\<rparr>"
  have s3: "barrier_level ?b2 (i - 1) ?s2 = ?s2\<lparr>layouts := (layouts ?s2)[i - 1 := VK_IMAGE_LAYOUT_SHADER_READ_ONLY_OPTIMAL]\<rparr>"
    using i il by (subst barrier_level_ok) (simp_all add: mip_state_def nth_list_update)
  have s4: "?s2\<lparr>layouts := (layouts ?s2)[i - 1 := VK_IMAGE_LAYOUT_SHADER_READ_ONLY_OPTIMAL]\<rparr> = mip_state w h L (Suc i)"
    using i by (auto simp: mip_state_def map_upt_update intro!: map_cong)
  have cmds: "snd (snd (snd (mip_loop_body (i, int (mip_extent w (i - 1)), int (mip_extent h (i - 1)), [])))) =
      [CmdPipelineBarrier VK_PIPELINE_STAGE_TRANSFER_BIT VK_PIPELINE_STAGE_TRANSFER_BIT ?b1,
       CmdBlitImage (i - 1) (int (mip_extent w (i - 1)), int (mip_extent h (i - 1)))
         VK_IMAGE_LAYOUT_TRANSFER_SRC_OPTIMAL i (int (mip_extent w i), int (mip_extent h i))
         VK_IMAGE_LAYOUT_TRANSFER_DST_OPTIMAL,
       CmdPipelineBarrier VK_PIPELINE_STAGE_TRANSFER_BIT VK_PIPELINE_STAGE_FRAGMENT_SHADER_BIT ?b2]"
    unfolding mip_loop_body_def by (simp only: prod.case snd_conv append.simps sw)
  show ?thesis
    unfolding cmds exec_image_cmds_Cons exec_image_cmds_Nil
    by (simp only: exec_barrier_single image_barrier.simps s1 s2 s3 s4)
qed

lemma exec_image_cmds_append:
  "exec_image_cmds im (xs @ ys) = exec_image_cmds (exec_image_cmds im xs) ys"
  by (simp add: exec_image_cmds_def)

lemma mip_loop_body_cmds:
  "snd (snd (snd (mip_loop_body (i, mw, mh, cmds)))) = cmds @ snd (snd (snd (mip_loop_body (i, mw, mh, []))))"
  by (simp add: mip_loop_body_def)

lemma mip_loop_body_fst:
  "fst (mip_loop_body (i, mw, mh, cmds)) = Suc i \<and>
   fst (snd (mip_loop_body (i, mw, mh, cmds))) = (if mw > 1 then mw div 2 else mw) \<and>
   fst (snd (snd (mip_loop_body (i, mw, mh, cmds)))) = (if mh > 1 then mh div 2 else mh)"
  by (simp add: mip_loop_body_def)

lemma mip_loop_body_ext:
  "mip_loop_body (i, int (mip_extent w k), int (mip_extent h k), cmds) =
   (Suc i, int (mip_extent w (Suc k)), int (mip_extent h (Suc k)),
    snd (snd (snd (mip_loop_body (i, int (mip_extent w k), int (mip_extent h k), cmds)))))"
  by (simp only: mip_loop_body_def prod.case int_mip_extent_Suc snd_conv)

lemma mip_inv_step:
  assumes inv: "mip_inv w h L s" and guard: "fst s < L"
  shows "mip_inv w h L (mip_loop_body s)"
proof -
  obtain i mw mh cmds where s: "s = (i, mw, mh, cmds)" by (cases s) auto
  from inv s obtain j where i: "i = Suc j" and mw: "mw = int (mip_extent w j)"
    and mh: "mh = int (mip_extent h j)"
    and ex: "exec_image_cmds (mip_state w h L 1) cmds = mip_state w h L i"
    by (cases i) (auto simp: mip_inv_def)
  from guard s i have iL: "Suc j < L" by simp
  have "exec_image_cmds (mip_state w h L 1)
      (snd (snd (snd (mip_loop_body (Suc j, int (mip_extent w j), int (mip_extent h j), cmds))))) =
      mip_state w h L (Suc (Suc j))"
  proof -
    have step: "exec_image_cmds (mip_state w h L (Suc j))
        (snd (snd (snd (mip_loop_body (Suc j, int (mip_extent w j), int (mip_extent h j), []))))) =
        mip_state w h L (Suc (Suc j))"
      using mip_body_step [of "Suc j" L w h] iL by simp
    show ?thesis
      by (simp only: mip_loop_body_cmds [of "Suc j" "int (mip_extent w j)" "int (mip_extent h j)" cmds]
          exec_image_cmds_append ex [unfolded i] step)
  qed
  then show ?thesis
    using iL unfolding s i mw mh by (subst mip_loop_body_ext) (simp add: mip_inv_def)
qed

lemma mip_loop_terminates_gen: "\<exists>r. mip_loop L mw mh = Some r"
  unfolding mip_loop_def
  by (rule measure_while_option_Some [where P = "\<lambda>_. True" and f = "\<lambda>(i, _, _, _). L - i"])
     (auto simp: mip_loop_body_def)

lemma mip_loop_final:
  assumes "1 \<le> L" "mip_loop L (int (mip_extent w 0)) (int (mip_extent h 0)) = Some r"
  shows "mip_inv w h L r \<and> length (snd (snd (snd r))) = 3 * (fst r - 1) \<and> fst r = L"
proof -
  have inv: "mip_inv w h L r \<and> length (snd (snd (snd r))) = 3 * (fst r - 1)"
  proof (rule while_option_rule [where P = "\<lambda>s. mip_inv w h L s \<and> length (snd (snd (snd s))) = 3 * (fst s - 1)"])
    show "while_option (\<lambda>(i, _, _, _). i < L) mip_loop_body
        (1, int (mip_extent w 0), int (mip_extent h 0), []) = Some r"
      using assms(2) by (simp add: mip_loop_def)
    show "mip_inv w h L (1, int (mip_extent w 0), int (mip_extent h 0), []) \<and>
        length (snd (snd (snd (1::nat, int (mip_extent w 0), int (mip_extent h 0), [] :: image_cmd list)))) =
        3 * (fst (1::nat, int (mip_extent w 0), int (mip_extent h 0), [] :: image_cmd list) - 1)"
      using assms(1) by (simp add: mip_inv_def)
  next
    fix s assume a: "mip_inv w h L s \<and> length (snd (snd (snd s))) = 3 * (fst s - 1)"
      and g: "(\<lambda>(i, _, _, _). i < L) s"
    obtain i mw mh cmds where s: "s = (i, mw, mh, cmds)" by (cases s) auto
    have "1 \<le> i" using a s by (simp add: mip_inv_def)
    moreover have "mip_inv w h L (mip_loop_body s)"
      using a g s by (intro mip_inv_step) auto
    ultimately show "mip_inv w h L (mip_loop_body s) \<and>
        length (snd (snd (snd (mip_loop_body s)))) = 3 * (fst (mip_loop_body s) - 1)"
      using a s by (simp add: mip_loop_body_def)
  qed
  moreover have "\<not> fst r < L"
    using while_option_stop [OF assms(2) [unfolded mip_loop_def]] by (cases r) auto
  ultimately show ?thesis by (cases r) (auto simp: mip_inv_def)
qed

lemma mip_loop_result:
  assumes "1 \<le> L" "mip_loop L (int (mip_extent w 0)) (int (mip_extent h 0)) = Some r"
  shows "exec_image_cmds (mip_state w h L 1) (snd (snd (snd r))) = mip_state w h L L"
  using mip_loop_final [OF assms] by (cases r) (simp add: mip_inv_def)

section \<open>The upload\<close>

lemma replicate_update_same [simp]: "(replicate L x)[k := x] = replicate L x"
  by (induction L arbitrary: k) (auto split: nat.split)

lemma fold_barrier_undefined:
  assumes "oldLayout b = VK_IMAGE_LAYOUT_UNDEFINED" "srcAccessMask b = []"
  shows "n \<le> L \<Longrightarrow> fold (barrier_level b) [0..<n] (create_image w h L u) =
    (create_image w h L u)\<lparr>layouts := map (\<lambda>l. if l < n then newLayout b else VK_IMAGE_LAYOUT_UNDEFINED) [0..<L]\<rparr>"
proof (induction n)
  case 0
  then show ?case by (simp add: create_image_def map_replicate_const)
next
  case (Suc n)
  then have "n < L" by simp
  with Suc assms show ?case
    by (simp add: image_ops create_image_def map_upt_update)
qed

lemma unat_u32_pred: "1 \<le> L \<Longrightarrow> L < 2 ^ 32 \<Longrightarrow> unat (word_of_nat L - 1 :: u32) = L - 1"
proof -
  assume "1 \<le> L" "L < 2 ^ 32"
  then have "(word_of_nat L - 1 :: u32) = word_of_nat (L - 1)" by (simp add: of_nat_diff)
  with \<open>L < 2 ^ 32\<close> show ?thesis by (simp add: unat_of_nat take_bit_nat_eq_self)
qed

lemma upload_prefix:
  assumes "1 \<le> L" "0 < w" "0 < h"
  shows "exec_image_cmds (create_image w h L mip_image_usage)
      [adjustImageLayout VK_IMAGE_LAYOUT_UNDEFINED VK_IMAGE_LAYOUT_TRANSFER_DST_OPTIMAL L,
       CmdCopyBufferToImage VK_IMAGE_LAYOUT_TRANSFER_DST_OPTIMAL w h] = mip_state w h L 1"
proof -
  let ?b = "\<lparr>oldLayout = VK_IMAGE_LAYOUT_UNDEFINED, newLayout = VK_IMAGE_LAYOUT_TRANSFER_DST_OPTIMAL,
      srcAccessMask = [], dstAccessMask = [VK_ACCESS_TRANSFER_WRITE_BIT], baseMipLevel = 0, levelCount = L\<rparr>"
  have f: "exec_image_cmd (create_image w h L mip_image_usage)
      (adjustImageLayout VK_IMAGE_LAYOUT_UNDEFINED VK_IMAGE_LAYOUT_TRANSFER_DST_OPTIMAL L) =
      (create_image w h L mip_image_usage)\<lparr>layouts := replicate L VK_IMAGE_LAYOUT_TRANSFER_DST_OPTIMAL\<rparr>"
  proof -
    have "fold (barrier_level ?b) [0..<L] (create_image w h L mip_image_usage) =
        (create_image w h L mip_image_usage)\<lparr>layouts := map (\<lambda>l. if l < L then VK_IMAGE_LAYOUT_TRANSFER_DST_OPTIMAL
           else VK_IMAGE_LAYOUT_UNDEFINED) [0..<L]\<rparr>"
      using fold_barrier_undefined [of ?b L L w h mip_image_usage] by simp
    moreover have "map (\<lambda>l. if l < L then VK_IMAGE_LAYOUT_TRANSFER_DST_OPTIMAL else VK_IMAGE_LAYOUT_UNDEFINED) [0..<L] =
        replicate L VK_IMAGE_LAYOUT_TRANSFER_DST_OPTIMAL"
      by (simp add: list_eq_iff_nth_eq)
    ultimately show ?thesis by (simp add: adjustImageLayout_def)
  qed
  have c: "exec_image_cmd ((create_image w h L mip_image_usage)\<lparr>layouts := replicate L VK_IMAGE_LAYOUT_TRANSFER_DST_OPTIMAL\<rparr>)
      (CmdCopyBufferToImage VK_IMAGE_LAYOUT_TRANSFER_DST_OPTIMAL w h) = mip_state w h L 1"
    using assms
    by (simp add: image_ops create_image_def mip_state_def mip_image_usage_def list_eq_iff_nth_eq
        nth_list_update)
  show ?thesis by (simp only: exec_image_cmds_Cons exec_image_cmds_Nil f c)
qed

lemma final_barrier_ready:
  assumes "1 \<le> L" "L < 2 ^ 32"
  shows "shader_ready (exec_image_cmd (mip_state w h L L)
      (CmdPipelineBarrier VK_PIPELINE_STAGE_TRANSFER_BIT VK_PIPELINE_STAGE_FRAGMENT_SHADER_BIT
         \<lparr>oldLayout = VK_IMAGE_LAYOUT_TRANSFER_DST_OPTIMAL, newLayout = VK_IMAGE_LAYOUT_SHADER_READ_ONLY_OPTIMAL,
          srcAccessMask = [VK_ACCESS_TRANSFER_WRITE_BIT], dstAccessMask = [VK_ACCESS_SHADER_READ_BIT],
          baseMipLevel = unat (word_of_nat L - 1 :: u32), levelCount = 1\<rparr>))"
  using assms
  by (subst exec_barrier_single)
     (auto simp: unat_u32_pred image_ops mip_state_def shader_ready_def map_upt_update)

lemma int32_of_u32_small: "n < 2 ^ 31 \<Longrightarrow> int32_of_u32 n = int n"
  by (simp add: int32_of_u32_def signed_of_nat signed_take_bit_int_eq_self)

lemma mip_extent_0: "0 < n \<Longrightarrow> mip_extent n 0 = n"
  by (simp add: mip_extent_def)

lemma mip_upload_ready:
  assumes "1 \<le> L" "L < 2 ^ 32" "0 < w" "0 < h" "w < 2 ^ 31" "h < 2 ^ 31"
  shows "\<exists>cmds. load_image_cmds w h L = Some cmds \<and>
    shader_ready (exec_image_cmds (create_image w h L mip_image_usage) cmds)"
proof -
  have w: "int32_of_u32 w = int (mip_extent w 0)" and h: "int32_of_u32 h = int (mip_extent h 0)"
    using assms by (simp_all add: int32_of_u32_small mip_extent_0)
  obtain r where r: "mip_loop L (int (mip_extent w 0)) (int (mip_extent h 0)) = Some r"
    using mip_loop_terminates_gen by blast
  have ex: "exec_image_cmds (mip_state w h L 1) (snd (snd (snd r))) = mip_state w h L L"
    using mip_loop_result [OF assms(1) r] .
  show ?thesis
    using r ex upload_prefix [OF assms(1,3,4)] final_barrier_ready [OF assms(1,2), of w h]
    by (cases r) (simp add: load_image_cmds_def generateMipmaps_cmds_def w h exec_image_cmds_append
        exec_image_cmds_Cons)
qed

section \<open>Level count and image size\<close>

lemma mip_level_count_eq: "0 < max w h \<Longrightarrow> mip_level_count w h = floorlog 2 (max w h)"
  by (simp add: mip_level_count_def floorlog_def max.commute)

lemma mip_level_count_range:
  assumes "0 < w" "w < 2 ^ 31" "h < 2 ^ 31"
  shows "1 \<le> mip_level_count w h \<and> mip_level_count w h \<le> 31"
proof -
  have "floorlog 2 (max w h) \<le> 31" using assms by (intro floorlog_leI) auto
  moreover have "1 \<le> floorlog 2 (max w h)" using assms by (intro floorlog_geI) auto
  ultimately show ?thesis using assms by (simp add: mip_level_count_eq)
qed

lemma sext32_exact:
  fixes p :: int
  assumes p0: "0 \<le> p" and pmax: "p < 2 ^ 64 - 2 ^ 31"
  shows "nat (take_bit 64 (signed_take_bit 31 p)) = nat p \<longleftrightarrow> p < 2 ^ 31"
proof -
  define s where "s = signed_take_bit 31 p"
  have sb: "- (2 ^ 31) \<le> s" "s < 2 ^ 31"
    using signed_take_bit_int_greater_eq_minus_exp [of 31 p]
          signed_take_bit_int_less_exp [of 31 p] by (simp_all add: s_def)
  show ?thesis
  proof
    assume "nat (take_bit 64 (signed_take_bit 31 p)) = nat p"
    then have eq: "nat (take_bit 64 s) = nat p" by (simp add: s_def)
    show "p < 2 ^ 31"
    proof (rule ccontr)
      assume big: "\<not> p < 2 ^ 31"
      show False
      proof (cases "0 \<le> s")
        case True
        then have "take_bit 64 s = s" using sb by (simp add: take_bit_int_eq_self)
        with eq True p0 have "s = p" by simp
        with sb big show False by linarith
      next
        case False
        have "take_bit 64 s = s mod 2 ^ 64" by (simp add: take_bit_eq_mod)
        also have "\<dots> = (s + 2 ^ 64) mod 2 ^ 64" by simp
        also have "\<dots> = s + 2 ^ 64" using sb False by (intro mod_pos_pos_trivial) simp_all
        finally have "take_bit 64 s = s + 2 ^ 64" .
        with eq have "nat (s + 2 ^ 64) = nat p" by simp
        moreover have "0 \<le> s + 2 ^ 64" using sb by simp
        ultimately have "s + 2 ^ 64 = p" using p0 by simp
        with sb pmax show False by linarith
      qed
    qed
  next
    assume small: "p < 2 ^ 31"
    then have "s = p" using p0 by (simp add: s_def signed_take_bit_int_eq_self)
    moreover have "take_bit 64 p = p" using small p0 by (simp add: take_bit_int_eq_self)
    ultimately show "nat (take_bit 64 (signed_take_bit 31 p)) = nat p" by (simp add: s_def)
  qed
qed

lemma image_size_unat:
  "unat (image_size w h) = nat (take_bit 64 (signed_take_bit 31 (w * h * 4)))"
proof -
  have m: "(word_of_int w * word_of_int h * 4 :: i32) = word_of_int (w * h * 4)"
    by (metis of_int_mult of_int_numeral)
  have "unat (image_size w h) = nat (uint (word_of_int (sint (word_of_int (w * h * 4) :: i32)) :: u64))"
    by (simp only: image_size_def m scast_eq unat_eq_nat_uint)
  also have "\<dots> = nat (take_bit 64 (signed_take_bit 31 (w * h * 4)))"
    by (simp only: uint_word_of_int_eq sint_sbintrunc') simp
  finally show ?thesis .
qed

lemma mip_level_bounds:
  assumes "0 < w" "0 < h"
  shows "2 ^ (mip_level_count w h - 1) \<le> max w h \<and> max w h < 2 ^ mip_level_count w h"
  using floorlog_bounds [of "max w h" 2] assms by (simp add: mip_level_count_eq)

lemma mip_level_count_1024_768: "mip_level_count 1024 768 = 11"
  by (simp add: mip_level_count_eq compute_floorlog)

section \<open>Well-formedness\<close>

lemma image_wf_barrier_level: "image_wf im \<Longrightarrow> image_wf (barrier_level b l im) \<and> same_image im (barrier_level b l im)"
  by (simp add: barrier_level_def image_wf_def same_image_def flag_def)

lemma same_image_trans: "same_image a b \<Longrightarrow> same_image b c \<Longrightarrow> same_image a c"
  by (simp add: same_image_def)

lemma same_image_refl [simp]: "same_image a a"
  by (simp add: same_image_def)

lemma image_wf_fold_barrier:
  "image_wf im \<Longrightarrow> image_wf (fold (barrier_level b) ls im) \<and> same_image im (fold (barrier_level b) ls im)"
proof (induction ls arbitrary: im)
  case Nil
  then show ?case by simp
next
  case (Cons l ls)
  from image_wf_barrier_level [OF Cons.prems, of b l] Cons.IH [of "barrier_level b l im"]
  show ?case by (auto intro: same_image_trans)
qed

lemma image_wf_exec_image_cmd:
  assumes "image_wf im"
  shows "image_wf (exec_image_cmd im c) \<and> same_image im (exec_image_cmd im c)"
proof (cases c)
  case (CmdPipelineBarrier a b bar)
  then show ?thesis using image_wf_fold_barrier [OF assms] by simp
next
  case (CmdCopyBufferToImage lay w h)
  then show ?thesis
    using assms by (auto simp: image_wf_def same_image_def flag_def write_level_def)
next
  case (CmdBlitImage s sr slay d dr dlay)
  then show ?thesis
    using assms by (cases sr; cases dr) (auto simp: image_wf_def same_image_def flag_def write_level_def)
qed

section \<open>Properties\<close>

text \<open>
  Invariant of the image model: every command the uploads record (barriers, copies, blits), and so every command sequence, keeps the per-level lists of a well-formed image of equal length and leaves its level count, extents and usage flags unchanged.
\<close>

theorem exec_image_cmds_wf:
  "image_wf im \<Longrightarrow> image_wf (exec_image_cmds im cmds) \<and> same_image im (exec_image_cmds im cmds)"
proof (induction cmds arbitrary: im)
  case Nil
  then show ?case by simp
next
  case (Cons c cmds)
  from image_wf_exec_image_cmd [OF Cons.prems, of c] Cons.IH [of "exec_image_cmd im c"]
  show ?case by (auto simp: exec_image_cmds_Cons intro: same_image_trans)
qed

theorem exec_image_cmds_wf_witness:
  "image_wf (exec_image_cmds (create_image 512 512 1 single_level_usage) (load_image_single_cmds 512 512)) \<and>
   same_image (create_image 512 512 1 single_level_usage)
     (exec_image_cmds (create_image 512 512 1 single_level_usage) (load_image_single_cmds 512 512))"
  by (rule exec_image_cmds_wf) (simp add: image_wf_def create_image_def)

text \<open>
  C5: the upload of a mipmapped texture of any size \<open>w \<times> h\<close> that \<open>stbi_load\<close> can return records, in \<open>load_image_from_file\<close> and \<open>generateMipmaps\<close>, a command sequence whose execution on the freshly created image uses every level validly (layouts, usage flags, extents, defined and available contents) and leaves every level in \<open>SHADER_READ_ONLY\<close> layout with defined contents and no unavailable write.
\<close>

theorem texture_upload_ready:
  "0 < w \<Longrightarrow> 0 < h \<Longrightarrow> w < 2 ^ 31 \<Longrightarrow> h < 2 ^ 31 \<Longrightarrow>
   \<exists>cmds. load_image_cmds w h (mip_level_count w h) = Some cmds \<and>
     shader_ready (exec_image_cmds (create_image w h (mip_level_count w h) mip_image_usage) cmds)"
  using mip_level_count_range [of w h] by (intro mip_upload_ready) auto

theorem texture_upload_ready_witness:
  "\<exists>cmds. load_image_cmds 1024 768 (mip_level_count 1024 768) = Some cmds \<and>
     shader_ready (exec_image_cmds (create_image 1024 768 (mip_level_count 1024 768) mip_image_usage) cmds)"
  by (rule texture_upload_ready) simp_all

text \<open>
  The source's level count \<open>floor(log2(max(h, w))) + 1\<close> on real numbers equals the integer \<open>floorlog 2\<close> of the larger dimension, the number of binary digits (an executable reference).
\<close>

theorem mip_level_count_floorlog:
  "0 < max w h \<Longrightarrow> mip_level_count w h = floorlog 2 (max w h)"
  by (rule mip_level_count_eq)

theorem mip_level_count_floorlog_witness: "mip_level_count 1024 768 = 11"
  using mip_level_count_floorlog [of 1024 768] by (simp add: compute_floorlog)

text \<open>
  C28: with the source's level count \<open>floor(log2(max(h, w))) + 1\<close>, the last level is \<open>1 \<times> 1\<close> and every earlier level is larger than one texel in the larger dimension: the chain is complete and is the longest Vulkan allows.
\<close>

theorem mip_chain_complete:
  assumes "0 < w" "0 < h"
  shows "mip_extent w (mip_level_count w h - 1) = 1 \<and> mip_extent h (mip_level_count w h - 1) = 1 \<and>
    (\<forall>k < mip_level_count w h - 1. 1 < mip_extent (max w h) k)"
proof -
  let ?L = "mip_level_count w h" and ?m = "max w h"
  have b: "2 ^ (?L - 1) \<le> ?m" "?m < 2 ^ ?L" using mip_level_bounds [OF assms] by auto
  have L1: "1 \<le> ?L" by (simp add: mip_level_count_def)
  have two: "(2::nat) ^ ?L = 2 * 2 ^ (?L - 1)" using L1 by (simp flip: power_Suc)
  have last: "n div 2 ^ (?L - 1) \<le> 1" if "n \<le> ?m" for n
  proof -
    have "n < 2 * 2 ^ (?L - 1)" using le_less_trans [OF that b(2)] two by simp
    then have "n div 2 ^ (?L - 1) < 2" by (simp add: less_mult_imp_div_less mult.commute)
    then show ?thesis by simp
  qed
  have early: "1 < mip_extent ?m k" if "k < ?L - 1" for k
  proof -
    have "(2::nat) ^ (?L - 1) = 2 ^ (?L - 1 - k) * 2 ^ k"
      using that by (simp flip: power_add)
    then have "(2::nat) ^ (?L - 1) div 2 ^ k = 2 ^ (?L - 1 - k)" by simp
    moreover have "(2::nat) \<le> 2 ^ (?L - 1 - k)"
      using that by (simp add: self_le_power)
    moreover have "2 ^ (?L - 1) div 2 ^ k \<le> ?m div 2 ^ k" using b(1) by (rule div_le_mono)
    ultimately show ?thesis by (simp add: mip_extent_def)
  qed
  show ?thesis
    using last [of w] last [of h] early by (simp add: mip_extent_def)
qed

theorem mip_chain_complete_witness:
  "mip_extent 1024 10 = 1 \<and> mip_extent 768 10 = 1 \<and> list_all (\<lambda>k. 1 < mip_extent 1024 k) [0..<10]"
  using mip_chain_complete [of 1024 768] mip_level_count_1024_768 by (simp add: list_all_iff)



text \<open>
  C20: \<open>imageSize = texWidth * texHeight * 4\<close> is computed in 32-bit \<open>int\<close>: the staging-buffer size equals the real byte count exactly when that count is below \<open>2 ^ 31\<close>; above, the product wraps and is sign-extended into \<open>VkDeviceSize\<close>.
\<close>

theorem image_size_exact:
  assumes "0 \<le> w" "0 \<le> h" "w < 2 ^ 31" "h < 2 ^ 31"
  shows "unat (image_size w h) = nat (w * h * 4) \<longleftrightarrow> w * h * 4 < 2 ^ 31"
proof -
  have "0 \<le> w * h * 4" using assms by simp
  moreover have "w * h \<le> (2 ^ 31 - 1) * (2 ^ 31 - 1)"
    using assms by (intro mult_mono) auto
  then have "w * h * 4 < 2 ^ 64 - 2 ^ 31" by (simp add: ac_simps)
  ultimately show ?thesis by (simp add: image_size_unat sext32_exact)
qed

theorem image_size_exact_witness:
  "unat (image_size 1024 768) = nat (1024 * 768 * 4) \<and>
   unat (image_size 32768 16384) \<noteq> nat (32768 * 16384 * 4)"
  using image_size_exact [of 1024 768] image_size_exact [of 32768 16384] by simp

text \<open>
  C29: the single-level overload of \<open>load_image_from_file\<close> leaves its image ready for sampling: one transition to \<open>TRANSFER_DST\<close>, the copy, one transition to \<open>SHADER_READ_ONLY\<close>.
\<close>

theorem single_image_upload_ready:
  "0 < w \<Longrightarrow> 0 < h \<Longrightarrow>
   shader_ready (exec_image_cmds (create_image w h 1 single_level_usage) (load_image_single_cmds w h))"
  by (simp add: shader_ready_def exec_image_cmds_def create_image_def load_image_single_cmds_def
      adjustImageLayout_def image_ops single_level_usage_def)

theorem single_image_upload_ready_witness:
  "shader_ready (exec_image_cmds (create_image 512 512 1 single_level_usage) (load_image_single_cmds 512 512))"
  by (rule single_image_upload_ready) simp_all

end
