(* ===== verification/ShaderLoader.thy ===== *)
theory ShaderLoader
  imports Prelude
begin

text \<open>
  The file reading of \<open>VulkanEngine::load_shader_module\<close> (src/src/vk_engine.cpp): the
  file is opened at its end, \<open>tellg\<close> gives its size, a \<open>std::vector<uint32_t>\<close> of
  \<open>fileSize / sizeof(uint32_t)\<close> zero words is allocated, the whole file is read into its
  memory, and \<open>buffer.size() * sizeof(uint32_t)\<close> bytes of it are passed to
  \<open>vkCreateShaderModule\<close>.  A file is its byte list (\<open>None\<close> when it does not open);
  the buffer is a list of 32-bit words laid out little-endian in memory, as on the
  x86-64 and ARM64 hosts the engine targets.  A read past the end of the buffer is the
  error \<open>IndexOutOfRange\<close>; the result of \<open>vkCreateShaderModule\<close> is a parameter.
  The effect on the engine's objects (a created module or none) is modelled in \<open>Lifetime\<close>.
\<close>

unbundle bit_operations_syntax

section \<open>Words in memory\<close>

type_synonym u8 = "8 word"

text \<open>Four bytes at increasing addresses read as one \<open>uint32_t\<close>, and the converse.\<close>

definition le32 :: "u8 list \<Rightarrow> u32" where
  "le32 bs = foldr (\<lambda>b w. ucast b OR push_bit 8 w) bs 0"

definition le32_bytes :: "u32 \<Rightarrow> u8 list" where
  "le32_bytes w = map (\<lambda>k. ucast (drop_bit (8 * k) w)) [0..<4]"

text \<open>
  \<open>file.read((char*)buffer.data(), count)\<close>: the bytes overwrite the prefix of the
  buffer's memory; writing past its \<open>4 * buffer.size()\<close> bytes is out of range.
\<close>

definition file_read :: "u32 list \<Rightarrow> u8 list \<Rightarrow> u32 list result" where
  "file_read buffer bytes =
     (if 4 * length buffer < length bytes
      then Inl (IndexOutOfRange (int (4 * length buffer)) (4 * length buffer))
      else (let mem = bytes @ drop (length bytes) (concat (map le32_bytes buffer)) in
            Inr (map (\<lambda>k. le32 (take 4 (drop (4 * k) mem))) [0..<length buffer])))"

text \<open>
  The body of \<open>load_shader_module\<close> up to \<open>vkCreateShaderModule\<close>: \<open>Inr None\<close> is
  its \<open>return false\<close> (the file does not open, or the creation fails), \<open>Inr (Some code)\<close>
  a module created from \<open>code\<close>.
\<close>

definition load_shader_code :: "vk_result \<Rightarrow> u8 list option \<Rightarrow> u32 list option result" where
  "load_shader_code createResult file =
     (case file of
        None \<Rightarrow> Inr None
      | Some contents \<Rightarrow>
          (let fileSize = length contents;
               buffer = replicate (fileSize div 4) 0
           in rbind (file_read buffer (take fileSize contents)) (\<lambda>code.
              Inr (if createResult = VK_SUCCESS then Some code else None))))"

section \<open>Lemmas\<close>

lemma bit_le32_Cons:
  "bit (le32 (b # bs)) n \<longleftrightarrow> n < 32 \<and> (if n < 8 then bit b n else bit (le32 bs) (n - 8))"
  by (auto simp: le32_def bit_simps dest: bit_imp_le_length)

lemma bit_le32_bound: "bit (le32 bs) n \<Longrightarrow> n < 8 * length bs"
  by (induction bs arbitrary: n) (simp add: le32_def, fastforce simp: bit_le32_Cons split: if_splits)

lemma ucast_le32_Cons: "(ucast (le32 (b # bs)) :: u8) = b"
  by (rule bit_word_eqI) (auto simp: bit_simps bit_le32_Cons)

lemma drop_bit_le32_Cons: "length bs \<le> 3 \<Longrightarrow> drop_bit 8 (le32 (b # bs)) = le32 bs"
  by (rule bit_word_eqI) (auto simp: bit_simps bit_le32_Cons dest: bit_le32_bound)

lemma le32_bytes_le32: "length bs = 4 \<Longrightarrow> le32_bytes (le32 bs) = bs"
proof -
  assume "length bs = 4"
  then obtain b0 b1 b2 b3 where bs: "bs = [b0, b1, b2, b3]"
    by (auto simp: numeral_eq_Suc length_Suc_conv)
  have d: "drop_bit 16 w = drop_bit 8 (drop_bit 8 w)" "drop_bit 24 w = drop_bit 8 (drop_bit 16 w)"
    for w :: u32 by (simp_all add: drop_bit_drop_bit)
  show ?thesis
    by (simp add: bs le32_bytes_def upt_rec d drop_bit_le32_Cons ucast_le32_Cons)
qed


lemma length_le32_bytes [simp]: "length (le32_bytes w) = 4"
  by (simp add: le32_bytes_def)

lemma concat_le32_chunks:
  "length bs = 4 * n \<Longrightarrow> concat (map (\<lambda>k. le32_bytes (le32 (take 4 (drop (4 * k) bs)))) [0..<n]) = bs"
proof (induction n arbitrary: bs)
  case 0
  then show ?case by simp
next
  case (Suc n)
  have "drop (4 * Suc k) bs = drop (4 * k) (drop 4 bs)" for k by (simp add: add.commute)
  then have "map (\<lambda>k. le32_bytes (le32 (take 4 (drop (4 * k) bs)))) [0..<Suc n] =
      le32_bytes (le32 (take 4 bs)) # map (\<lambda>k. le32_bytes (le32 (take 4 (drop (4 * k) (drop 4 bs))))) [0..<n]"
    by (simp add: upt_conv_Cons map_Suc_upt [symmetric] del: upt_Suc)
  moreover have "le32_bytes (le32 (take 4 bs)) = take 4 bs" using Suc.prems by (simp add: le32_bytes_le32)
  moreover have "concat (map (\<lambda>k. le32_bytes (le32 (take 4 (drop (4 * k) (drop 4 bs))))) [0..<n]) = drop 4 bs"
    using Suc.prems by (intro Suc.IH) simp
  ultimately show ?case by simp
qed

lemma words_short: "4 * (n div 4) < n \<longleftrightarrow> n mod 4 \<noteq> (0::nat)"
  using div_mult_mod_eq [of n 4] by linarith

lemma file_read_words:
  "length bs = 4 * n \<Longrightarrow> file_read (replicate n 0) bs = Inr (map (\<lambda>k. le32 (take 4 (drop (4 * k) bs))) [0..<n])"
  by (simp add: file_read_def)

lemma magic_word: "load_shader_code VK_SUCCESS (Some [0x03, 0x02, 0x23, 0x07]) = Inr (Some [0x07230203])"
  by (simp add: load_shader_code_def file_read_def rbind_def le32_def le32_bytes_def)

lemma overrun_index: "load_shader_code VK_SUCCESS (Some [0x03, 0x02, 0x23, 0x07, 0]) = Inl (IndexOutOfRange 4 4)"
  by (simp add: load_shader_code_def file_read_def rbind_def)

section \<open>Properties\<close>

text \<open>
  C12: \<open>load_shader_module\<close> sizes its \<open>uint32_t\<close> buffer \<open>fileSize / 4\<close> words and then reads \<open>fileSize\<close> bytes into it: the read writes past the buffer exactly when the file size is not a multiple of four, whatever \<open>vkCreateShaderModule\<close> would return.
\<close>

theorem shader_read_overrun:
  "(\<exists>e. load_shader_code createResult (Some contents) = Inl e) \<longleftrightarrow> length contents mod 4 \<noteq> 0"
  by (simp add: load_shader_code_def file_read_def rbind_def Let_def words_short)

text \<open>
  C27: for a file whose size is a multiple of four, the loaded code is the file: \<open>codeSize\<close> is the file size, and the words handed to \<open>vkCreateShaderModule\<close>, laid out in memory, are the file's bytes in order (round trip bytes to words to bytes).
\<close>

theorem shader_code_roundtrip:
  "length contents mod 4 = 0 \<Longrightarrow>
   \<exists>code. load_shader_code VK_SUCCESS (Some contents) = Inr (Some code) \<and>
          4 * length code = length contents \<and> concat (map le32_bytes code) = contents"
proof -
  assume "length contents mod 4 = 0"
  then obtain n where n: "length contents = 4 * n" by auto
  then have "load_shader_code VK_SUCCESS (Some contents) =
      Inr (Some (map (\<lambda>k. le32 (take 4 (drop (4 * k) contents))) [0..<n]))"
    by (simp add: load_shader_code_def file_read_words rbind_def)
  with n show ?thesis by (simp add: concat_le32_chunks comp_def)
qed

theorem shader_code_roundtrip_witness:
  "\<exists>code. load_shader_code VK_SUCCESS (Some [0x03, 0x02, 0x23, 0x07, 0, 0, 1, 0]) = Inr (Some code) \<and>
     4 * length code = length [0x03, 0x02, 0x23, (0x07::u8), 0, 0, 1, 0] \<and>
     concat (map le32_bytes code) = [0x03, 0x02, 0x23, 0x07, 0, 0, 1, 0]"
  by (rule shader_code_roundtrip) simp

theorem shader_read_overrun_witness:
  "(\<exists>e. load_shader_code VK_SUCCESS (Some [0x03, 0x02, 0x23, 0x07, 0]) = Inl e) \<and>
   \<not> (\<exists>e. load_shader_code VK_SUCCESS (Some [0x03, 0x02, 0x23, 0x07]) = Inl e)"
  using shader_read_overrun [of VK_SUCCESS "[0x03, 0x02, 0x23, 0x07, 0]"]
        shader_read_overrun [of VK_SUCCESS "[0x03, 0x02, 0x23, 0x07]"] by simp

end
