(* ===== verification/RenderPass.thy ===== *)
theory RenderPass
  imports Texture
begin

text \<open>
  The render pass and the framebuffers of src/src/vk_engine.cpp: \<open>init_default_renderpass\<close>
  builds its attachment descriptions, its subpass and its two subpass dependencies by
  \<open>push_back\<close> onto the engine members \<open>_attachments\<close>, \<open>_subpassDescription\<close> and
  \<open>_subpassDependency\<close> (vk_engine.h) and creates the pass from those vectors;
  \<open>init_framebuffers\<close> creates one framebuffer per swapchain image from the image's view and
  the depth view, sized by \<open>_windowExtent\<close>; \<open>record_cmdbuffers\<close> begins the pass with two
  clear values.  The object lifetimes and the \<open>VK_CHECK\<close>s of these functions are modelled
  in \<open>Lifetime\<close>; here the contents of the create-info structures are checked against the
  Vulkan valid-usage rules they are subject to.
\<close>

section \<open>Formats and attachment operations\<close>

text \<open>
  The formats the engine uses: the swapchain format \<open>vkb\<close>'s default selection returns (an
  sRGB or UNORM colour format), the texture format, and \<open>_depthFormat\<close>.
\<close>

datatype vk_format =
    VK_FORMAT_B8G8R8A8_SRGB
  | VK_FORMAT_B8G8R8A8_UNORM
  | VK_FORMAT_R8G8B8A8_SRGB
  | VK_FORMAT_D32_SFLOAT

fun is_depth_format :: "vk_format \<Rightarrow> bool" where
  "is_depth_format VK_FORMAT_D32_SFLOAT = True"
| "is_depth_format _ = False"

datatype load_op = VK_ATTACHMENT_LOAD_OP_LOAD | VK_ATTACHMENT_LOAD_OP_CLEAR | VK_ATTACHMENT_LOAD_OP_DONT_CARE

datatype store_op = VK_ATTACHMENT_STORE_OP_STORE | VK_ATTACHMENT_STORE_OP_DONT_CARE

record attachment_description =
  att_format :: vk_format
  samples :: nat
  loadOp :: load_op
  storeOp :: store_op
  stencilLoadOp :: load_op
  stencilStoreOp :: store_op
  initialLayout :: image_layout
  finalLayout :: image_layout

record attachment_reference =
  attachment :: nat
  ref_layout :: image_layout

record subpass_description =
  colorAttachments :: "attachment_reference list"
  depthStencilAttachment :: "attachment_reference option"

datatype subpass_index = VK_SUBPASS_EXTERNAL | Subpass nat

record subpass_dependency =
  srcSubpass :: subpass_index
  dstSubpass :: subpass_index
  srcStageMask :: "pipeline_stage list"
  dep_srcAccessMask :: "access_flag list"
  dstStageMask :: "pipeline_stage list"
  dep_dstAccessMask :: "access_flag list"

text \<open>
  The three member vectors; \<open>vkCreateRenderPass\<close> receives them whole
  (\<open>attachmentCount = _attachments.size()\<close> and so on), so they are also the create info.
\<close>

record renderpass_members =
  attachments :: "attachment_description list"
  subpassDescriptions :: "subpass_description list"
  subpassDependencies :: "subpass_dependency list"

definition no_renderpass_members :: renderpass_members where
  "no_renderpass_members = \<lparr>attachments = [], subpassDescriptions = [], subpassDependencies = []\<rparr>"

section \<open>\<open>init_default_renderpass\<close>\<close>

definition color_attachment :: "vk_format \<Rightarrow> attachment_description" where
  "color_attachment swapchainImageFormat =
     \<lparr>att_format = swapchainImageFormat, samples = 1,
      loadOp = VK_ATTACHMENT_LOAD_OP_CLEAR, storeOp = VK_ATTACHMENT_STORE_OP_STORE,
      stencilLoadOp = VK_ATTACHMENT_LOAD_OP_DONT_CARE, stencilStoreOp = VK_ATTACHMENT_STORE_OP_DONT_CARE,
      initialLayout = VK_IMAGE_LAYOUT_UNDEFINED, finalLayout = VK_IMAGE_LAYOUT_PRESENT_SRC_KHR\<rparr>"

definition depth_attachment :: "vk_format \<Rightarrow> attachment_description" where
  "depth_attachment depthFormat =
     \<lparr>att_format = depthFormat, samples = 1,
      loadOp = VK_ATTACHMENT_LOAD_OP_CLEAR, storeOp = VK_ATTACHMENT_STORE_OP_STORE,
      stencilLoadOp = VK_ATTACHMENT_LOAD_OP_CLEAR, stencilStoreOp = VK_ATTACHMENT_STORE_OP_DONT_CARE,
      initialLayout = VK_IMAGE_LAYOUT_UNDEFINED, finalLayout = VK_IMAGE_LAYOUT_DEPTH_STENCIL_ATTACHMENT_OPTIMAL\<rparr>"

definition default_subpass :: subpass_description where
  "default_subpass =
     \<lparr>colorAttachments = [\<lparr>attachment = 0, ref_layout = VK_IMAGE_LAYOUT_COLOR_ATTACHMENT_OPTIMAL\<rparr>],
      depthStencilAttachment = Some \<lparr>attachment = 1, ref_layout = VK_IMAGE_LAYOUT_DEPTH_STENCIL_ATTACHMENT_OPTIMAL\<rparr>\<rparr>"

definition color_dependency :: subpass_dependency where
  "color_dependency =
     \<lparr>srcSubpass = VK_SUBPASS_EXTERNAL, dstSubpass = Subpass 0,
      srcStageMask = [VK_PIPELINE_STAGE_COLOR_ATTACHMENT_OUTPUT_BIT], dep_srcAccessMask = [],
      dstStageMask = [VK_PIPELINE_STAGE_COLOR_ATTACHMENT_OUTPUT_BIT],
      dep_dstAccessMask = [VK_ACCESS_COLOR_ATTACHMENT_WRITE_BIT]\<rparr>"

definition depth_dependency :: subpass_dependency where
  "depth_dependency =
     \<lparr>srcSubpass = VK_SUBPASS_EXTERNAL, dstSubpass = Subpass 0,
      srcStageMask = [VK_PIPELINE_STAGE_EARLY_FRAGMENT_TESTS_BIT, VK_PIPELINE_STAGE_LATE_FRAGMENT_TESTS_BIT],
      dep_srcAccessMask = [],
      dstStageMask = [VK_PIPELINE_STAGE_EARLY_FRAGMENT_TESTS_BIT, VK_PIPELINE_STAGE_LATE_FRAGMENT_TESTS_BIT],
      dep_dstAccessMask = [VK_ACCESS_DEPTH_STENCIL_ATTACHMENT_WRITE_BIT]\<rparr>"

text \<open>
  The five \<open>push_back\<close>s of \<open>init_default_renderpass\<close>, in the order of the code, onto
  whatever the members already hold.
\<close>

definition init_renderpass_members :: "vk_format \<Rightarrow> vk_format \<Rightarrow> renderpass_members \<Rightarrow> renderpass_members" where
  "init_renderpass_members swapchainImageFormat depthFormat m =
     \<lparr>attachments = attachments m @ [color_attachment swapchainImageFormat, depth_attachment depthFormat],
      subpassDescriptions = subpassDescriptions m @ [default_subpass],
      subpassDependencies = subpassDependencies m @ [color_dependency, depth_dependency]\<rparr>"

section \<open>Framebuffers\<close>

text \<open>The image views a framebuffer of \<open>init_framebuffers\<close> attaches.\<close>

datatype fb_view = SwapchainView nat | DepthView

record framebuffer =
  fb_attachments :: "fb_view list"
  fb_width :: nat
  fb_height :: nat
  fb_layers :: nat

definition init_framebuffer_infos :: "nat \<Rightarrow> nat \<times> nat \<Rightarrow> framebuffer list" where
  "init_framebuffer_infos swapchain_imagecount windowExtent =
     map (\<lambda>i. \<lparr>fb_attachments = [SwapchainView i, DepthView],
               fb_width = fst windowExtent, fb_height = snd windowExtent, fb_layers = 1\<rparr>)
       [0..<swapchain_imagecount]"

text \<open>
  What the views are views of: the swapchain images \<open>vkb\<close> creates (format, extent chosen by
  \<open>vkb\<close> from the desired \<open>_windowExtent\<close> and the surface capabilities, colour-attachment
  usage), and the depth image of \<open>init_swapchain\<close> (\<open>_depthFormat\<close>, \<open>_windowExtent\<close>,
  depth-stencil usage).
\<close>

record view_image =
  view_format :: vk_format
  view_width :: nat
  view_height :: nat
  color_usage :: bool
  depth_usage :: bool

definition view_image_of :: "vk_format \<Rightarrow> nat \<times> nat \<Rightarrow> vk_format \<Rightarrow> nat \<times> nat \<Rightarrow> fb_view \<Rightarrow> view_image" where
  "view_image_of swapchainImageFormat swapchainExtent depthFormat windowExtent v =
     (case v of
        SwapchainView _ \<Rightarrow> \<lparr>view_format = swapchainImageFormat, view_width = fst swapchainExtent,
                            view_height = snd swapchainExtent, color_usage = True, depth_usage = False\<rparr>
      | DepthView \<Rightarrow> \<lparr>view_format = depthFormat, view_width = fst windowExtent,
                      view_height = snd windowExtent, color_usage = False, depth_usage = True\<rparr>)"

section \<open>Beginning the pass\<close>

datatype clear_value = ClearColor | ClearDepthStencil

text \<open>\<open>_clearValue{clearValue, depthClear}\<close> of \<open>record_cmdbuffers\<close>.\<close>

definition record_clear_values :: "clear_value list" where
  "record_clear_values = [ClearColor, ClearDepthStencil]"

section \<open>Valid usage\<close>

text \<open>
  The rules of the Vulkan specification on a render pass create info: a subpass exists; every
  attachment has at least one sample and a defined final layout
  (VUID-VkAttachmentDescription-finalLayout-00843); a colour reference names a colour
  attachment in \<open>COLOR_ATTACHMENT_OPTIMAL\<close> and the depth reference a depth attachment in
  \<open>DEPTH_STENCIL_ATTACHMENT_OPTIMAL\<close> (VUID-VkSubpassDescription-*); a dependency names
  existing subpasses, not both external, with non-empty stage masks.
\<close>

definition valid_color_ref :: "attachment_description list \<Rightarrow> attachment_reference \<Rightarrow> bool" where
  "valid_color_ref atts r \<longleftrightarrow>
     attachment r < length atts \<and> ref_layout r = VK_IMAGE_LAYOUT_COLOR_ATTACHMENT_OPTIMAL \<and>
     \<not> is_depth_format (att_format (atts ! attachment r))"

definition valid_depth_ref :: "attachment_description list \<Rightarrow> attachment_reference option \<Rightarrow> bool" where
  "valid_depth_ref atts ro =
     (case ro of
        None \<Rightarrow> True
      | Some r \<Rightarrow> attachment r < length atts \<and> ref_layout r = VK_IMAGE_LAYOUT_DEPTH_STENCIL_ATTACHMENT_OPTIMAL \<and>
                  is_depth_format (att_format (atts ! attachment r)))"

fun valid_subpass_index :: "nat \<Rightarrow> subpass_index \<Rightarrow> bool" where
  "valid_subpass_index n VK_SUBPASS_EXTERNAL = True"
| "valid_subpass_index n (Subpass k) = (k < n)"

definition valid_dependency :: "nat \<Rightarrow> subpass_dependency \<Rightarrow> bool" where
  "valid_dependency n d \<longleftrightarrow>
     valid_subpass_index n (srcSubpass d) \<and> valid_subpass_index n (dstSubpass d) \<and>
     \<not> (srcSubpass d = VK_SUBPASS_EXTERNAL \<and> dstSubpass d = VK_SUBPASS_EXTERNAL) \<and>
     srcStageMask d \<noteq> [] \<and> dstStageMask d \<noteq> []"

definition valid_renderpass :: "renderpass_members \<Rightarrow> bool" where
  "valid_renderpass rp \<longleftrightarrow>
     subpassDescriptions rp \<noteq> [] \<and>
     list_all (\<lambda>a. 0 < samples a \<and> finalLayout a \<noteq> VK_IMAGE_LAYOUT_UNDEFINED) (attachments rp) \<and>
     list_all (\<lambda>sp. list_all (valid_color_ref (attachments rp)) (colorAttachments sp) \<and>
                    valid_depth_ref (attachments rp) (depthStencilAttachment sp)) (subpassDescriptions rp) \<and>
     list_all (valid_dependency (length (subpassDescriptions rp))) (subpassDependencies rp)"

text \<open>
  A framebuffer is compatible with the pass (VUID-VkFramebufferCreateInfo-attachmentCount-00876,
  -pAttachments-00877, -00880, -flags-04533/04534): as many views as attachments, each of the
  attachment's format, with the usage the subpass uses it for, and at least as large as the
  framebuffer.
\<close>

definition attachment_fits :: "nat \<Rightarrow> nat \<Rightarrow> view_image \<Rightarrow> attachment_description \<Rightarrow> bool" where
  "attachment_fits w h v a \<longleftrightarrow>
     view_format v = att_format a \<and>
     (if is_depth_format (att_format a) then depth_usage v else color_usage v) \<and>
     w \<le> view_width v \<and> h \<le> view_height v"

definition framebuffer_compatible :: "(fb_view \<Rightarrow> view_image) \<Rightarrow> renderpass_members \<Rightarrow> framebuffer \<Rightarrow> bool" where
  "framebuffer_compatible views rp fb \<longleftrightarrow>
     fb_layers fb = 1 \<and>
     list_all2 (\<lambda>v a. attachment_fits (fb_width fb) (fb_height fb) (views v) a) (fb_attachments fb) (attachments rp)"

text \<open>
  VUID-VkRenderPassBeginInfo-clearValueCount-00902: the clear values reach every attachment
  whose load operation (or stencil load operation, for a depth/stencil format) is \<open>CLEAR\<close>;
  and each such attachment gets a clear value of its kind.
\<close>

definition clears :: "attachment_description \<Rightarrow> bool" where
  "clears a \<longleftrightarrow> loadOp a = VK_ATTACHMENT_LOAD_OP_CLEAR \<or>
                 (is_depth_format (att_format a) \<and> stencilLoadOp a = VK_ATTACHMENT_LOAD_OP_CLEAR)"

definition clear_values_ok :: "renderpass_members \<Rightarrow> clear_value list \<Rightarrow> bool" where
  "clear_values_ok rp cvs \<longleftrightarrow>
     list_all (\<lambda>i. clears (attachments rp ! i) \<longrightarrow>
                   i < length cvs \<and>
                   cvs ! i = (if is_depth_format (att_format (attachments rp ! i)) then ClearDepthStencil else ClearColor))
       [0..<length (attachments rp)]"

section \<open>Lemmas\<close>

lemma default_members [simp]:
  "attachments (init_renderpass_members f df no_renderpass_members) = [color_attachment f, depth_attachment df]"
  "subpassDescriptions (init_renderpass_members f df no_renderpass_members) = [default_subpass]"
  "subpassDependencies (init_renderpass_members f df no_renderpass_members) = [color_dependency, depth_dependency]"
  by (simp_all add: init_renderpass_members_def no_renderpass_members_def)

lemma framebuffer_infos_set:
  "fb \<in> set (init_framebuffer_infos n we) \<longleftrightarrow>
   (\<exists>i<n. fb = \<lparr>fb_attachments = [SwapchainView i, DepthView], fb_width = fst we, fb_height = snd we, fb_layers = 1\<rparr>)"
  by (auto simp: init_framebuffer_infos_def)

lemma framebuffer_compatible_default:
  "\<not> is_depth_format f \<Longrightarrow> fb \<in> set (init_framebuffer_infos n we) \<Longrightarrow>
   framebuffer_compatible (view_image_of f se VK_FORMAT_D32_SFLOAT we)
     (init_renderpass_members f VK_FORMAT_D32_SFLOAT no_renderpass_members) fb \<longleftrightarrow>
   fst we \<le> fst se \<and> snd we \<le> snd se"
  by (auto simp: init_framebuffer_infos_def framebuffer_compatible_def attachment_fits_def view_image_of_def
      color_attachment_def depth_attachment_def)

section \<open>Properties\<close>

text \<open>
  C23: the render pass \<open>init_default_renderpass\<close> creates from the engine's initially empty member vectors, for a colour swapchain format and a depth format, satisfies the valid-usage rules of \<open>VkRenderPassCreateInfo\<close>: one subpass, every attachment with a sample and a defined final layout, the colour reference to the colour attachment in \<open>COLOR_ATTACHMENT_OPTIMAL\<close>, the depth reference to the depth attachment in \<open>DEPTH_STENCIL_ATTACHMENT_OPTIMAL\<close>, dependencies from \<open>VK_SUBPASS_EXTERNAL\<close> to subpass 0 with non-empty stage masks.
\<close>

theorem default_renderpass_valid:
  "\<not> is_depth_format f \<Longrightarrow> is_depth_format df \<Longrightarrow>
   valid_renderpass (init_renderpass_members f df no_renderpass_members)"
  by (simp add: valid_renderpass_def valid_color_ref_def valid_depth_ref_def valid_dependency_def
      color_attachment_def depth_attachment_def default_subpass_def color_dependency_def depth_dependency_def)

theorem default_renderpass_valid_witness:
  "valid_renderpass (init_renderpass_members VK_FORMAT_B8G8R8A8_SRGB VK_FORMAT_D32_SFLOAT no_renderpass_members)"
  by (rule default_renderpass_valid) simp_all

text \<open>
  C24: the framebuffers of \<open>init_framebuffers\<close> (swapchain view and depth view, sized by \<open>_windowExtent\<close>) are all compatible with the render pass exactly when the swapchain images \<open>vkb\<close> created are at least as large as \<open>_windowExtent\<close> (or there are none): the formats, usages and attachment count always match, the size only when \<open>vkb\<close> granted the desired extent.
\<close>

theorem framebuffers_compatible_iff:
  "\<not> is_depth_format f \<Longrightarrow>
   (\<forall>fb \<in> set (init_framebuffer_infos n we).
      framebuffer_compatible (view_image_of f se VK_FORMAT_D32_SFLOAT we)
        (init_renderpass_members f VK_FORMAT_D32_SFLOAT no_renderpass_members) fb) \<longleftrightarrow>
   n = 0 \<or> (fst we \<le> fst se \<and> snd we \<le> snd se)"
proof (cases "n = 0")
  case True
  then show ?thesis by (simp add: init_framebuffer_infos_def)
next
  case False
  assume f: "\<not> is_depth_format f"
  from False have "hd (init_framebuffer_infos n we) \<in> set (init_framebuffer_infos n we)"
    by (intro hd_in_set) (simp add: init_framebuffer_infos_def)
  with False framebuffer_compatible_default [OF f] show ?thesis by blast
qed

theorem framebuffers_compatible_iff_witness:
  "list_all (framebuffer_compatible (view_image_of VK_FORMAT_B8G8R8A8_SRGB (1200, 800) VK_FORMAT_D32_SFLOAT (1200, 800))
       (init_renderpass_members VK_FORMAT_B8G8R8A8_SRGB VK_FORMAT_D32_SFLOAT no_renderpass_members))
     (init_framebuffer_infos 3 (1200, 800)) \<and>
   \<not> list_all (framebuffer_compatible (view_image_of VK_FORMAT_B8G8R8A8_SRGB (1024, 768) VK_FORMAT_D32_SFLOAT (1200, 800))
       (init_renderpass_members VK_FORMAT_B8G8R8A8_SRGB VK_FORMAT_D32_SFLOAT no_renderpass_members))
     (init_framebuffer_infos 3 (1200, 800))"
  using framebuffers_compatible_iff [of VK_FORMAT_B8G8R8A8_SRGB 3 "(1200, 800)" "(1200, 800)"]
        framebuffers_compatible_iff [of VK_FORMAT_B8G8R8A8_SRGB 3 "(1200, 800)" "(1024, 768)"]
  by (simp only: list_all_iff) simp

text \<open>
  The two clear values of \<open>record_cmdbuffers\<close> cover every attachment the render pass clears, each with a clear value of its kind (colour for the swapchain image, depth for the depth image).
\<close>

theorem clear_values_cover:
  "\<not> is_depth_format f \<Longrightarrow>
   clear_values_ok (init_renderpass_members f VK_FORMAT_D32_SFLOAT no_renderpass_members) record_clear_values"
  by (simp add: clear_values_ok_def clears_def record_clear_values_def color_attachment_def
      depth_attachment_def upt_rec)

theorem clear_values_cover_witness:
  "clear_values_ok (init_renderpass_members VK_FORMAT_B8G8R8A8_SRGB VK_FORMAT_D32_SFLOAT no_renderpass_members)
     record_clear_values"
  by (rule clear_values_cover) simp

text \<open>
  \<open>init_default_renderpass\<close> appends to the member vectors instead of replacing them: a second call would describe a pass with two subpasses and four attachments, with which no framebuffer of \<open>init_framebuffers\<close> (two views) is compatible.
\<close>

theorem renderpass_rebuild_incompatible:
  "length (subpassDescriptions (init_renderpass_members f df (init_renderpass_members f df no_renderpass_members))) = 2 \<and>
   (\<forall>fb \<in> set (init_framebuffer_infos n we).
      \<not> framebuffer_compatible views (init_renderpass_members f df (init_renderpass_members f df no_renderpass_members)) fb)"
  by (auto simp: framebuffer_infos_set framebuffer_compatible_def init_renderpass_members_def
      no_renderpass_members_def list_all2_lengthD dest: list_all2_lengthD)

theorem renderpass_rebuild_incompatible_witness:
  "length (subpassDescriptions (init_renderpass_members VK_FORMAT_B8G8R8A8_SRGB VK_FORMAT_D32_SFLOAT
       (init_renderpass_members VK_FORMAT_B8G8R8A8_SRGB VK_FORMAT_D32_SFLOAT no_renderpass_members))) = 2 \<and>
   list_all (\<lambda>fb. \<not> framebuffer_compatible (view_image_of VK_FORMAT_B8G8R8A8_SRGB (1200, 800) VK_FORMAT_D32_SFLOAT (1200, 800))
      (init_renderpass_members VK_FORMAT_B8G8R8A8_SRGB VK_FORMAT_D32_SFLOAT
        (init_renderpass_members VK_FORMAT_B8G8R8A8_SRGB VK_FORMAT_D32_SFLOAT no_renderpass_members)) fb)
     (init_framebuffer_infos 3 (1200, 800))"
  using renderpass_rebuild_incompatible [of VK_FORMAT_B8G8R8A8_SRGB VK_FORMAT_D32_SFLOAT 3 "(1200, 800)"
          "view_image_of VK_FORMAT_B8G8R8A8_SRGB (1200, 800) VK_FORMAT_D32_SFLOAT (1200, 800)"]
  by (simp only: list_all_iff) auto

end
