(* ===== verification/Descriptors.thy ===== *)
theory Descriptors
  imports DrawObjects Texture
begin

text \<open>
  The descriptor setup of src/src/vk_engine.cpp: the three set layouts and the pool of
  \<open>init_descriptors\<close>, the per-frame buffers and the descriptor writes that point the
  per-frame sets at them, and the write of the texture set in \<open>init_scene\<close>.  The
  objects' lifetimes and \<open>VK_CHECK\<close>s are modelled in \<open>Lifetime\<close>, the binds of
  \<open>draw_objects\<close> in \<open>DrawObjects\<close>; here the contents are checked against the Vulkan
  valid-usage rules that connect them: a write must match the type of its layout binding and
  stay inside its buffer, and a bind must supply one aligned, in-range dynamic offset per
  dynamic binding.
\<close>

section \<open>Set layouts and pool\<close>

datatype descriptor_type =
    VK_DESCRIPTOR_TYPE_UNIFORM_BUFFER
  | VK_DESCRIPTOR_TYPE_UNIFORM_BUFFER_DYNAMIC
  | VK_DESCRIPTOR_TYPE_STORAGE_BUFFER
  | VK_DESCRIPTOR_TYPE_COMBINED_IMAGE_SAMPLER

datatype shader_stage = VK_SHADER_STAGE_VERTEX_BIT | VK_SHADER_STAGE_FRAGMENT_BIT

text \<open>\<open>vkinit::descriptorset_layout_binding(type, stageFlags, binding)\<close>: one descriptor.\<close>

record layout_binding =
  binding :: nat
  descriptorType :: descriptor_type
  stageFlags :: "shader_stage list"

definition camBufferBinding :: layout_binding where
  "camBufferBinding = \<lparr>binding = 0, descriptorType = VK_DESCRIPTOR_TYPE_UNIFORM_BUFFER,
                       stageFlags = [VK_SHADER_STAGE_VERTEX_BIT]\<rparr>"

definition sceneBufferBinding :: layout_binding where
  "sceneBufferBinding = \<lparr>binding = 1, descriptorType = VK_DESCRIPTOR_TYPE_UNIFORM_BUFFER_DYNAMIC,
                         stageFlags = [VK_SHADER_STAGE_VERTEX_BIT, VK_SHADER_STAGE_FRAGMENT_BIT]\<rparr>"

definition objectBufferBinding :: layout_binding where
  "objectBufferBinding = \<lparr>binding = 0, descriptorType = VK_DESCRIPTOR_TYPE_STORAGE_BUFFER,
                          stageFlags = [VK_SHADER_STAGE_VERTEX_BIT]\<rparr>"

definition textureBinding :: layout_binding where
  "textureBinding = \<lparr>binding = 0, descriptorType = VK_DESCRIPTOR_TYPE_COMBINED_IMAGE_SAMPLER,
                     stageFlags = [VK_SHADER_STAGE_FRAGMENT_BIT]\<rparr>"

text \<open>The sets: each frame's global and object set, and the material's texture set.\<close>

datatype descriptor_set = GlobalSet nat | ObjectSet nat | TextureSet

fun set_layout :: "descriptor_set \<Rightarrow> layout_binding list" where
  "set_layout (GlobalSet _) = [camBufferBinding, sceneBufferBinding]"
| "set_layout (ObjectSet _) = [objectBufferBinding]"
| "set_layout TextureSet = [textureBinding]"

definition descriptor_pool_sizes :: "(descriptor_type \<times> nat) list" where
  "descriptor_pool_sizes =
     [(VK_DESCRIPTOR_TYPE_UNIFORM_BUFFER, 10), (VK_DESCRIPTOR_TYPE_UNIFORM_BUFFER_DYNAMIC, 10),
      (VK_DESCRIPTOR_TYPE_STORAGE_BUFFER, 10), (VK_DESCRIPTOR_TYPE_COMBINED_IMAGE_SAMPLER, 10)]"

text \<open>The sets allocated from \<open>_descriptorPool\<close>: two per frame, then the texture set.\<close>

definition allocated_sets :: "descriptor_set list" where
  "allocated_sets = concat (map (\<lambda>i. [GlobalSet i, ObjectSet i]) [0..<FRAME_OVERLAP]) @ [TextureSet]"

section \<open>Buffers and writes\<close>

datatype buffer_usage = VK_BUFFER_USAGE_UNIFORM_BUFFER_BIT | VK_BUFFER_USAGE_STORAGE_BUFFER_BIT

datatype buffer_name = SceneParameterBuffer | FrameObjectBuffer nat | FrameCameraBuffer nat

text \<open>
  The buffers \<open>init_descriptors\<close> creates with \<open>create_buffer\<close>: their sizes in bytes
  and usages, for the device's \<open>minUniformBufferOffsetAlignment\<close>.
\<close>

definition buffer_of :: "size_t \<Rightarrow> buffer_name \<Rightarrow> nat \<times> buffer_usage" where
  "buffer_of minUboAlignment b =
     (case b of
        SceneParameterBuffer \<Rightarrow> (unat (scene_param_buffer_size minUboAlignment), VK_BUFFER_USAGE_UNIFORM_BUFFER_BIT)
      | FrameObjectBuffer _ \<Rightarrow> (unat sizeof_GPUObjectData * MAX_OBJECTS_NUM, VK_BUFFER_USAGE_STORAGE_BUFFER_BIT)
      | FrameCameraBuffer _ \<Rightarrow> (unat sizeof_GPUCameraData, VK_BUFFER_USAGE_UNIFORM_BUFFER_BIT))"

text \<open>
  \<open>VkDescriptorBufferInfo\<close> (buffer, offset, range) or \<open>VkDescriptorImageInfo\<close> (image
  view, \<open>None\<close> for \<open>VK_NULL_HANDLE\<close>, and layout).
\<close>

datatype descriptor_payload =
    BufferInfo buffer_name nat nat
  | ImageInfo "nat option" image_layout

record descriptor_write =
  dstSet :: descriptor_set
  dstBinding :: nat
  write_type :: descriptor_type
  payload :: descriptor_payload

text \<open>\<open>cameraWrite\<close>, \<open>sceneWrite\<close> and \<open>objectWrite\<close> of frame \<open>i\<close>.\<close>

definition frame_writes :: "nat \<Rightarrow> descriptor_write list" where
  "frame_writes i =
     [\<lparr>dstSet = GlobalSet i, dstBinding = 0, write_type = VK_DESCRIPTOR_TYPE_UNIFORM_BUFFER,
       payload = BufferInfo (FrameCameraBuffer i) 0 (unat sizeof_GPUCameraData)\<rparr>,
      \<lparr>dstSet = GlobalSet i, dstBinding = 1, write_type = VK_DESCRIPTOR_TYPE_UNIFORM_BUFFER_DYNAMIC,
       payload = BufferInfo SceneParameterBuffer 0 (unat sizeof_GPUSceneData)\<rparr>,
      \<lparr>dstSet = ObjectSet i, dstBinding = 0, write_type = VK_DESCRIPTOR_TYPE_STORAGE_BUFFER,
       payload = BufferInfo (FrameObjectBuffer i) 0 (unat sizeof_GPUObjectData * MAX_OBJECTS_NUM)\<rparr>]"

definition init_descriptor_writes :: "descriptor_write list" where
  "init_descriptor_writes = concat (map frame_writes [0..<FRAME_OVERLAP])"

text \<open>
  \<open>_loadedTextures\<close> (vk_engine.h): the \<open>Texture\<close> structs by name, of which the model
  keeps the image view (\<open>None\<close> for \<open>VK_NULL_HANDLE\<close>).  \<open>load_mipmap_texture\<close> stores
  the texture under \<open>"empire_diffuse"\<close> only when \<open>load_image_from_file\<close> succeeded;
  \<open>operator[]\<close> inserts a value-initialised \<open>Texture\<close> (null handles) for a missing key.
\<close>

record texture_entry =
  imageView :: "nat option"

definition store_loaded_texture :: "bool \<Rightarrow> nat \<Rightarrow> (string \<rightharpoonup> texture_entry) \<Rightarrow> (string \<rightharpoonup> texture_entry)" where
  "store_loaded_texture loaded view m =
     (if loaded then m(''empire_diffuse'' \<mapsto> \<lparr>imageView = Some view\<rparr>) else m)"

definition map_index :: "(string \<rightharpoonup> texture_entry) \<Rightarrow> string \<Rightarrow> texture_entry \<times> (string \<rightharpoonup> texture_entry)" where
  "map_index m k =
     (case m k of Some t \<Rightarrow> (t, m) | None \<Rightarrow> (\<lparr>imageView = None\<rparr>, m(k \<mapsto> \<lparr>imageView = None\<rparr>)))"

text \<open>
  \<open>texture1\<close> of \<open>init_scene\<close>: a combined image sampler write to binding 0 of the
  material's texture set with \<open>_loadedTextures["empire_diffuse"].imageView\<close> in
  \<open>SHADER_READ_ONLY_OPTIMAL\<close>.
\<close>

definition init_scene_texture_write :: "(string \<rightharpoonup> texture_entry) \<Rightarrow> descriptor_write" where
  "init_scene_texture_write loadedTextures =
     \<lparr>dstSet = TextureSet, dstBinding = 0, write_type = VK_DESCRIPTOR_TYPE_COMBINED_IMAGE_SAMPLER,
      payload = ImageInfo (imageView (fst (map_index loadedTextures ''empire_diffuse'')))
                  VK_IMAGE_LAYOUT_SHADER_READ_ONLY_OPTIMAL\<rparr>"

text \<open>
  The member \<open>uint32_t mipLevels\<close> (vk_engine.h) has no initialiser: \<open>None\<close> stands for
  its indeterminate value.  The mipmap overload of \<open>load_image_from_file\<close>, called by
  \<open>load_mipmap_texture\<close>, writes it through its reference parameter once \<open>stbi_load\<close>
  returned an image of \<open>w \<times> h\<close> texels, and not when the load fails.
\<close>

definition load_mipmap_levels :: "(nat \<times> nat) option \<Rightarrow> nat option \<Rightarrow> nat option" where
  "load_mipmap_levels img mipLevels =
     (case img of None \<Rightarrow> mipLevels | Some (w, h) \<Rightarrow> Some (mip_level_count w h))"

text \<open>
  The level-of-detail clamp of \<open>init_scene\<close>'s sampler: \<open>minLod = 0.0f\<close> and
  \<open>maxLod = static_cast<float>(mipLevels)\<close>, which copies an indeterminate value as such.
\<close>

record sampler_lod =
  minLod :: nat
  maxLod :: "nat option"

definition init_scene_sampler_lod :: "nat option \<Rightarrow> sampler_lod" where
  "init_scene_sampler_lod mipLevels = \<lparr>minLod = 0, maxLod = mipLevels\<rparr>"

section \<open>Valid usage\<close>

fun usage_for :: "descriptor_type \<Rightarrow> buffer_usage option" where
  "usage_for VK_DESCRIPTOR_TYPE_UNIFORM_BUFFER = Some VK_BUFFER_USAGE_UNIFORM_BUFFER_BIT"
| "usage_for VK_DESCRIPTOR_TYPE_UNIFORM_BUFFER_DYNAMIC = Some VK_BUFFER_USAGE_UNIFORM_BUFFER_BIT"
| "usage_for VK_DESCRIPTOR_TYPE_STORAGE_BUFFER = Some VK_BUFFER_USAGE_STORAGE_BUFFER_BIT"
| "usage_for VK_DESCRIPTOR_TYPE_COMBINED_IMAGE_SAMPLER = None"

text \<open>
  VUID-VkWriteDescriptorSet-descriptorType-00319 (type of the binding), -00330/-00331 (buffer
  usage), VkDescriptorBufferInfo-offset-00340 and -range-00342 (inside the buffer),
  VkWriteDescriptorSet-descriptorType-02996 and -04150 (a valid view in a sampled layout).
\<close>

definition valid_write :: "size_t \<Rightarrow> descriptor_write \<Rightarrow> bool" where
  "valid_write minUboAlignment w \<longleftrightarrow>
     list_ex (\<lambda>b. binding b = dstBinding w \<and> descriptorType b = write_type w) (set_layout (dstSet w)) \<and>
     (case payload w of
        BufferInfo buf off rng \<Rightarrow>
          usage_for (write_type w) = Some (snd (buffer_of minUboAlignment buf)) \<and>
          0 < rng \<and> off + rng \<le> fst (buffer_of minUboAlignment buf)
      | ImageInfo view lay \<Rightarrow>
          write_type w = VK_DESCRIPTOR_TYPE_COMBINED_IMAGE_SAMPLER \<and> view \<noteq> None \<and>
          lay = VK_IMAGE_LAYOUT_SHADER_READ_ONLY_OPTIMAL)"

text \<open>The descriptors of each type the allocated sets take from the pool.\<close>

definition descriptors_needed :: "descriptor_type \<Rightarrow> nat" where
  "descriptors_needed t =
     length (filter (\<lambda>b. descriptorType b = t) (concat (map set_layout allocated_sets)))"

definition pool_sufficient :: bool where
  "pool_sufficient \<longleftrightarrow>
     list_all (\<lambda>(t, n). descriptors_needed t \<le> n) descriptor_pool_sizes \<and>
     list_all (\<lambda>t. list_ex (\<lambda>(t', _). t' = t) descriptor_pool_sizes)
       (map descriptorType (concat (map set_layout allocated_sets)))"

text \<open>
  VUID-vkCmdBindDescriptorSets-dynamicOffsetCount-00359 (one offset per dynamic binding),
  -pDynamicOffsets-01971 (aligned to \<open>minUniformBufferOffsetAlignment\<close>) and -01979 (offset
  plus the descriptor's range inside the buffer), for a bind of set 0 (\<open>GlobalSet\<close>).
\<close>

definition dynamic_bindings :: "layout_binding list \<Rightarrow> layout_binding list" where
  "dynamic_bindings bs = filter (\<lambda>b. descriptorType b = VK_DESCRIPTOR_TYPE_UNIFORM_BUFFER_DYNAMIC) bs"

definition valid_global_bind :: "size_t \<Rightarrow> nat \<Rightarrow> u32 list \<Rightarrow> bool" where
  "valid_global_bind minUboAlignment i offs \<longleftrightarrow>
     length offs = length (dynamic_bindings (set_layout (GlobalSet i))) \<and>
     list_all (\<lambda>off. unat off mod unat minUboAlignment = 0 \<and>
                     unat off + unat sizeof_GPUSceneData \<le> fst (buffer_of minUboAlignment SceneParameterBuffer)) offs"

fun set0_binds_valid :: "size_t \<Rightarrow> nat \<Rightarrow> 'm vk_cmd \<Rightarrow> bool" where
  "set0_binds_valid a i (CmdBindDescriptorSets l s ds offs) = (s \<noteq> 0 \<or> valid_global_bind a i offs)"
| "set0_binds_valid a i c = True"

section \<open>The sampler's level range\<close>

text \<open>
  In \<open>init\<close>'s order (\<open>load_mipmap_texture\<close>, then \<open>init_scene\<close>) the sampler's
  \<open>maxLod\<close> is the texture's level count when the file loads, and the uninitialised
  member otherwise.
\<close>

lemma init_scene_sampler_maxLod:
  "maxLod (init_scene_sampler_lod (load_mipmap_levels img None)) =
     (case img of None \<Rightarrow> None | Some (w, h) \<Rightarrow> Some (mip_level_count w h))"
  by (simp add: init_scene_sampler_lod_def load_mipmap_levels_def split: option.split)

section \<open>The padded scene size\<close>

lemma pad_scene_exact:
  assumes "k < 32"
  shows "unat (pad_uniform_buffer_size (2 ^ k) sizeof_GPUSceneData) = (80 + 2 ^ k - 1) div 2 ^ k * 2 ^ k"
proof -
  have "k < 64" and "unat sizeof_GPUSceneData + 2 ^ k - 1 < 2 ^ 64"
    using assms pow2_lt_32 [OF assms] by (simp_all add: sizeof_GPUSceneData_def)
  then show ?thesis by (simp add: unat_pad_pow2 sizeof_GPUSceneData_def)
qed

lemma pad_scene_le:
  assumes "k < 32"
  shows "unat (pad_uniform_buffer_size (2 ^ k) sizeof_GPUSceneData) \<le> 2 ^ 31"
proof (cases "k \<le> 6")
  case True
  then have "(2::nat) ^ k \<le> 2 ^ 6" by (intro power_increasing) simp_all
  then have "(80 + 2 ^ k - 1) div 2 ^ k * 2 ^ k < 80 + (2::nat) ^ 6"
    using round_up_bounds [of "2 ^ k" 80] by simp
  then show ?thesis using pad_scene_exact [OF assms] by simp
next
  case False
  then have k7: "(2::nat) ^ 7 \<le> 2 ^ k" by (intro power_increasing) simp_all
  then have "(80 + 2 ^ k - 1) div 2 ^ k = (1::nat)"
    by (intro div_nat_eqI) simp_all
  moreover have "(2::nat) ^ k \<le> 2 ^ 31" using assms by (intro power_increasing) simp_all
  ultimately show ?thesis using pad_scene_exact [OF assms] by simp
qed

lemma unat_scene_param_buffer_size:
  assumes "k < 32"
  shows "unat (scene_param_buffer_size (2 ^ k)) = 2 * unat (pad_uniform_buffer_size (2 ^ k) sizeof_GPUSceneData)"
proof -
  have "2 * unat (pad_uniform_buffer_size (2 ^ k) sizeof_GPUSceneData) < 2 ^ 64"
    using pad_scene_le [OF assms] by simp
  then show ?thesis
    by (simp add: scene_param_buffer_size_def FRAME_OVERLAP_def unat_mult_lem [THEN iffD1])
qed

lemma unat_uniform_offset:
  assumes "k < 32" and "in_minUboAlignment d = 2 ^ k" and "frameIndex d < FRAME_OVERLAP"
  shows "unat (uniform_offset d) = frameIndex d * unat (pad_uniform_buffer_size (2 ^ k) sizeof_GPUSceneData)"
proof -
  have i: "frameIndex d = 0 \<or> frameIndex d = 1" using assms(3) by (auto simp: FRAME_OVERLAP_def)
  have "unat (pad_uniform_buffer_size (2 ^ k) sizeof_GPUSceneData) < 2 ^ 32"
    using pad_scene_le [OF assms(1)] by simp
  with i assms(2) show ?thesis
    by (auto simp: uniform_offset_def scene_offset_def unsigned_ucast_eq take_bit_nat_eq_self)
qed

lemma global_bind_uniform_offset:
  assumes "k < 32" and "in_minUboAlignment d = 2 ^ k" and "frameIndex d < FRAME_OVERLAP"
  shows "valid_global_bind (2 ^ k) (frameIndex d) [uniform_offset d]"
proof -
  define p where "p = unat (pad_uniform_buffer_size (2 ^ k) sizeof_GPUSceneData)"
  have off: "unat (uniform_offset d) = frameIndex d * p"
    using unat_uniform_offset [OF assms] by (simp add: p_def)
  have i: "frameIndex d \<le> 1" using assms(3) by (simp add: FRAME_OVERLAP_def)
  have p80: "80 \<le> p" using pad_scene_bounds [OF assms(1)] by (simp add: p_def)
  have "frameIndex d * p + 80 \<le> 2 * p"
    using i p80 by (cases "frameIndex d") simp_all
  moreover have "frameIndex d * p mod 2 ^ k = 0"
    using pad_scene_exact [OF assms(1)] by (simp add: p_def)
  moreover have "unat (2 ^ k :: size_t) = 2 ^ k" using assms(1) by (simp add: unat_pow2)
  ultimately show ?thesis
    using off by (simp add: valid_global_bind_def dynamic_bindings_def camBufferBinding_def sceneBufferBinding_def
        buffer_of_def unat_scene_param_buffer_size [OF assms(1)] p_def sizeof_GPUSceneData_def)
qed

section \<open>The binds of the draw loop\<close>

lemma draw_object_binds:
  "draw_object d i prev object = Inr (cs, r) \<Longrightarrow>
   c \<in> set cs \<Longrightarrow> (\<exists>mat. c \<in> set (bind_material d mat)) \<or> set0_binds_valid a j c"
  by (cases prev) (auto simp: draw_object_def rbind_eq_Inr split: if_splits prod.splits)

lemma bind_material_set0:
  "valid_global_bind a j [uniform_offset d] \<Longrightarrow> c \<in> set (bind_material d mat) \<Longrightarrow> set0_binds_valid a j c"
  by (auto simp: bind_material_def split: if_splits)

lemma draw_loop_set0:
  "valid_global_bind a j [uniform_offset d] \<Longrightarrow> draw_loop d i lastMesh lastMaterial rs = Inr cs \<Longrightarrow>
   list_all (set0_binds_valid a j) cs"
proof (induction rs arbitrary: i lastMesh lastMaterial cs)
  case Nil
  then show ?case by simp
next
  case (Cons object rs)
  from Cons.prems(2) obtain cs1 m' mat' cs2 where
    step: "draw_object d i (lastMesh, lastMaterial) object = Inr (cs1, m', mat')"
    and rest: "draw_loop d (Suc i) m' mat' rs = Inr cs2" and cs: "cs = cs1 @ cs2"
    by (auto simp: rbind_eq_Inr split: prod.splits)
  have "list_all (set0_binds_valid a j) cs1"
    using draw_object_binds [OF step, where a = a and j = j] bind_material_set0 [OF Cons.prems(1)]
    by (auto simp: list_all_iff)
  with Cons.IH [OF Cons.prems(1) rest] cs show ?case by simp
qed

section \<open>Properties\<close>

text \<open>
  C25: for every power-of-two \<open>minUniformBufferOffsetAlignment\<close> up to \<open>2 ^ 31\<close>, every descriptor write of \<open>init_descriptors\<close> (camera, scene and object buffers of both frames) matches the type of its layout binding, uses a buffer created with the usage that type needs and stays inside it; and the pool of 10 descriptors per type holds every set allocated from it.
\<close>

theorem descriptor_writes_valid:
  "k < 32 \<Longrightarrow> list_all (valid_write (2 ^ k)) init_descriptor_writes \<and> pool_sufficient"
  using pad_scene_bounds [of k] by (simp add: init_descriptor_writes_def frame_writes_def valid_write_def FRAME_OVERLAP_def upt_rec
      buffer_of_def camBufferBinding_def sceneBufferBinding_def objectBufferBinding_def
      unat_scene_param_buffer_size sizeof_GPUSceneData_def sizeof_GPUCameraData_def sizeof_GPUObjectData_def
      MAX_OBJECTS_NUM_def pool_sufficient_def descriptors_needed_def allocated_sets_def descriptor_pool_sizes_def
      textureBinding_def)

theorem descriptor_writes_valid_witness:
  "list_all (valid_write (2 ^ 8)) init_descriptor_writes \<and> pool_sufficient"
  by (rule descriptor_writes_valid) simp

text \<open>
  C13: the global-set binds \<open>draw_objects\<close> records carry exactly one dynamic offset, for the one dynamic binding of the global layout; the offset \<open>pad_uniform_buffer_size(sizeof(GPUSceneData)) * frameIndex\<close>, truncated to 32 bits, is aligned to \<open>minUniformBufferOffsetAlignment\<close> and with the descriptor's range stays inside the scene buffer of \<open>init_descriptors\<close>, for both frame slots and every power-of-two alignment up to \<open>2 ^ 31\<close>.
\<close>

theorem dynamic_offsets_valid:
  "k < 32 \<Longrightarrow> in_minUboAlignment d = 2 ^ k \<Longrightarrow> frameIndex d < FRAME_OVERLAP \<Longrightarrow>
   draw_objects d ssbo rs = Inr (ssbo', cmds) \<Longrightarrow> list_all (set0_binds_valid (2 ^ k) (frameIndex d)) cmds"
  by (auto simp: draw_objects_def rbind_eq_Inr intro: draw_loop_set0 global_bind_uniform_offset)

theorem dynamic_offsets_valid_witness:
  "\<exists>ssbo' cmds. draw_objects demo_input [0] [demo_object] = Inr (ssbo', cmds) \<and>
     list_all (set0_binds_valid (2 ^ 8) 1) cmds"
  using dynamic_offsets_valid [of 8 demo_input "[0]" "[demo_object]"] draw_objects_one_triangle
  by (simp add: demo_input_def FRAME_OVERLAP_def)

text \<open>
  C26: the texture descriptor \<open>init_scene\<close> writes is valid exactly when \<open>load_mipmap_texture\<close> stored the texture: otherwise \<open>_loadedTextures["empire_diffuse"]\<close> default-constructs an entry and the write carries a null image view.
\<close>

theorem texture_descriptor_null_view:
  "valid_write a (init_scene_texture_write (store_loaded_texture loaded view Map.empty)) \<longleftrightarrow> loaded"
  by (simp add: valid_write_def init_scene_texture_write_def store_loaded_texture_def map_index_def textureBinding_def)

theorem texture_descriptor_null_view_witness:
  "valid_write 256 (init_scene_texture_write (store_loaded_texture True 7 Map.empty)) \<and>
   \<not> valid_write 256 (init_scene_texture_write (store_loaded_texture False 7 Map.empty))"
  using texture_descriptor_null_view [of 256 True 7] texture_descriptor_null_view [of 256 False 7] by simp

end
