(* ===== verification/RunLoop.thy ===== *)
theory RunLoop
  imports FrameRing
begin

text \<open>
  The main loop \<open>VulkanEngine::run\<close> of src/src/vk_engine.cpp: each iteration drains the
  SDL event queue, setting \<open>bQuit\<close> on \<open>SDL_QUIT\<close>, starts an ImGui frame and calls
  \<open>draw()\<close>; the loop ends when \<open>bQuit\<close> is set after an iteration.  An iteration's input is
  its batch of queued events, the results of the Vulkan calls of its \<open>draw()\<close>, and the GPU
  operations that complete while the CPU runs it (the GPU and the presentation engine run
  asynchronously, \<open>FrameRing.gpu_step\<close>).  A run is a finite prefix of the program's
  execution: the loop function returns the quit flag and the state after the input is used
  up or the loop ended.  ImGui's frame functions and the event handling other than
  \<open>SDL_QUIT\<close> have no effect on the modelled state.
\<close>

section \<open>Events and GPU progress\<close>

text \<open>An \<open>SDL_Event\<close> by its type: \<open>SDL_QUIT\<close> or any other event.\<close>

datatype sdl_event = SDL_QUIT | SDL_OtherEvent nat

text \<open>\<open>while (SDL_PollEvent(&e) != 0) { if (e.type == SDL_QUIT) bQuit = true; ... }\<close>\<close>

definition poll_events :: "sdl_event list \<Rightarrow> bool \<Rightarrow> bool" where
  "poll_events events bQuit = fold (\<lambda>e q. if e = SDL_QUIT then True else q) events bQuit"

text \<open>
  The completion of one pending GPU operation, when its semaphore waits allow it: the
  deterministic counterpart of the three rules of \<open>gpu_step\<close>.
\<close>

fun gpu_complete :: "gpu_op \<Rightarrow> SyncState \<Rightarrow> SyncState option" where
  "gpu_complete (AcquireOp i) s =
     (if AcquireOp i \<in> set (pending s)
      then Some (s\<lparr>pending := remove1 (AcquireOp i) (pending s)\<rparr>) else None)"
| "gpu_complete (SubmitOp i) s =
     (if SubmitOp i \<in> set (pending s) \<and> AcquireOp i \<notin> set (pending s)
      then Some (map_frame i (\<lambda>f. f\<lparr>renderFence := True, presentSemaphore := presentSemaphore f - 1\<rparr>)
                   (s\<lparr>pending := remove1 (SubmitOp i) (pending s)\<rparr>))
      else None)"
| "gpu_complete (PresentOp i) s =
     (if PresentOp i \<in> set (pending s) \<and> SubmitOp i \<notin> set (pending s)
      then Some (map_frame i (\<lambda>f. f\<lparr>renderSemaphore := renderSemaphore f - 1\<rparr>)
                   (s\<lparr>pending := remove1 (PresentOp i) (pending s)\<rparr>))
      else None)"

text \<open>The operations that complete, in order; one that cannot complete yet is skipped.\<close>

definition gpu_progress :: "gpu_op list \<Rightarrow> SyncState \<Rightarrow> SyncState" where
  "gpu_progress ops s = fold (\<lambda>op s. case gpu_complete op s of Some s' \<Rightarrow> s' | None \<Rightarrow> s) ops s"

section \<open>The loop\<close>

record frame_input =
  events :: "sdl_event list"
  completed :: "gpu_op list"
  frame_env :: draw_env

text \<open>One iteration of \<open>while (!bQuit)\<close>: events, then \<open>draw()\<close>.\<close>

definition run_iteration :: "frame_input \<Rightarrow> bool \<times> SyncState \<Rightarrow> (bool \<times> SyncState) result" where
  "run_iteration inp st =
     (let bQuit = poll_events (events inp) (fst st);
          s = gpu_progress (completed inp) (snd st)
      in rbind (draw (frame_env inp) s) (\<lambda>s'. Inr (bQuit, s')))"

fun run_loop :: "frame_input list \<Rightarrow> bool \<times> SyncState \<Rightarrow> (bool \<times> SyncState) result" where
  "run_loop [] st = Inr st"
| "run_loop (inp # rest) st =
     (if fst st then Inr st else rbind (run_iteration inp st) (run_loop rest))"

section \<open>Execution lemmas\<close>

lemma gpu_complete_step: "gpu_complete op s = Some s' \<Longrightarrow> gpu_step s s'"
  using gpu_step.intros [of _ s] by (cases op) (auto split: if_splits)

lemma reachable_gpu_progress: "reachable s \<Longrightarrow> reachable (gpu_progress ops s)"
proof (induction ops arbitrary: s)
  case Nil
  then show ?case by (simp add: gpu_progress_def)
next
  case (Cons op ops)
  have "reachable (case gpu_complete op s of Some s' \<Rightarrow> s' | None \<Rightarrow> s)"
    using Cons.prems by (auto split: option.split dest: gpu_complete_step intro: reachable.gpu)
  with Cons.IH show ?case by (simp add: gpu_progress_def)
qed

lemma run_iteration_reachable:
  "reachable (snd st) \<Longrightarrow> run_iteration inp st = Inr st' \<Longrightarrow> reachable (snd st')"
  by (auto simp: run_iteration_def Let_def rbind_eq_Inr intro: reachable.cpu reachable_gpu_progress)

lemma poll_events_quit: "SDL_QUIT \<in> set evs \<Longrightarrow> poll_events evs q"
proof -
  have "fold (\<lambda>e q. if e = SDL_QUIT then True else q) evs True" for evs
    by (induction evs) simp_all
  moreover have "SDL_QUIT \<in> set evs \<Longrightarrow> fold (\<lambda>e q. if e = SDL_QUIT then True else q) evs q" for q
  proof (induction evs arbitrary: q)
    case Nil then show ?case by simp
  next
    case (Cons e evs)
    then show ?case using calculation by (cases "e = SDL_QUIT") auto
  qed
  ultimately show "SDL_QUIT \<in> set evs \<Longrightarrow> poll_events evs q" by (simp add: poll_events_def)
qed

lemma poll_events_no_quit: "SDL_QUIT \<notin> set evs \<Longrightarrow> poll_events evs q = q"
  by (induction evs arbitrary: q) (auto simp: poll_events_def)

section \<open>Properties\<close>

text \<open>
  Composition of the main loop with the frame ring: every state the loop of
  \<open>VulkanEngine::run\<close> reaches from a reachable synchronisation state, whatever the events,
  the results of the Vulkan calls and the GPU completions, is reachable in the frame-ring
  model, so that the frame-ring invariants and the safety claims proved of it hold of every
  run of the program.
\<close>
theorem run_loop_reachable:
  "reachable s \<Longrightarrow> run_loop inputs (q, s) = Inr (q', s') \<Longrightarrow> reachable s'"
proof (induction inputs arbitrary: q s)
  case Nil
  then show ?case by simp
next
  case (Cons inp rest)
  show ?case
  proof (cases q)
    case True
    with Cons.prems show ?thesis by simp
  next
    case False
    with Cons.prems(2) obtain q1 s1 where it: "run_iteration inp (q, s) = Inr (q1, s1)"
      and rest: "run_loop rest (q1, s1) = Inr (q', s')"
      by (auto simp: rbind_eq_Inr)
    from run_iteration_reachable [of "(q, s)", OF _ it] Cons.prems(1) have "reachable s1" by simp
    with Cons.IH rest show ?thesis by blast
  qed
qed

theorem run_loop_reachable_witness:
  "run_loop [\<lparr>events = [SDL_OtherEvent 1], completed = [], frame_env = ok_env\<rparr>,
             \<lparr>events = [SDL_QUIT], completed = [], frame_env = ok_env\<rparr>] (False, sync_init (2 ^ 8) 3) =
     Inr (True, frame_done 1 (frame_done 0 (sync_init (2 ^ 8) 3))) \<and>
   reachable (frame_done 1 (frame_done 0 (sync_init (2 ^ 8) 3)))"
proof -
  define s1 where "s1 = frame_done 0 (sync_init (2 ^ 8) 3)"
  have d0: "draw ok_env (sync_init 256 3) = Inr s1"
    by (simp add: s1_def draw_ok_env sync_init_def get_current_frame_def FRAME_OVERLAP_def)
  have "frameNumber s1 = 1" and "framebuffer_count s1 = 3" and "renderFence (frames s1 ! 1)"
    by (simp_all add: s1_def frame_done_def sync_op_defs sync_init_def FRAME_OVERLAP_def Let_def
                      map_frame_def numeral_2_eq_2)
  then have d1: "draw ok_env s1 = Inr (frame_done 1 s1)"
    by (simp add: draw_ok_env get_current_frame_def FRAME_OVERLAP_def)
  have r: "run_loop [\<lparr>events = [SDL_OtherEvent 1], completed = [], frame_env = ok_env\<rparr>,
             \<lparr>events = [SDL_QUIT], completed = [], frame_env = ok_env\<rparr>] (False, sync_init (2 ^ 8) 3) =
     Inr (True, frame_done 1 s1)"
    by (simp add: run_iteration_def poll_events_def gpu_progress_def d0 d1)
  have "reachable (sync_init (2 ^ 8) 3)" by (rule reachable.init) simp
  with r show ?thesis using run_loop_reachable unfolding s1_def by blast
qed

text \<open>
  C15: ordering of quit and draw in \<open>VulkanEngine::run\<close>: after the first iteration whose
  events contain \<open>SDL_QUIT\<close>, the loop stops, but that iteration still drains the GPU
  completions and records and submits one more frame with \<open>draw()\<close> before the loop ends;
  the inputs after it are never used.
\<close>
theorem run_loop_quit:
  assumes "\<not> list_ex (\<lambda>i. SDL_QUIT \<in> set (events i)) before" and "SDL_QUIT \<in> set (events inp)"
  shows "run_loop (before @ inp # after) (False, s) =
         rbind (run_loop before (False, s)) (\<lambda>(q, s1).
         rbind (draw (frame_env inp) (gpu_progress (completed inp) s1)) (\<lambda>s2. Inr (True, s2)))"
  using assms(1)
proof (induction before arbitrary: s)
  case Nil
  then show ?case
    using assms(2) poll_events_quit by (cases after) (auto simp: run_iteration_def rbind_def split: sum.split)
next
  case (Cons b before)
  then show ?case
    by (auto simp: run_iteration_def poll_events_no_quit rbind_def split: sum.split)
qed

theorem run_loop_quit_witness:
  "run_loop [\<lparr>events = [SDL_OtherEvent 1], completed = [], frame_env = ok_env\<rparr>,
             \<lparr>events = [SDL_OtherEvent 2, SDL_QUIT], completed = [AcquireOp 0], frame_env = ok_env\<rparr>,
             \<lparr>events = [], completed = [], frame_env = ok_env\<rparr>] (False, sync_init (2 ^ 8) 3) =
   rbind (run_loop [\<lparr>events = [SDL_OtherEvent 1], completed = [], frame_env = ok_env\<rparr>] (False, sync_init (2 ^ 8) 3))
     (\<lambda>(q, s1). rbind (draw ok_env (gpu_progress [AcquireOp 0] s1)) (\<lambda>s2. Inr (True, s2)))"
  using run_loop_quit [of "[\<lparr>events = [SDL_OtherEvent 1], completed = [], frame_env = ok_env\<rparr>]"
      "\<lparr>events = [SDL_OtherEvent 2, SDL_QUIT], completed = [AcquireOp 0], frame_env = ok_env\<rparr>"
      "[\<lparr>events = [], completed = [], frame_env = ok_env\<rparr>]" "sync_init (2 ^ 8) 3"]
  by simp


end
