(* ===== verification/TextureLoad.thy ===== *)
theory TextureLoad
  imports Lifetime
begin

text \<open>
  The single-level texture path: \<open>VulkanEngine::load_texture\<close> (src/src/vk_engine.cpp) and
  the overload of \<open>vkutil::load_image_from_file\<close> without \<open>mipLevels\<close>
  (src/src/vk_texture.cpp), in the object-lifetime model of the Lifetime theory.  Unlike the
  mipmapped path, which records its copies on one-shot command buffers and waits with
  \<open>vkQueueWaitIdle\<close>, this overload records the layout transitions and the copy through
  \<open>VulkanEngine::immediate_submit\<close>, whose fence wait is not checked, and then destroys the
  staging buffer.  Nothing in \<open>init\<close> calls \<open>load_texture\<close>; the commands it records are
  \<open>Texture.load_image_single_cmds\<close>.
\<close>

section \<open>Operations\<close>

text \<open>
  \<open>load_image_from_file\<close> (single level): \<open>false\<close> when \<open>stbi_load\<close> fails; otherwise the
  staging buffer (\<open>create_buffer\<close> with \<open>immediate_destroy\<close>), the image
  (\<open>vmaCreateImage\<close> unchecked) with its destructor, the upload through
  \<open>immediate_submit\<close>, which reads the staging buffer and writes the image, and the staging
  buffer destroyed right after it.
\<close>

definition load_image_from_file_single :: "init_env \<Rightarrow> Engine \<Rightarrow> (bool \<times> Engine) result" where
  "load_image_from_file_single env e =
     (if \<not> texture_loads env then Inr (False, e) else
      rbind (create_buffer env True TextureStagingBuffer e) (\<lambda>e.
      let e = register [TextureImage] (create TextureImage e) in
      rbind (immediate_submit env [Buffer TextureStagingBuffer, TextureImage] e) (\<lambda>e.
      Inr (True, destroy (Buffer TextureStagingBuffer) e))))"

text \<open>
  \<open>load_texture\<close>: on failure only a message; otherwise the image view
  (\<open>vkCreateImageView\<close> unchecked) with its destructor.  The entry stored in
  \<open>_loadedTextures\<close> is the one of \<open>Descriptors.store_loaded_texture\<close>.
\<close>

definition load_texture :: "init_env \<Rightarrow> Engine \<Rightarrow> Engine result" where
  "load_texture env e =
     rbind (load_image_from_file_single env e) (\<lambda>(ok, e).
     if \<not> ok then Inr e else Inr (register [TextureImageView] (create TextureImageView e)))"

section \<open>Execution lemmas\<close>

lemma load_image_from_file_single_grows:
  "load_image_from_file_single env e = Inr (ok, e') \<Longrightarrow>
   ok = texture_loads env \<and>
   grows e e' (if ok then [[TextureImage]] else [])
     (if ok then [Buffer TextureStagingBuffer, TextureImage] else [])
     (if ok then [Buffer TextureStagingBuffer] else [])
     (if ok \<and> vk env WaitForFences \<noteq> VK_SUCCESS then [Buffer TextureStagingBuffer] else [])"
  by (auto simp: load_image_from_file_single_def create_buffer_def immediate_submit_def grows_simps
      split: if_split_asm)

lemma load_texture_cases:
  assumes "load_texture env e = Inr e'"
  obtains ok e1 where "load_image_from_file_single env e = Inr (ok, e1)"
    and "e' = (if ok then register [TextureImageView] (create TextureImageView e1) else e1)"
  using assms by (cases "load_image_from_file_single env e")
    (auto simp: load_texture_def split: if_split_asm)

section \<open>Properties\<close>

text \<open>
  C16: the effect of \<open>load_texture\<close>: when the file loads it creates the staging buffer, the
  image and the view, pushes the destructors of the image and then of the view, and destroys
  the staging buffer; because \<open>immediate_submit\<close> ignores the result of its fence wait, the
  staging buffer is destroyed while the upload reading it may still run exactly when that
  wait does not succeed.  When the file does not load nothing changes.
\<close>

theorem load_texture_effect:
  "load_texture env e = Inr e' \<Longrightarrow>
   grows e e' (if texture_loads env then [[TextureImage], [TextureImageView]] else [])
     (if texture_loads env then [Buffer TextureStagingBuffer, TextureImage, TextureImageView] else [])
     (if texture_loads env then [Buffer TextureStagingBuffer] else [])
     (if texture_loads env \<and> vk env WaitForFences \<noteq> VK_SUCCESS then [Buffer TextureStagingBuffer] else [])"
  by (erule load_texture_cases) (auto dest: load_image_from_file_single_grows simp: grows_simps)

theorem load_texture_effect_witness:
  "\<exists>e'. load_texture timeout_env empty_engine = Inr e' \<and>
     destroyed_in_use e' = [Buffer TextureStagingBuffer] \<and>
     deletors (mainDeletionQueue e') = [[TextureImage], [TextureImageView]]"
proof -
  obtain e' where run: "load_texture timeout_env empty_engine = Inr e'"
    by (simp add: load_texture_def load_image_from_file_single_def create_buffer_def immediate_submit_def
        timeout_env_def ok_init_env_def vk_check_def grows_simps vk_result_codes)
  then show ?thesis
    using load_texture_effect [OF run]
    by (simp add: grows_def empty_engine_def timeout_env_def ok_init_env_def vk_result_codes)
qed

end
