(* ===== verification/SceneSetup.thy ===== *)
theory SceneSetup
  imports DrawObjects
begin

text \<open>
  How \<open>VulkanEngine::init\<close> fills the scene registry and what \<open>draw()\<close> then records for
  it (src/src/vk_engine.cpp): \<open>init_pipelines\<close> registers the material
  \<open>"texturedmesh"\<close>, \<open>load_meshes\<close> loads the OBJ file into a \<open>Mesh\<close>, uploads it with
  \<open>upload_mesh\<close> and stores a copy under \<open>"empire"\<close>, and \<open>init_scene\<close> pushes one
  renderable that points at both and writes the allocated texture set into the material
  through the pointer \<open>get_material\<close> returns.  The objects' lifetimes are in Lifetime, the
  texture descriptor write in Descriptors; here are the registry contents, the sizes of the
  buffers \<open>upload_mesh\<close> asks for, and the commands \<open>draw_objects\<close> records for the
  scene.
\<close>

section \<open>Meshes and their upload\<close>

text \<open>
  \<open>sizeof(Vertex)\<close> (src/src/vk_mesh.h): position, normal and colour are \<open>glm::vec3\<close>
  (three floats, 12 bytes), \<open>uv\<close> a \<open>glm::vec2\<close> (8 bytes); all 4-byte aligned, so no
  padding.
\<close>

definition sizeof_Vertex :: size_t where "sizeof_Vertex = 44"

text \<open>
  \<open>Mesh::load_from_obj\<close>: its body is not in the repository; after the specification's
  mesh loader it returns the file's vertex list or reports failure (\<open>None\<close>), and then
  leaves the mesh unchanged.
\<close>

definition load_from_obj :: "'v list option \<Rightarrow> 'v Mesh \<Rightarrow> bool \<times> 'v Mesh" where
  "load_from_obj obj m = (case obj of None \<Rightarrow> (False, m) | Some vs \<Rightarrow> (True, m\<lparr>vertices := vs\<rparr>))"

text \<open>The usages \<open>create_buffer\<close> is asked for in \<open>upload_mesh\<close>.\<close>

datatype buffer_usage = TRANSFER_SRC | TRANSFER_DST | VERTEX_BUFFER

record buffer_create =
  bc_size :: size_t
  bc_usage :: "buffer_usage list"

text \<open>
  \<open>upload_mesh(Mesh& mesh)\<close>: \<open>bufferSize = mesh._vertices.size() * sizeof(Vertex)\<close> in
  \<open>size_t\<close>, a staging and a vertex buffer of that size, a copy region of that size, and
  \<open>mesh._vertexBuffer\<close> set through the reference to the vertex buffer \<open>vb\<close> that
  \<open>create_buffer\<close> returns.
\<close>

definition upload_mesh_buffers :: "handle \<Rightarrow> 'v Mesh \<Rightarrow> 'v Mesh \<times> buffer_create list \<times> size_t" where
  "upload_mesh_buffers vb m =
     (let bufferSize = of_nat (length (vertices m)) * sizeof_Vertex
      in (m\<lparr>vertexBuffer := vb\<rparr>,
          [\<lparr>bc_size = bufferSize, bc_usage = [TRANSFER_SRC]\<rparr>,
           \<lparr>bc_size = bufferSize, bc_usage = [TRANSFER_DST, VERTEX_BUFFER]\<rparr>],
          bufferSize))"

text \<open>
  \<open>load_meshes\<close>: a default-constructed \<open>Mesh _lostEmpire\<close> (no vertices; its buffer
  handle is indeterminate, null here), \<open>load_from_obj\<close> with its result ignored,
  \<open>upload_mesh\<close>, and \<open>_objectsSet._meshes["empire"] = _lostEmpire\<close>, a copy.
\<close>

definition load_meshes_scene ::
  "'v list option \<Rightarrow> handle \<Rightarrow> ('v, 'm) RenderObjectsSets \<Rightarrow>
   ('v, 'm) RenderObjectsSets \<times> buffer_create list \<times> size_t" where
  "load_meshes_scene obj vb r =
     (let lostEmpire = snd (load_from_obj obj \<lparr>vertices = [], vertexBuffer = VK_NULL_HANDLE\<rparr>);
          (lostEmpire, creates, copy) = upload_mesh_buffers vb lostEmpire
      in (r\<lparr>meshes := (meshes r)(''empire'' \<mapsto> lostEmpire)\<rparr>, creates, copy))"

text \<open>
  The valid-usage rules on these calls: \<open>VkBufferCreateInfo::size\<close> and
  \<open>VkBufferCopy::size\<close> must be greater than 0.
\<close>

definition valid_buffer_create :: "buffer_create \<Rightarrow> bool" where
  "valid_buffer_create bc \<longleftrightarrow> 0 < bc_size bc"

definition valid_copy_size :: "size_t \<Rightarrow> bool" where
  "valid_copy_size s \<longleftrightarrow> 0 < s"

section \<open>Materials and the renderable\<close>

text \<open>The registry call of \<open>init_pipelines\<close>: \<open>create_material(texPipeline, texturePipelineLayout, "texturedmesh")\<close>.\<close>

definition init_pipelines_scene ::
  "handle \<Rightarrow> handle \<Rightarrow> ('v, 'm) RenderObjectsSets \<Rightarrow> ('v, 'm) RenderObjectsSets" where
  "init_pipelines_scene texPipeline texturePipelineLayout r =
     snd (create_material texPipeline texturePipelineLayout ''texturedmesh'' r)"

text \<open>\<open>p->textureSet = s\<close> through a \<open>Material*\<close>: a crash on \<open>nullptr\<close>.\<close>

definition set_texture_set :: "ptr \<Rightarrow> handle \<Rightarrow> ('v, 'm) RenderObjectsSets \<Rightarrow> ('v, 'm) RenderObjectsSets result" where
  "set_texture_set p s r =
     rbind (deref (materials r) p) (\<lambda>mat.
     Inr (r\<lparr>materials := (materials r)(the p \<mapsto> mat\<lparr>textureSet := s\<rparr>)\<rparr>))"

text \<open>
  The registry part of \<open>init_scene\<close>: the renderable \<open>map\<close> with the pointers
  \<open>get_mesh("empire")\<close> and \<open>get_material("texturedmesh")\<close> and the transform, pushed
  onto \<open>_renderables\<close>; then \<open>texturedMat = get_material("texturedmesh")\<close> and
  \<open>vkAllocateDescriptorSets(..., &texturedMat->textureSet)\<close>, which writes the allocated
  set \<open>s\<close> into the material.
\<close>

definition init_scene_registry ::
  "'m \<Rightarrow> handle \<Rightarrow> ('v, 'm) RenderObjectsSets \<Rightarrow> ('v, 'm) RenderObjectsSets result" where
  "init_scene_registry transform s r =
     (let map = \<lparr>mesh = get_mesh ''empire'' r, material = get_material ''texturedmesh'' r,
                 transformMatrix = transform\<rparr>;
          r = r\<lparr>renderables := renderables r @ [map]\<rparr>;
          texturedMat = get_material ''texturedmesh'' r
      in set_texture_set texturedMat s r)"

section \<open>The scene of init and its draw\<close>

text \<open>
  What the outside world gives the scene set-up: the pipeline and layout
  \<open>init_pipelines\<close> creates, the OBJ loader's result, the vertex buffer of
  \<open>upload_mesh\<close>, the descriptor set \<open>vkAllocateDescriptorSets\<close> returns, and the
  renderable's transform.
\<close>

record ('v, 'm) scene_env =
  texPipeline :: handle
  texturePipelineLayout :: handle
  obj_file :: "'v list option"
  vertex_buffer :: handle
  texture_set :: handle
  scene_transform :: 'm

text \<open>\<open>RenderObjectsSets _objectsSet\<close>, default-constructed: no renderables, empty maps.\<close>

definition empty_objects_set :: "('v, 'm) RenderObjectsSets" where
  "empty_objects_set = \<lparr>renderables = [], materials = Map.empty, meshes = Map.empty\<rparr>"

text \<open>The registry calls of \<open>init\<close>, in the order \<open>init\<close> makes them.\<close>

definition scene_init :: "('v, 'm) scene_env \<Rightarrow> ('v, 'm) RenderObjectsSets \<Rightarrow> ('v, 'm) RenderObjectsSets result" where
  "scene_init env r =
     (let r = init_pipelines_scene (texPipeline env) (texturePipelineLayout env) r;
          r = fst (load_meshes_scene (obj_file env) (vertex_buffer env) r)
      in init_scene_registry (scene_transform env) (texture_set env) r)"

text \<open>
  \<open>draw()\<close> calls \<open>draw_objects(cmd, _objectsSet._renderables.data(), size)\<close>, whose
  pointers lead into \<open>_objectsSet\<close>'s maps.
\<close>

definition scene_draw_input :: "('v, 'm) RenderObjectsSets \<Rightarrow> ('v, 'm) draw_input \<Rightarrow> ('v, 'm) draw_input" where
  "scene_draw_input r d = d\<lparr>in_materials := materials r, in_meshes := meshes r\<rparr>"

text \<open>The vertices \<open>load_from_obj\<close> leaves in a fresh mesh.\<close>

definition obj_vertices :: "'v list option \<Rightarrow> 'v list" where
  "obj_vertices obj = (case obj of None \<Rightarrow> [] | Some vs \<Rightarrow> vs)"

text \<open>The material \<open>init\<close> leaves under \<open>"texturedmesh"\<close>.\<close>

definition scene_material :: "('v, 'm) scene_env \<Rightarrow> Material" where
  "scene_material env =
     \<lparr>textureSet = texture_set env, pipeline = texPipeline env, pipelineLayout = texturePipelineLayout env\<rparr>"

text \<open>A scene for the witnesses: a three-vertex OBJ file and small handles.\<close>

definition demo_scene_env :: "(nat, nat) scene_env" where
  "demo_scene_env =
     \<lparr>texPipeline = 1, texturePipelineLayout = 2, obj_file = Some [0, 0, 0], vertex_buffer = 5,
      texture_set = 7, scene_transform = 0\<rparr>"

section \<open>Execution lemmas\<close>

lemma load_meshes_scene_result:
  "load_meshes_scene obj vb r =
     (r\<lparr>meshes := (meshes r)(''empire'' \<mapsto> \<lparr>vertices = obj_vertices obj, vertexBuffer = vb\<rparr>)\<rparr>,
      [\<lparr>bc_size = of_nat (length (obj_vertices obj)) * sizeof_Vertex, bc_usage = [TRANSFER_SRC]\<rparr>,
       \<lparr>bc_size = of_nat (length (obj_vertices obj)) * sizeof_Vertex, bc_usage = [TRANSFER_DST, VERTEX_BUFFER]\<rparr>],
      of_nat (length (obj_vertices obj)) * sizeof_Vertex)"
  by (cases obj) (simp_all add: load_meshes_scene_def load_from_obj_def upload_mesh_buffers_def obj_vertices_def Let_def)

lemma scene_init_result:
  "scene_init env empty_objects_set =
     Inr \<lparr>renderables = [\<lparr>mesh = Some ''empire'', material = Some ''texturedmesh'',
                           transformMatrix = scene_transform env\<rparr>],
          materials = [''texturedmesh'' \<mapsto> scene_material env],
          meshes = [''empire'' \<mapsto> \<lparr>vertices = obj_vertices (obj_file env), vertexBuffer = vertex_buffer env\<rparr>]\<rparr>"
  by (simp add: scene_init_def init_pipelines_scene_def create_material_def load_meshes_scene_result
      init_scene_registry_def get_mesh_def get_material_def set_texture_set_def empty_objects_set_def
      scene_material_def VK_NULL_HANDLE_def)

lemma init_scene_registry_no_material:
  "''texturedmesh'' \<notin> dom (materials r) \<Longrightarrow> init_scene_registry t s r = Inl NullDeref"
  by (simp add: init_scene_registry_def set_texture_set_def get_material_def Let_def domIff rbind_def)

lemma buffer_size_pos:
  assumes "44 * n < 2 ^ 64"
  shows "0 < (of_nat n :: size_t) * sizeof_Vertex \<longleftrightarrow> n \<noteq> 0"
proof -
  have "unat ((of_nat n :: size_t) * sizeof_Vertex) = n * 44"
    using assms by (simp add: sizeof_Vertex_def unat_mult_lem [THEN iffD1] unat_of_nat take_bit_nat_eq_self)
  moreover have "0 < w \<longleftrightarrow> 0 < unat w" for w :: size_t
    by (simp add: unat_gt_0 word_neq_0_conv)
  ultimately show ?thesis by simp
qed

lemma scene_init_draw_objects:
  assumes "scene_init env empty_objects_set = Inr r" and "ssbo = x # xs"
  shows "draw_objects (scene_draw_input r d) ssbo (renderables r) =
       Inr (ssbo[0 := model d],
            bind_material d (scene_material env) @
            [CmdPushConstants (texturePipelineLayout env) (mesh_matrix d),
             CmdBindVertexBuffers (vertex_buffer env),
             CmdDraw (of_nat (length (obj_vertices (obj_file env)))) 1 0 0])"
  using assms
  by (auto simp: scene_init_result draw_objects_def scene_draw_input_def draw_object_def
      list_set_def bind_material_def scene_material_def uniform_offset_def)

section \<open>Properties\<close>

text \<open>
  C17: composition of the registry set-up of \<open>init\<close> with the draw loop: in the order
  \<open>init\<close> makes the calls, the registry holds one renderable whose mesh and material
  pointers are not null, and \<open>draw_objects\<close> on it, with an object buffer of at least one
  entry, succeeds and records the material's pipeline and descriptor sets (the texture set
  \<open>init_scene\<close> allocated included), the push constants in the material's layout, the
  uploaded vertex buffer and one draw of all the OBJ file's vertices.
\<close>

theorem scene_init_draw:
  assumes "ssbo \<noteq> []"
  shows "\<exists>r. scene_init env empty_objects_set = Inr r \<and>
     draw_objects (scene_draw_input r d) ssbo (renderables r) =
       Inr (ssbo[0 := model d],
            bind_material d (scene_material env) @
            [CmdPushConstants (texturePipelineLayout env) (mesh_matrix d),
             CmdBindVertexBuffers (vertex_buffer env),
             CmdDraw (of_nat (length (obj_vertices (obj_file env)))) 1 0 0])"
proof -
  obtain x xs where "ssbo = x # xs" using assms by (cases ssbo) auto
  then show ?thesis using scene_init_draw_objects [OF scene_init_result, where d = d] scene_init_result by blast
qed

theorem scene_init_draw_witness:
  "\<exists>r. scene_init demo_scene_env empty_objects_set = Inr r \<and>
     draw_objects (scene_draw_input r demo_input) [0] (renderables r) =
       Inr ([0] [0 := model demo_input],
            bind_material demo_input (scene_material demo_scene_env) @
            [CmdPushConstants (texturePipelineLayout demo_scene_env) (mesh_matrix demo_input),
             CmdBindVertexBuffers (vertex_buffer demo_scene_env),
             CmdDraw (of_nat (length (obj_vertices (obj_file demo_scene_env)))) 1 0 0])"
  by (rule scene_init_draw) simp

text \<open>
  C19: \<open>load_meshes\<close> ignores the result of \<open>load_from_obj\<close>: for an OBJ file that fails
  to load or has no vertices, \<open>upload_mesh\<close> asks for a staging buffer, a vertex buffer and
  a copy of size 0, which the Vulkan valid-usage rules forbid; for any other file (of fewer
  than \<open>2 ^ 64 / 44\<close> vertices) all three are valid.
\<close>

theorem load_meshes_zero_size:
  assumes "44 * length (obj_vertices obj) < 2 ^ 64"
    and "load_meshes_scene obj vb r = (r', creates, copy)"
  shows "(list_all valid_buffer_create creates \<and> valid_copy_size copy) \<longleftrightarrow> obj_vertices obj \<noteq> []"
  using assms(2) buffer_size_pos [OF assms(1)]
  by (auto simp: load_meshes_scene_result valid_buffer_create_def valid_copy_size_def)

theorem load_meshes_zero_size_witness:
  "\<not> (list_all valid_buffer_create (fst (snd (load_meshes_scene (None :: nat list option) 5
          (empty_objects_set :: (nat, nat) RenderObjectsSets)))) \<and>
       valid_copy_size (snd (snd (load_meshes_scene (None :: nat list option) 5
          (empty_objects_set :: (nat, nat) RenderObjectsSets)))))"
proof -
  obtain r' cs c where l: "load_meshes_scene (None :: nat list option) 5
      (empty_objects_set :: (nat, nat) RenderObjectsSets) = (r', cs, c)"
    by (cases "load_meshes_scene (None :: nat list option) 5 (empty_objects_set :: (nat, nat) RenderObjectsSets)") auto
  have "44 * length (obj_vertices (None :: nat list option)) < 2 ^ 64" by (simp add: obj_vertices_def)
  from load_meshes_zero_size [OF this l] l show ?thesis by (simp add: obj_vertices_def)
qed

end
