(* ===== verification/PipelineLayouts.thy ===== *)
theory PipelineLayouts
  imports SceneSetup Descriptors
begin

text \<open>
  The pipeline layouts of \<open>VulkanEngine::init_pipelines\<close> (src/src/vk_engine.cpp) and
  their use by \<open>draw_objects\<close>: the push-constant range, the set layouts of the mesh and the
  textured pipeline layout, and which layout every descriptor set is allocated with
  (\<open>init_descriptors\<close>, \<open>init_scene\<close>).  The Vulkan valid-usage rules connect them: a
  \<open>VkPipelineLayoutCreateInfo\<close> within the limits every device supports, a set bound at
  index \<open>n\<close> allocated with the layout's \<open>n\<close>-th set layout, and pushed bytes covered by a
  push-constant range of the layout for the stages given.
\<close>

section \<open>Layouts\<close>

text \<open>The set layouts \<open>init_descriptors\<close> creates: \<open>_globalSetLayout\<close>, \<open>_objectSetLayout\<close>, \<open>_singleTextureSetLayout\<close>.\<close>

datatype set_layout_handle = GlobalSetLayout | ObjectSetLayout | SingleTextureSetLayout

text \<open>
  \<open>vkAllocateDescriptorSets\<close> with \<open>descriptorSet_allocate_info(_descriptorPool, &layout)\<close>:
  each frame's global set with \<open>_globalSetLayout\<close>, its object set with
  \<open>_objectSetLayout\<close>, the material's texture set with \<open>_singleTextureSetLayout\<close>.
\<close>

fun layout_of_set :: "descriptor_set \<Rightarrow> set_layout_handle" where
  "layout_of_set (GlobalSet _) = GlobalSetLayout"
| "layout_of_set (ObjectSet _) = ObjectSetLayout"
| "layout_of_set TextureSet = SingleTextureSetLayout"

record push_constant_range =
  pc_offset :: nat
  pc_size :: nat
  pc_stageFlags :: "shader_stage list"

text \<open>\<open>sizeof(MeshPushConstants)\<close> (src/src/vk_mesh.h): a \<open>glm::vec4\<close> (16 bytes) and a \<open>glm::mat4\<close> (64 bytes).\<close>

definition sizeof_MeshPushConstants :: nat where "sizeof_MeshPushConstants = 80"

text \<open>\<open>push_constant\<close>: offset 0, \<open>sizeof(MeshPushConstants)\<close> bytes, vertex stage only.\<close>

definition push_constant :: push_constant_range where
  "push_constant = \<lparr>pc_offset = 0, pc_size = sizeof_MeshPushConstants, pc_stageFlags = [VK_SHADER_STAGE_VERTEX_BIT]\<rparr>"

record pipeline_layout_info =
  setLayouts :: "set_layout_handle list"
  pushConstantRanges :: "push_constant_range list"

text \<open>\<open>mesh_pipeline_layout_info\<close>: the push-constant range and \<open>descpSetLayouts{_globalSetLayout, _objectSetLayout}\<close>.\<close>

definition mesh_pipeline_layout_info :: pipeline_layout_info where
  "mesh_pipeline_layout_info =
     \<lparr>setLayouts = [GlobalSetLayout, ObjectSetLayout], pushConstantRanges = [push_constant]\<rparr>"

text \<open>
  \<open>texture_pipeline_layout_info\<close>: a copy of the mesh layout's info after
  \<open>descpSetLayouts.push_back(_singleTextureSetLayout)\<close>, with the set layouts re-pointed at
  the grown vector.
\<close>

definition texture_pipeline_layout_info :: pipeline_layout_info where
  "texture_pipeline_layout_info =
     mesh_pipeline_layout_info\<lparr>setLayouts := setLayouts mesh_pipeline_layout_info @ [SingleTextureSetLayout]\<rparr>"

text \<open>The range \<open>draw_objects\<close> pushes: \<open>vkCmdPushConstants(cmd, layout, VK_SHADER_STAGE_VERTEX_BIT, 0, sizeof(MeshPushConstants), &constants)\<close>.\<close>

definition draw_push_range :: push_constant_range where
  "draw_push_range = \<lparr>pc_offset = 0, pc_size = sizeof_MeshPushConstants, pc_stageFlags = [VK_SHADER_STAGE_VERTEX_BIT]\<rparr>"

section \<open>Valid-usage rules\<close>

text \<open>
  The limits every Vulkan device supports at least: \<open>maxPushConstantsSize\<close> 128 bytes,
  \<open>maxBoundDescriptorSets\<close> 4.
\<close>

definition minMaxPushConstantsSize :: nat where "minMaxPushConstantsSize = 128"

definition minMaxBoundDescriptorSets :: nat where "minMaxBoundDescriptorSets = 4"

text \<open>\<open>VkPushConstantRange\<close>: offset and size multiples of 4 within the limit, size positive, some stage.\<close>

definition valid_push_range :: "push_constant_range \<Rightarrow> bool" where
  "valid_push_range r \<longleftrightarrow>
     pc_offset r mod 4 = 0 \<and> pc_offset r < minMaxPushConstantsSize \<and>
     0 < pc_size r \<and> pc_size r mod 4 = 0 \<and> pc_size r \<le> minMaxPushConstantsSize - pc_offset r \<and>
     pc_stageFlags r \<noteq> []"

text \<open>
  \<open>VkPipelineLayoutCreateInfo\<close>: at most \<open>maxBoundDescriptorSets\<close> set layouts, valid ranges,
  and no stage in two ranges.
\<close>

definition valid_pipeline_layout_info :: "pipeline_layout_info \<Rightarrow> bool" where
  "valid_pipeline_layout_info info \<longleftrightarrow>
     length (setLayouts info) \<le> minMaxBoundDescriptorSets \<and>
     list_all valid_push_range (pushConstantRanges info) \<and>
     distinct (concat (map pc_stageFlags (pushConstantRanges info)))"

definition ranges_overlap :: "push_constant_range \<Rightarrow> push_constant_range \<Rightarrow> bool" where
  "ranges_overlap r p \<longleftrightarrow> pc_offset r < pc_offset p + pc_size p \<and> pc_offset p < pc_offset r + pc_size r"

text \<open>
  \<open>vkCmdPushConstants\<close>: every stage given has a range of the layout covering the pushed
  bytes, and every range overlapping them has only stages given.
\<close>

definition push_ok :: "pipeline_layout_info \<Rightarrow> push_constant_range \<Rightarrow> bool" where
  "push_ok info p \<longleftrightarrow>
     list_all (\<lambda>s. list_ex (\<lambda>r. pc_offset r \<le> pc_offset p \<and> pc_offset p + pc_size p \<le> pc_offset r + pc_size r \<and>
                               s \<in> set (pc_stageFlags r)) (pushConstantRanges info)) (pc_stageFlags p) \<and>
     list_all (\<lambda>r. \<not> ranges_overlap r p \<or> set (pc_stageFlags r) \<subseteq> set (pc_stageFlags p)) (pushConstantRanges info)"

text \<open>
  A recorded command against the pipeline layouts (by handle) and the descriptor sets (by
  handle): \<open>vkCmdBindDescriptorSets(layout, firstSet, 1, &set, ...)\<close> needs \<open>firstSet\<close>
  below the layout's set count and \<open>set\<close> allocated with the layout's set layout at that
  index; a push needs \<open>push_ok\<close>.
\<close>

fun cmd_compatible ::
  "(handle \<rightharpoonup> pipeline_layout_info) \<Rightarrow> (handle \<rightharpoonup> descriptor_set) \<Rightarrow> 'm vk_cmd \<Rightarrow> bool" where
  "cmd_compatible L S (CmdBindDescriptorSets lay n s offs) =
     (case (L lay, S s) of
        (Some info, Some ds) \<Rightarrow> n < length (setLayouts info) \<and> setLayouts info ! n = layout_of_set ds
      | _ \<Rightarrow> False)"
| "cmd_compatible L S (CmdPushConstants lay v) =
     (case L lay of Some info \<Rightarrow> push_ok info draw_push_range | None \<Rightarrow> False)"
| "cmd_compatible L S _ = True"

text \<open>The layouts and sets of a frame of \<open>init\<close>'s scene, by handle.\<close>

definition scene_layouts :: "('v, 'm) scene_env \<Rightarrow> handle \<rightharpoonup> pipeline_layout_info" where
  "scene_layouts env = [texturePipelineLayout env \<mapsto> texture_pipeline_layout_info]"

definition scene_sets :: "('v, 'm) scene_env \<Rightarrow> ('v, 'm) draw_input \<Rightarrow> handle \<rightharpoonup> descriptor_set" where
  "scene_sets env d =
     [globalDescriptor d \<mapsto> GlobalSet (frameIndex d), objectDescriptor d \<mapsto> ObjectSet (frameIndex d),
      texture_set env \<mapsto> TextureSet]"

section \<open>Lemmas\<close>

lemma texture_layout_valid: "valid_pipeline_layout_info texture_pipeline_layout_info"
  by (simp add: valid_pipeline_layout_info_def texture_pipeline_layout_info_def mesh_pipeline_layout_info_def
      valid_push_range_def push_constant_def sizeof_MeshPushConstants_def minMaxPushConstantsSize_def
      minMaxBoundDescriptorSets_def)

lemma texture_layout_push_ok: "push_ok texture_pipeline_layout_info draw_push_range"
  by (simp add: push_ok_def texture_pipeline_layout_info_def mesh_pipeline_layout_info_def push_constant_def
      draw_push_range_def ranges_overlap_def)

lemma mesh_layout_rejects_texture_set:
  "\<not> cmd_compatible [lay \<mapsto> mesh_pipeline_layout_info] [s \<mapsto> TextureSet] (CmdBindDescriptorSets lay 2 s offs)"
  by (simp add: mesh_pipeline_layout_info_def)

section \<open>Properties\<close>

text \<open>
  C18: the pipeline layout of the textured material is valid on every device, and with the
  handles of a frame distinct, every descriptor-set bind and push that \<open>draw_objects\<close>
  records for the scene \<open>init\<close> sets up is compatible with it: the global, object and
  texture sets are bound at the indices of the set layouts they were allocated with, and
  the pushed matrix lies in the vertex-stage push-constant range.
\<close>

theorem scene_draw_layout_compatible:
  assumes "ssbo \<noteq> []" and "distinct [globalDescriptor d, objectDescriptor d, texture_set env]"
  shows "valid_pipeline_layout_info texture_pipeline_layout_info \<and>
    (\<exists>r ssbo' cmds. scene_init env empty_objects_set = Inr r \<and>
       draw_objects (scene_draw_input r d) ssbo (renderables r) = Inr (ssbo', cmds) \<and>
       list_all (cmd_compatible (scene_layouts env) (scene_sets env d)) cmds)"
proof -
  obtain x xs where ssbo: "ssbo = x # xs" using assms(1) by (cases ssbo) auto
  have "list_all (cmd_compatible (scene_layouts env) (scene_sets env d))
      (bind_material d (scene_material env) @
       [CmdPushConstants (texturePipelineLayout env) (mesh_matrix d),
        CmdBindVertexBuffers (vertex_buffer env),
        CmdDraw (of_nat (length (obj_vertices (obj_file env)))) 1 0 0])"
    using assms(2) texture_layout_push_ok
    by (simp add: bind_material_def scene_material_def scene_layouts_def scene_sets_def
        texture_pipeline_layout_info_def mesh_pipeline_layout_info_def)
  moreover note scene_init_draw_objects [OF scene_init_result ssbo, where d = d]
  ultimately show ?thesis
    using texture_layout_valid by (simp add: scene_init_result)
qed

theorem scene_draw_layout_compatible_witness:
  "valid_pipeline_layout_info texture_pipeline_layout_info \<and>
    (\<exists>r ssbo' cmds. scene_init demo_scene_env empty_objects_set = Inr r \<and>
       draw_objects (scene_draw_input r demo_input) [0] (renderables r) = Inr (ssbo', cmds) \<and>
       list_all (cmd_compatible (scene_layouts demo_scene_env) (scene_sets demo_scene_env demo_input)) cmds)"
  by (rule scene_draw_layout_compatible) (simp_all add: demo_input_def demo_scene_env_def)

end
