(* ===== verification/Spec2Isabelle.thy ===== *)
theory Spec2Isabelle
  imports Alignment DeletionQueue FrameRing Registry DrawObjects Lifetime Texture ShaderLoader RenderPass Descriptors RunLoop TextureLoad SceneSetup PipelineLayouts
begin

text \<open>
  \<^bold>\<open>A verification model of the Vulkan start-point engine.\<close>

  The program (src/src) is a single-window Vulkan renderer.  \<open>VulkanEngine::init\<close>
  (vk_engine.cpp) creates the instance, device, allocator, swapchain, command pools, render
  pass, framebuffers, synchronisation objects, descriptors, pipelines, a mipmapped texture
  (vk_texture.cpp), a mesh and the ImGui backend, and pushes a destructor for each on the
  \<open>DeletionQueue\<close> of vk_engine.h.  \<open>run\<close> polls SDL events and calls \<open>draw\<close>
  once per frame; \<open>draw\<close> works on one of \<open>FRAME_OVERLAP = 2\<close> frame slots
  (\<open>FrameData\<close>, vk_frameData.h), records the render pass and \<open>draw_objects\<close>, which
  binds the materials and meshes of the scene registry (vk_renderObjects.h/.cpp) and writes the
  per-frame camera, scene and object buffers, submits and presents.  \<open>cleanup\<close> waits
  for the device, flushes the queue and destroys the device-independent objects.

  \<^bold>\<open>Theories.\<close>
  \<^item> \<open>Prelude\<close>: machine integer types (\<open>size_t\<close> = 64 word, \<open>int\<close> = 32 word),
    \<open>VkResult\<close> codes, the error type (\<open>Abort\<close> for \<open>VK_CHECK\<close>, \<open>NullDeref\<close>,
    \<open>IndexOutOfRange\<close>, \<open>RuntimeError\<close>), the bind \<open>rbind\<close> of the result type,
    \<open>vk_check\<close>, bounds-checked indexing and the fallible loop \<open>rfor\<close>.
  \<^item> \<open>Alignment\<close>: \<open>pad_uniform_buffer_size\<close> on 64-bit words with the source's mask,
    the scene ring-buffer size and per-frame offsets.  Lemmas: round-up equation, alignment,
    bounds, unit alignment; the mask formula equals the spec's division formula for all
    sizes iff the alignment is a power of two; with one, the result falls below the size iff
    the 64-bit sum wraps.
  \<^item> \<open>DeletionQueue\<close>: \<open>push_function\<close> and \<open>flush\<close> with its reverse-iterator loop
    \<open>call_reverse\<close>.  Lemmas: \<open>flush\<close> calls the reversed registration list and clears
    the queue; the LIFO order is dependents-first iff registration is creation-ordered.
  \<^item> \<open>FrameRing\<close>: the frame orchestrator.  \<open>SyncState\<close> holds the 32-bit
    \<open>_frameNumber\<close>, the fence and semaphores of each slot, the pending GPU operations and
    three ghost flags (a CPU write to memory a pending submission reads, a present semaphore
    signalled twice, a render semaphore signalled twice).  \<open>draw\<close> is the source's
    sequence of steps, each \<open>VK_CHECK\<close> an abort; the GPU and presentation engine are the
    nondeterministic relation \<open>gpu_step\<close>; \<open>reachable\<close> closes the initial state
    (\<open>init_sync_structures\<close>) under \<open>draw\<close> and \<open>gpu_step\<close>, as \<open>run\<close> does.
    Lemmas: the invariant \<open>sync_inv\<close> by rule induction, hence a slot's fence is
    signalled iff none of its submissions is pending, no CPU/GPU race, at most two
    frames in flight, no double signal of a present semaphore; a reachable double signal of a
    render semaphore; liveness: from every reachable state GPU steps alone complete all pending
    work and signal every fence, so no semaphore wait blocks forever and the next fence wait
    succeeds; the functional effect and the error paths of \<open>draw\<close>.
  \<^item> \<open>Registry\<close>: \<open>Material\<close>, \<open>Mesh\<close>, \<open>RenderObject\<close>, \<open>RenderObjectsSets\<close>;
    a pointer into an \<open>unordered_map\<close> is the key of its entry, \<open>nullptr\<close> is \<open>None\<close>.
    Lemmas: create/get round trip, lookup of missing names, replacement on re-creation.
  \<^item> \<open>DrawObjects\<close>: \<open>draw_objects\<close> emitting its \<open>vkCmd*\<close> calls as a command list, the
    object-buffer loop as bounds-checked writes, the \<open>lastMaterial\<close>/\<open>lastMesh\<close>
    batching.  An interpreter \<open>exec_cmds\<close> of the bound state and a per-object specification
    \<open>draw_spec\<close> give the refinement lemma: each draw sees what binding everything per object
    would give it.  Lemmas: one pipeline bind per material change, the end-to-end triangle, the
    null-material dereference, the object-buffer overflow, the single model matrix.
  \<^item> \<open>Lifetime\<close>: every \<open>init_*\<close> function, \<open>create_buffer\<close>, \<open>immediate_submit\<close>,
    \<open>upload_mesh\<close>, the texture upload of vk_texture.cpp and \<open>cleanup\<close>, as steps on an
    \<open>Engine\<close> state holding the deletion queue of \<open>resource\<close> lists and ghost records of
    created objects, objects destroyed outside the queue and objects destroyed while an upload
    may read them.  Results of checked calls, the swapchain image count, shader and texture
    loading and linear-blit support come from an environment \<open>init_env\<close>.  Lemmas: the exact
    deletor sequence of \<open>init\<close>; the teardown destroys every object before what it needs;
    every created object is destroyed exactly
    once; the fence wait of \<open>immediate_submit\<close> is ignored, so the mesh staging buffer and
    the ImGui font upload buffer may be destroyed in use; a failed shader load destroys an
    uninitialised module; when \<open>init\<close> succeeds and how it fails.

  \<^item> \<open>Texture\<close>: the GPU work of the texture upload of vk_texture.cpp.  The commands
    \<open>adjustImageLayout\<close>, \<open>copyBufferToImage\<close> and \<open>generateMipmaps\<close> record
    (\<open>image_cmd\<close>: barriers, the copy, blits) are executed by \<open>exec_image_cmds\<close> on an
    \<open>image\<close> record holding per mip level its layout, whether its contents are defined and
    whether a transfer write to it is not yet available, with a ghost flag for every use the
    Vulkan valid-usage rules forbid.  The loop of \<open>generateMipmaps\<close> is
    \<open>while_option\<close> on \<open>(i, mipWidth, mipHeight, commands)\<close>; the level count is the
    source's real-valued \<open>floor(log2(max(h, w))) + 1\<close>; \<open>imageSize\<close> the 32-bit
    \<open>int\<close> product.  Lemmas: the loop invariant \<open>mip_inv\<close> and the upload of every
    image size \<open>stbi_load\<close> returns ends with every level sampled-ready and no invalid
    use (both overloads); the invariant \<open>image_wf\<close> (one entry per level in every
    per-level list) is kept, with the level count, extents and usage, by every command and so
    by every recorded sequence; the loop returns for every level count with its counter at
    the level count, the last level's extents and three commands per level; the level count equals \<open>floorlog 2\<close> and
    gives a complete chain down to \<open>1 \<times> 1\<close>; the image size is exact iff below
    \<open>2 ^ 31\<close> bytes.
  \<^item> \<open>ShaderLoader\<close>: the file reading of \<open>load_shader_module\<close>: a file is its byte
    list, the \<open>uint32_t\<close> buffer a word list laid out little-endian, \<open>file.read\<close> an
    overwrite of its memory with the out-of-range write as an error.  Lemmas: the read overruns
    the buffer iff the file size is not a multiple of 4; otherwise the words passed to
    \<open>vkCreateShaderModule\<close> are the file's bytes (round trip).

  \<^item> \<open>RenderPass\<close>: the contents of the render pass of \<open>init_default_renderpass\<close>
    (attachment descriptions, subpass, dependencies, pushed onto the engine's member vectors),
    the framebuffer create infos of \<open>init_framebuffers\<close>, the images behind their views and
    the clear values of \<open>record_cmdbuffers\<close>, with the Vulkan valid-usage rules for render
    passes, framebuffers and render-pass begin as executable predicates.  Lemmas: the pass is
    valid; the framebuffers are compatible with it iff the swapchain is at least
    \<open>_windowExtent\<close> large; the clear values cover every cleared attachment; since the
    member vectors are never cleared, a second call (which the engine never makes) would
    append a second subpass.

  \<^item> \<open>Descriptors\<close>: the descriptor set layouts, the pool, the per-frame buffers and
    descriptor writes of \<open>init_descriptors\<close>, and the texture write of \<open>init_scene\<close>
    through \<open>_loadedTextures\<close>' \<open>operator[]\<close>, with the valid-usage rules for writes,
    pools and dynamic offsets.  Lemmas: every write is valid and the pool suffices; the dynamic
    offsets \<open>draw_objects\<close> binds (\<open>DrawObjects\<close>, \<open>Alignment\<close>) are aligned and in
    range of the scene buffer for both slots; the texture write has a null view when the
    texture did not load, and the sampler's \<open>maxLod\<close> then copies the never-written
    member \<open>mipLevels\<close>.

  \<^item> \<open>RunLoop\<close>: the main loop of \<open>run\<close>.  One iteration drains its batch of
    SDL events (\<open>poll_events\<close>: \<open>SDL_QUIT\<close> sets \<open>bQuit\<close>), lets the GPU complete
    the operations that finish meanwhile (\<open>gpu_progress\<close>, each completion a
    \<open>gpu_step\<close>) and calls \<open>draw\<close>; \<open>run_loop\<close> runs iterations while
    \<open>bQuit\<close> is unset, over a finite list of per-iteration inputs.  Lemmas: every state a
    run reaches is \<open>reachable\<close> (it connects the loop to the frame-ring invariants);
    the iteration that receives \<open>SDL_QUIT\<close> still draws a frame, and the loop
    stops after it.

  \<^item> \<open>SceneSetup\<close>: the registry calls of \<open>init\<close> in their order:
    \<open>create_material("texturedmesh")\<close> of \<open>init_pipelines\<close>; \<open>load_meshes\<close>, with
    \<open>Mesh::load_from_obj\<close> (its body is not in the repository; modelled after the spec's
    mesh loader), the buffer sizes and copy region of \<open>upload_mesh\<close> and the mesh copied into
    \<open>_meshes["empire"]\<close>; and \<open>init_scene\<close>'s renderable and the texture set written
    through the material pointer.  It composes with \<open>DrawObjects\<close> through the
    \<open>draw_objects\<close> call of \<open>draw\<close>.  Lemmas: in the code's order \<open>draw_objects\<close>
    records exactly the material binds (texture set included), push constants, vertex buffer
    and one draw of all the file's vertices; a failed or empty OBJ load gives zero-size buffers
    and copy; \<open>init_scene\<close> before the material exists dereferences \<open>nullptr\<close>.

  \<^item> \<open>PipelineLayouts\<close>: the push-constant range (\<open>sizeof(MeshPushConstants)\<close> = 80
    bytes, vertex stage) and the set layouts of the mesh and textured pipeline layouts of
    \<open>init_pipelines\<close>, the set layout each descriptor set is allocated with, and the range
    \<open>draw_objects\<close> pushes, with the valid-usage rules of pipeline-layout creation (under
    the limits every device guarantees), set binds and push constants as executable
    predicates.  Lemma: the textured layout is valid and every bind and push recorded for
    \<open>init\<close>'s scene is compatible with it; the mesh layout would reject the texture set.

  \<^item> \<open>TextureLoad\<close>: \<open>load_texture\<close> and the single-level overload of
    \<open>load_image_from_file\<close> on the \<open>Engine\<close> state of \<open>Lifetime\<close>.  Its upload
    goes through \<open>immediate_submit\<close> (the commands it records are
    \<open>Texture.load_image_single_cmds\<close>).  Lemma: its exact effect on the deletion queue
    and the ghost records; the staging buffer is destroyed while the upload may read it
    exactly when the unchecked fence wait fails.

  \<^bold>\<open>Modelling choices.\<close>  \<open>draw\<close> is one atomic step of the CPU; GPU progress
  interleaves between CPU steps.  The minimum uniform-buffer alignment is \<open>2 ^ k\<close> with
  \<open>k < 32\<close>, as Vulkan guarantees a power of two; the alignment lemmas that hold for all
  alignments are stated so.  Matrices, vertices and colours are type parameters: the
  floating-point arithmetic of glm is not modelled.  A Vulkan handle is a number or a
  \<open>resource\<close> name; an environment result is the same for every invocation of a call.
  No fuel is needed: every loop is over a finite index list (\<open>rfor\<close>, \<open>fold\<close>) or
  structural recursion.  \<open>run\<close>'s unbounded loop is described twice: by the inductive
  \<open>reachable\<close> (every interleaving of frames and GPU steps) and by \<open>run_loop\<close> on a
  finite prefix of its inputs, which is all a safety property needs; and the
  one \<open>while_option\<close> loop (\<open>mip_loop\<close>) is proved to return for every input.
  Texture sizes are bounded by \<open>0 < w, h < 2 ^ 31\<close>, what \<open>stbi_load\<close> can return in
  its \<open>int\<close> outputs; this also keeps the \<open>int32_t\<close> extents of \<open>generateMipmaps\<close>
  exact.  The two submissions of the mipmap upload are executed as one command sequence, since
  a barrier's first synchronisation scope covers earlier submissions to the queue.

  \<^bold>\<open>Not modelled.\<close>  SDL event handling other than \<open>SDL_QUIT\<close> and ImGui's
  frame and drawing functions, which change no state of the engine (I/O of external
  libraries); the ImGui library's own objects: its backend is recorded as needing only the
  device, since what it allocates from \<open>imguiPool\<close> and frees at shutdown is decided by
  the ImGui sources, which are not in the repository; the create-info structures of pipelines, samplers and image views beyond the
  fields the lemmas use; the \<open>PipelineBuilder\<close> and \<open>Vertex::get_vertex_description\<close>
  (vk_pipelines.h and the body of vk_mesh.h's declarations are not in the repository; the
  OBJ loader is modelled after the specification); the image decoder and the pixel and vertex
  bytes the uploads copy; the floating-point camera, scene colour and model matrices,
  including \<open>pushFunction\<close>, whose only call is commented out; the member-function
  declarations of vk_engine.h and vk_texture.h, which the definitions of their bodies model;
  and the struct-filling helpers of vk_initializers.h, which declares them only: their bodies
  are not in the repository, so nothing of them can be translated.
\<close>

end
